theory Spec2Isabelle
  imports Main "HOL-Library.Word"
begin

section \<open>Go values shared by the whole development\<close>

text \<open>
  The development is a shallow embedding of \<^verbatim>\<open>api.go\<close> of api2go. Go's \<^verbatim>\<open>uint64\<close> is
  \<^typ>\<open>64 word\<close>, a Go map is a HOL map, a \<^verbatim>\<open>string\<close> is a \<^typ>\<open>string\<close> and an
  \<^verbatim>\<open>error\<close> is a value of the datatype \<open>error\<close>. A function that can panic returns a
  \<open>go\<close> value, so that a run-time panic is a branch of the model and not an unspecified
  HOL value.
\<close>

type_synonym uint64 = "64 word"
type_synonym bytes = string

datatype num_err = ErrSyntax | ErrRange

text \<open>
  The error values \<^verbatim>\<open>api.go\<close> builds or passes on: \<^verbatim>\<open>NewHTTPError(err, msg, status)\<close>
  (the struct whose \<^verbatim>\<open>status\<close> field \<^verbatim>\<open>handleError\<close> reads), \<^verbatim>\<open>errors.New\<close> and
  \<^verbatim>\<open>fmt.Errorf\<close> (an error that is only a text), and \<^verbatim>\<open>*strconv.NumError\<close>.
\<close>

datatype error =
    HTTPError "error option" string int
  | ErrorString string
  | NumError string string num_err

definition NewHTTPError :: "error option \<Rightarrow> string \<Rightarrow> int \<Rightarrow> error" where
  "NewHTTPError err msg status = HTTPError err msg status"

datatype 'a go = Return 'a | Panic string

definition StatusOK :: int where "StatusOK = 200"
definition StatusCreated :: int where "StatusCreated = 201"
definition StatusNoContent :: int where "StatusNoContent = 204"
definition StatusForbidden :: int where "StatusForbidden = 403"
definition StatusNotFound :: int where "StatusNotFound = 404"
definition StatusInternalServerError :: int where "StatusInternalServerError = 500"

section \<open>strconv: decimal numerals of 64 bits\<close>

text \<open>
  \<^verbatim>\<open>strconv.ParseUint(s, 10, 64)\<close> as the Go library defines it: the empty string is a
  syntax error; the bytes are read from the left, a byte that is not a decimal digit is
  a syntax error, and a value that leaves 64 bits is a range error. No sign and no
  underscore is accepted; leading zeros are.
\<close>

definition digit_of :: "char \<Rightarrow> nat option" where
  "digit_of d =
     (if (48::nat) \<le> of_char d \<and> of_char d \<le> (57::nat) then Some (of_char d - 48) else None)"

fun parse_digits :: "nat \<Rightarrow> string \<Rightarrow> num_err + nat" where
  "parse_digits n [] = Inr n"
| "parse_digits n (d # ds) =
     (case digit_of d of
        None \<Rightarrow> Inl ErrSyntax
      | Some v \<Rightarrow>
          if 2 ^ 64 \<le> n * 10 + v then Inl ErrRange else parse_digits (n * 10 + v) ds)"

definition ParseUint :: "string \<Rightarrow> error + uint64" where
  "ParseUint s =
     (if s = [] then Inl (NumError ''ParseUint'' s ErrSyntax)
      else case parse_digits 0 s of
             Inl e \<Rightarrow> Inl (NumError ''ParseUint'' s e)
           | Inr n \<Rightarrow> Inr (of_nat n))"

text \<open>\<^verbatim>\<open>strconv.FormatUint(n, 10)\<close>: the decimal numeral of \<open>n\<close>, read off the digit table.\<close>

definition digits :: string where
  "digits = ''0123456789''"

fun format_nat :: "nat \<Rightarrow> string" where
  "format_nat n =
     (if n < 10 then [digits ! n] else format_nat (n div 10) @ [digits ! (n mod 10)])"

declare format_nat.simps [simp del]

definition FormatUint :: "uint64 \<Rightarrow> string" where
  "FormatUint n = format_nat (unat n)"

section \<open>net/http and net/url: the parts of a request the handlers read\<close>

text \<open>
  \<^verbatim>\<open>url.Values\<close> is \<^verbatim>\<open>map[string][]string\<close>. A request carries its query as the decoded
  key and value pairs in the order of the query string; \<^verbatim>\<open>r.URL.Query()\<close> collects
  them into a fresh map, appending the values of a repeated key.
\<close>

type_synonym Values = "string \<rightharpoonup> string list"

record http_Request =
  Header :: "string \<rightharpoonup> string list"
  URL_Path :: string
  URL_RawQuery :: "(string \<times> string) list"
  Body :: "error + bytes"

fun ParseQuery :: "(string \<times> string) list \<Rightarrow> Values \<Rightarrow> Values" where
  "ParseQuery [] m = m"
| "ParseQuery ((k, v) # kvs) m =
     ParseQuery kvs (m(k \<mapsto> (case m k of None \<Rightarrow> [] | Some vs \<Rightarrow> vs) @ [v]))"

definition Query :: "http_Request \<Rightarrow> Values" where
  "Query r = ParseQuery (URL_RawQuery r) Map.empty"

definition Get :: "Values \<Rightarrow> string \<Rightarrow> string" where
  "Get v key = (case v key of None \<Rightarrow> '''' | Some [] \<Rightarrow> '''' | Some (x # xs) \<Rightarrow> x)"

definition Set_value :: "Values \<Rightarrow> string \<Rightarrow> string \<Rightarrow> Values" where
  "Set_value v key val = v(key \<mapsto> [val])"

section \<open>Pagination\<close>

record paginationQueryParams =
  number :: string
  size_param :: string
  offset :: string
  limit :: string

definition newPaginationQueryParams :: "http_Request \<Rightarrow> paginationQueryParams" where
  "newPaginationQueryParams r =
     (let queryParams = Query r in
      \<lparr> number = Get queryParams ''page[number]'',
        size_param = Get queryParams ''page[size]'',
        offset = Get queryParams ''page[offset]'',
        limit = Get queryParams ''page[limit]'' \<rparr>)"

definition isValid :: "paginationQueryParams \<Rightarrow> bool" where
  "isValid p =
     (if number p = '''' \<and> size_param p = '''' \<and> offset p = '''' \<and> limit p = '''' then False
      else if number p \<noteq> '''' \<and> size_param p \<noteq> '''' \<and> offset p = '''' \<and> limit p = '''' then True
      else if number p = '''' \<and> size_param p = '''' \<and> offset p \<noteq> '''' \<and> limit p \<noteq> '''' then True
      else False)"

record information =
  prefix :: string
  baseURL :: string

definition GetBaseURL :: "information \<Rightarrow> string" where
  "GetBaseURL i = baseURL i"

definition GetPrefix :: "information \<Rightarrow> string" where
  "GetPrefix i = prefix i"

definition divide_by_zero :: string where
  "divide_by_zero = ''runtime error: integer divide by zero''"

text \<open>
  \<^verbatim>\<open>getLinks\<close>. The parameter \<open>enc\<close> stands for the library call
  \<^verbatim>\<open>url.QueryUnescape(params.Encode())\<close> that renders the parameters as the query of a
  link (its error is dropped by the source). The result is the pair of named results
  \<^verbatim>\<open>(result, err)\<close>; \<^verbatim>\<open>count\<close> is the \<^verbatim>\<open>uint\<close> the source converts to \<^verbatim>\<open>uint64\<close>.
  Go panics on an integer division by zero, and the source divides by the parsed size
  as it is. The two branches of the source's function, for the number and size mode and
  for the offset and limit mode, are \<open>number_links\<close> and \<open>offset_links\<close>; \<open>params.Set\<close>
  changes the one map of parameters from link to link, as in the source.
\<close>

definition number_links ::
  "(Values \<Rightarrow> string) \<Rightarrow> paginationQueryParams \<Rightarrow> Values \<Rightarrow> string \<Rightarrow> uint64 \<Rightarrow>
     ((string \<rightharpoonup> string) \<times> error option) go" where
  "number_links enc p params requestURL count =
     (let result = Map.empty in
      case ParseUint (number p) of
        Inl err \<Rightarrow> Return (result, Some err)
      | Inr num \<Rightarrow>
          let (params, result) =
                (if number p \<noteq> ''1'' then
                   let params = Set_value params ''page[number]'' ''1'';
                       result = result(''first'' \<mapsto> requestURL @ ''?'' @ enc params);
                       params = Set_value params ''page[number]'' (FormatUint (num - 1));
                       result = result(''prev'' \<mapsto> requestURL @ ''?'' @ enc params)
                   in (params, result)
                 else (params, result))
          in case ParseUint (size_param p) of
               Inl err \<Rightarrow> Return (result, Some err)
             | Inr sz \<Rightarrow>
                 if sz = 0 then Panic divide_by_zero
                 else
                   let totalPages = count div sz;
                       totalPages = (if count mod sz \<noteq> 0 then totalPages + 1 else totalPages)
                   in if num \<noteq> totalPages then
                        let params = Set_value params ''page[number]'' (FormatUint (num + 1));
                            result = result(''next'' \<mapsto> requestURL @ ''?'' @ enc params);
                            params = Set_value params ''page[number]'' (FormatUint totalPages);
                            result = result(''last'' \<mapsto> requestURL @ ''?'' @ enc params)
                        in Return (result, None)
                      else Return (result, None))"

definition offset_links ::
  "(Values \<Rightarrow> string) \<Rightarrow> paginationQueryParams \<Rightarrow> Values \<Rightarrow> string \<Rightarrow> uint64 \<Rightarrow>
     ((string \<rightharpoonup> string) \<times> error option) go" where
  "offset_links enc p params requestURL count =
     (let result = Map.empty in
      case ParseUint (offset p) of
        Inl err \<Rightarrow> Return (result, Some err)
      | Inr off \<Rightarrow>
          (case ParseUint (limit p) of
             Inl err \<Rightarrow> Return (result, Some err)
           | Inr lim \<Rightarrow>
               let (params, result) =
                     (if offset p \<noteq> ''0'' then
                        let params = Set_value params ''page[offset]'' ''0'';
                            result = result(''first'' \<mapsto> requestURL @ ''?'' @ enc params);
                            prevOffset = (if lim > off then 0 else off - lim);
                            params = Set_value params ''page[offset]'' (FormatUint prevOffset);
                            result = result(''prev'' \<mapsto> requestURL @ ''?'' @ enc params)
                        in (params, result)
                      else (params, result))
               in if off + lim < count then
                    let params = Set_value params ''page[offset]'' (FormatUint (off + lim));
                        result = result(''next'' \<mapsto> requestURL @ ''?'' @ enc params);
                        params = Set_value params ''page[offset]'' (FormatUint (count - lim));
                        result = result(''last'' \<mapsto> requestURL @ ''?'' @ enc params)
                    in Return (result, None)
                  else Return (result, None)))"

definition getLinks ::
  "(Values \<Rightarrow> string) \<Rightarrow> paginationQueryParams \<Rightarrow> http_Request \<Rightarrow> uint64 \<Rightarrow> information \<Rightarrow>
     ((string \<rightharpoonup> string) \<times> error option) go" where
  "getLinks enc p r count info =
     (let params = Query r;
          prefix = '''';
          baseURL = GetBaseURL info;
          prefix = (if baseURL \<noteq> '''' then baseURL else prefix);
          requestURL = prefix @ URL_Path r
      in if number p \<noteq> '''' then number_links enc p params requestURL count
         else offset_links enc p params requestURL count)"

text \<open>
  The link the statements below speak of: the request's URL with the request's own
  query, in which the one key \<open>key\<close> is set to \<open>val\<close>.
\<close>

definition rewritten_link ::
  "(Values \<Rightarrow> string) \<Rightarrow> http_Request \<Rightarrow> information \<Rightarrow> string \<Rightarrow> string \<Rightarrow> string" where
  "rewritten_link enc r info key val =
     GetBaseURL info @ URL_Path r @ ''?'' @ enc ((Query r)(key \<mapsto> [val]))"

section \<open>Documents, marshalers and content negotiation\<close>

text \<open>
  A Go \<^verbatim>\<open>interface{}\<close> holding a decoded document: \<^verbatim>\<open>map[string]interface{}\<close> is
  \<open>VObject\<close>, \<^verbatim>\<open>[]interface{}\<close> is \<open>VArray\<close>, and \<open>VStringMap\<close> is the
  \<^verbatim>\<open>map[string]string\<close> of pagination links that \<^verbatim>\<open>respondWithPagination\<close> stores
  under \<^verbatim>\<open>links\<close>. A number is kept as its literal; no handler reads it.
\<close>

datatype val =
    VNil
  | VBool bool
  | VNumber string
  | VString string
  | VArray "val list"
  | VObject "string \<Rightarrow> val option"
  | VStringMap "string \<Rightarrow> string option"

type_synonym document = "string \<rightharpoonup> val"

text \<open>
  A \<^verbatim>\<open>ContentMarshaler\<close> is the built-in \<^verbatim>\<open>JSONContentMarshaler{}\<close> or any other
  implementation, given by its two methods. A map of marshalers is an association list:
  its order is the order in which \<^verbatim>\<open>range\<close> visits the keys, and a value can be the
  nil interface (\<open>None\<close>).
\<close>

datatype ContentMarshaler =
    JSONContentMarshaler
  | CustomMarshaler "val \<Rightarrow> error + bytes" "bytes \<Rightarrow> error + document"

type_synonym marshaler_map = "(string \<times> ContentMarshaler option) list"

text \<open>
  The functions of other packages that \<^verbatim>\<open>api.go\<close> calls are parameters of the model:
  \<^verbatim>\<open>encoding/json\<close>, \<^verbatim>\<open>httputil.NegotiateContentType\<close>, the rendering of a query
  (\<^verbatim>\<open>url.QueryUnescape(params.Encode())\<close>), the document codec of package
  \<^verbatim>\<open>jsonapi\<close>, and \<^verbatim>\<open>marshalError\<close> of \<^verbatim>\<open>error.go\<close>. The type \<open>'o\<close> is the type of
  the values a backend stores and returns.
\<close>

record 'o externals =
  json_Marshal :: "val \<Rightarrow> error + bytes"
  json_Unmarshal :: "bytes \<Rightarrow> error + document"
  NegotiateContentType :: "http_Request \<Rightarrow> string list \<Rightarrow> string \<Rightarrow> string"
  encodeQuery :: "Values \<Rightarrow> string"
  MarshalWithURLs :: "'o \<Rightarrow> information \<Rightarrow> error + document"
  UnmarshalInto :: "document \<Rightarrow> 'o list \<Rightarrow> error + 'o list"
  marshalError :: "error \<Rightarrow> ContentMarshaler \<Rightarrow> bytes"

fun Marshal :: "'o externals \<Rightarrow> ContentMarshaler \<Rightarrow> val \<Rightarrow> error + bytes" where
  "Marshal ext JSONContentMarshaler i = json_Marshal ext i"
| "Marshal ext (CustomMarshaler m u) i = m i"

fun Unmarshal :: "'o externals \<Rightarrow> ContentMarshaler \<Rightarrow> bytes \<Rightarrow> error + document" where
  "Unmarshal ext JSONContentMarshaler data = json_Unmarshal ext data"
| "Unmarshal ext (CustomMarshaler m u) data = u data"

text \<open>
  \<^verbatim>\<open>marshalers[contentType]\<close>: the nil marshaler when the map has no such key, the
  stored value otherwise.
\<close>

definition lookup_marshaler :: "marshaler_map \<Rightarrow> string \<Rightarrow> ContentMarshaler option" where
  "lookup_marshaler ms contentType = (case map_of ms contentType of None \<Rightarrow> None | Some m \<Rightarrow> m)"

definition index_out_of_range :: string where
  "index_out_of_range = ''runtime error: index out of range [0] with length 0''"

definition jsonapi_mime :: string where
  "jsonapi_mime = ''application/vnd.api+json''"

text \<open>
  \<^verbatim>\<open>selectContentMarshaler\<close>. The named results start as the nil marshaler and the
  empty string. \<^verbatim>\<open>contentTypes[0]\<close> panics when the header is present with no value.
\<close>

definition selectContentMarshaler ::
  "'o externals \<Rightarrow> http_Request \<Rightarrow> marshaler_map \<Rightarrow> (ContentMarshaler \<times> string) go" where
  "selectContentMarshaler ext r ms =
     (let chosen =
        (case Header r ''Accept'' of
           Some accept \<Rightarrow>
             let contentTypes = map fst ms;
                 contentType = NegotiateContentType ext r contentTypes jsonapi_mime
             in Return (lookup_marshaler ms contentType, contentType)
         | None \<Rightarrow>
             (case Header r ''Content-Type'' of
                Some contentTypes \<Rightarrow>
                  (case contentTypes of
                     [] \<Rightarrow> Panic index_out_of_range
                   | contentType # rest \<Rightarrow> Return (lookup_marshaler ms contentType, contentType))
              | None \<Rightarrow> Return (None, '''')))
      in case chosen of
           Panic msg \<Rightarrow> Panic msg
         | Return (marshaler, contentType) \<Rightarrow>
             (case marshaler of
                None \<Rightarrow> Return (JSONContentMarshaler, jsonapi_mime)
              | Some m \<Rightarrow> Return (m, contentType)))"

section \<open>Response writer, backend and the state a handler runs in\<close>

text \<open>
  The \<^verbatim>\<open>http.ResponseWriter\<close> a handler is given by the server of net/http, for a
  request other than \<^verbatim>\<open>HEAD\<close>. \<open>rw_status\<close> is the status of the final response,
  \<open>None\<close> as long as no header was written. \<^verbatim>\<open>WriteHeader\<close> does nothing once the
  header was written; otherwise \<^verbatim>\<open>checkWriteHeaderCode\<close> panics on a code outside
  100..999, a code from 100 to 199 other than 101 is sent as an interim response and
  leaves the final status open (the interim responses are not kept in the record), and
  any other code becomes the status. \<^verbatim>\<open>Write\<close> writes the header with status 200 when
  none was written, and drops the bytes when the status allows no body
  (\<^verbatim>\<open>bodyAllowedForStatus\<close>); \<^verbatim>\<open>writeResult\<close> ignores what \<^verbatim>\<open>Write\<close> returns.
\<close>

record ResponseWriter =
  rw_header :: "string \<rightharpoonup> string list"
  rw_status :: "int option"
  rw_body :: bytes

definition Header_Set :: "ResponseWriter \<Rightarrow> string \<Rightarrow> string \<Rightarrow> ResponseWriter" where
  "Header_Set w key val = w\<lparr>rw_header := (rw_header w)(key \<mapsto> [val])\<rparr>"

text \<open>\<^verbatim>\<open>fmt.Sprintf("%v", code)\<close> for an \<^verbatim>\<open>int\<close>: the decimal numeral, with its sign.\<close>

definition format_int :: "int \<Rightarrow> string" where
  "format_int i = (if i < 0 then CHR ''-'' # format_nat (nat (- i)) else format_nat (nat i))"

definition checkWriteHeaderCode :: "int \<Rightarrow> unit go" where
  "checkWriteHeaderCode code =
     (if code < 100 \<or> 999 < code then Panic (''invalid WriteHeader code '' @ format_int code)
      else Return ())"

definition WriteHeader :: "ResponseWriter \<Rightarrow> int \<Rightarrow> ResponseWriter go" where
  "WriteHeader w code =
     (if rw_status w \<noteq> None then Return w
      else case checkWriteHeaderCode code of
             Panic msg \<Rightarrow> Panic msg
           | Return u \<Rightarrow>
               if 100 \<le> code \<and> code \<le> 199 \<and> code \<noteq> 101 then Return w
               else Return (w\<lparr>rw_status := Some code\<rparr>))"

definition bodyAllowedForStatus :: "int \<Rightarrow> bool" where
  "bodyAllowedForStatus status =
     (if 100 \<le> status \<and> status \<le> 199 then False
      else if status = StatusNoContent then False
      else if status = 304 then False
      else True)"

definition Write :: "ResponseWriter \<Rightarrow> bytes \<Rightarrow> ResponseWriter" where
  "Write w data =
     (let w = (if rw_status w = None then w\<lparr>rw_status := Some StatusOK\<rparr> else w)
      in case rw_status w of
           None \<Rightarrow> w
         | Some status \<Rightarrow>
             if bodyAllowedForStatus status then w\<lparr>rw_body := rw_body w @ data\<rparr> else w)"

text \<open>
  \<^verbatim>\<open>writeResult\<close>. The result holds the panic of \<^verbatim>\<open>WriteHeader\<close>, if any, and the
  writer as the call leaves it: the \<^verbatim>\<open>Content-Type\<close> is set before \<^verbatim>\<open>WriteHeader\<close>
  runs.
\<close>

definition writeResult ::
  "ResponseWriter \<Rightarrow> bytes \<Rightarrow> int \<Rightarrow> string \<Rightarrow> unit go \<times> ResponseWriter" where
  "writeResult w data status contentType =
     (let w = Header_Set w ''Content-Type'' contentType
      in case WriteHeader w status of
           Panic msg \<Rightarrow> (Panic msg, w)
         | Return w \<Rightarrow> (Return (), Write w data))"

record Request =
  PlainRequest :: http_Request
  QueryParams :: "string \<rightharpoonup> string list"
  Header_of_Request :: "string \<rightharpoonup> string list"

fun Split :: "string \<Rightarrow> char \<Rightarrow> string list" where
  "Split [] sep = [[]]"
| "Split (c # cs) sep =
     (if c = sep then [] # Split cs sep
      else case Split cs sep of [] \<Rightarrow> [[c]] | x # xs \<Rightarrow> (c # x) # xs)"

text \<open>
  \<^verbatim>\<open>buildRequest\<close>. Every key of \<^verbatim>\<open>r.URL.Query()\<close> has a value (lemma
  \<open>Query_values_nonempty\<close> below), so \<^verbatim>\<open>values[0]\<close> is in range; the empty case is
  written out and never taken.
\<close>

definition buildRequest :: "http_Request \<Rightarrow> Request" where
  "buildRequest r =
     \<lparr> PlainRequest = r,
       QueryParams =
         (\<lambda>key. case Query r key of
                   None \<Rightarrow> None
                 | Some [] \<Rightarrow> None
                 | Some (v # vs) \<Rightarrow> Some (Split v CHR '','')),
       Header_of_Request = Header r \<rparr>"

text \<open>
  The backend. Its operations read and change a state \<open>'s\<close> of their own. The four
  operations of \<^verbatim>\<open>CRUD\<close> are always there; \<^verbatim>\<open>FindAll\<close> and \<^verbatim>\<open>PaginatedFindAll\<close> are
  the optional interfaces a type assertion finds or not.
\<close>

record ('o, 's) CRUD =
  FindOne :: "string \<Rightarrow> Request \<Rightarrow> 's \<Rightarrow> (error + 'o) \<times> 's"
  Create :: "'o \<Rightarrow> Request \<Rightarrow> 's \<Rightarrow> (error + string) \<times> 's"
  Delete :: "string \<Rightarrow> Request \<Rightarrow> 's \<Rightarrow> error option \<times> 's"
  Update :: "'o \<Rightarrow> Request \<Rightarrow> 's \<Rightarrow> error option \<times> 's"
  FindAll :: "(Request \<Rightarrow> 's \<Rightarrow> (error + 'o) \<times> 's) option"
  PaginatedFindAll :: "(Request \<Rightarrow> 's \<Rightarrow> (error + 'o \<times> uint64) \<times> 's) option"

datatype 'o call =
    Called_FindOne string
  | Called_Create 'o
  | Called_Delete string
  | Called_Update 'o
  | Called_FindAll
  | Called_PaginatedFindAll

text \<open>
  What a handler can change: the backend's state, the response writer and the log. The
  field \<open>calls\<close> records the backend operations invoked so far, in order.
\<close>

record ('o, 's) world =
  backend :: 's
  calls :: "'o call list"
  writer :: ResponseWriter
  logged :: "error list"

datatype outcome = Done | Failed error | Panicked string

definition call_FindOne ::
  "('o, 's) CRUD \<Rightarrow> string \<Rightarrow> Request \<Rightarrow> ('o, 's) world \<Rightarrow> (error + 'o) \<times> ('o, 's) world" where
  "call_FindOne src ident req wld =
     (case FindOne src ident req (backend wld) of
        (res, s) \<Rightarrow> (res, wld\<lparr>backend := s, calls := calls wld @ [Called_FindOne ident]\<rparr>))"

definition call_Create ::
  "('o, 's) CRUD \<Rightarrow> 'o \<Rightarrow> Request \<Rightarrow> ('o, 's) world \<Rightarrow> (error + string) \<times> ('o, 's) world" where
  "call_Create src obj req wld =
     (case Create src obj req (backend wld) of
        (res, s) \<Rightarrow> (res, wld\<lparr>backend := s, calls := calls wld @ [Called_Create obj]\<rparr>))"

definition call_Update ::
  "('o, 's) CRUD \<Rightarrow> 'o \<Rightarrow> Request \<Rightarrow> ('o, 's) world \<Rightarrow> error option \<times> ('o, 's) world" where
  "call_Update src obj req wld =
     (case Update src obj req (backend wld) of
        (res, s) \<Rightarrow> (res, wld\<lparr>backend := s, calls := calls wld @ [Called_Update obj]\<rparr>))"

definition call_FindAll ::
  "(Request \<Rightarrow> 's \<Rightarrow> (error + 'o) \<times> 's) \<Rightarrow> Request \<Rightarrow> ('o, 's) world \<Rightarrow>
     (error + 'o) \<times> ('o, 's) world" where
  "call_FindAll f req wld =
     (case f req (backend wld) of
        (res, s) \<Rightarrow> (res, wld\<lparr>backend := s, calls := calls wld @ [Called_FindAll]\<rparr>))"

definition call_PaginatedFindAll ::
  "(Request \<Rightarrow> 's \<Rightarrow> (error + 'o \<times> uint64) \<times> 's) \<Rightarrow> Request \<Rightarrow> ('o, 's) world \<Rightarrow>
     (error + 'o \<times> uint64) \<times> ('o, 's) world" where
  "call_PaginatedFindAll f req wld =
     (case f req (backend wld) of
        (res, s) \<Rightarrow> (res, wld\<lparr>backend := s, calls := calls wld @ [Called_PaginatedFindAll]\<rparr>))"

section \<open>Responses and errors\<close>

definition unmarshalRequest ::
  "'o externals \<Rightarrow> http_Request \<Rightarrow> marshaler_map \<Rightarrow> (error + document) go" where
  "unmarshalRequest ext r ms =
     (case Body r of
        Inl err \<Rightarrow> Return (Inl err)
      | Inr data \<Rightarrow>
          (case selectContentMarshaler ext r ms of
             Panic msg \<Rightarrow> Panic msg
           | Return (marshaler, contentType) \<Rightarrow>
               (case Unmarshal ext marshaler data of
                  Inl err \<Rightarrow> Return (Inl err)
                | Inr result \<Rightarrow> Return (Inr result))))"

definition marshalResponse ::
  "'o externals \<Rightarrow> val \<Rightarrow> int \<Rightarrow> http_Request \<Rightarrow> marshaler_map \<Rightarrow> ('o, 's) world \<Rightarrow>
     outcome \<times> ('o, 's) world" where
  "marshalResponse ext resp st r ms wld =
     (case selectContentMarshaler ext r ms of
        Panic msg \<Rightarrow> (Panicked msg, wld)
      | Return (marshaler, contentType) \<Rightarrow>
          (case Marshal ext marshaler resp of
             Inl err \<Rightarrow> (Failed err, wld)
           | Inr result \<Rightarrow>
               (case writeResult (writer wld) result st contentType of
                  (Panic msg, w) \<Rightarrow> (Panicked msg, wld\<lparr>writer := w\<rparr>)
                | (Return u, w) \<Rightarrow> (Done, wld\<lparr>writer := w\<rparr>))))"

definition respondWith ::
  "'o externals \<Rightarrow> 'o \<Rightarrow> information \<Rightarrow> int \<Rightarrow> http_Request \<Rightarrow> marshaler_map \<Rightarrow>
     ('o, 's) world \<Rightarrow> outcome \<times> ('o, 's) world" where
  "respondWith ext obj info st r ms wld =
     (case MarshalWithURLs ext obj info of
        Inl err \<Rightarrow> (Failed err, wld)
      | Inr data \<Rightarrow> marshalResponse ext (VObject data) st r ms wld)"

definition respondWithPagination ::
  "'o externals \<Rightarrow> 'o \<Rightarrow> information \<Rightarrow> int \<Rightarrow> (string \<rightharpoonup> string) \<Rightarrow> http_Request \<Rightarrow>
     marshaler_map \<Rightarrow> ('o, 's) world \<Rightarrow> outcome \<times> ('o, 's) world" where
  "respondWithPagination ext obj info st links r ms wld =
     (case MarshalWithURLs ext obj info of
        Inl err \<Rightarrow> (Failed err, wld)
      | Inr data \<Rightarrow>
          marshalResponse ext (VObject (data(''links'' \<mapsto> VStringMap links))) st r ms wld)"

text \<open>
  \<^verbatim>\<open>handleError\<close>: the error is logged, and \<^verbatim>\<open>writeResult\<close> is called with the
  error's own status when it is an \<^verbatim>\<open>HTTPError\<close>, with 500 otherwise. The status of an
  \<^verbatim>\<open>HTTPError\<close> is any \<^verbatim>\<open>int\<close> and is handed on unchecked.
\<close>

definition handleError ::
  "'o externals \<Rightarrow> error \<Rightarrow> http_Request \<Rightarrow> marshaler_map \<Rightarrow> ('o, 's) world \<Rightarrow>
     outcome \<times> ('o, 's) world" where
  "handleError ext err r ms wld =
     (case selectContentMarshaler ext r ms of
        Panic msg \<Rightarrow> (Panicked msg, wld)
      | Return (marshaler, contentType) \<Rightarrow>
          let wld = wld\<lparr>logged := logged wld @ [err]\<rparr> in
          (case err of
             HTTPError inner msg st \<Rightarrow>
               (case writeResult (writer wld) (marshalError ext err marshaler) st contentType of
                  (Panic msg, w) \<Rightarrow> (Panicked msg, wld\<lparr>writer := w\<rparr>)
                | (Return u, w) \<Rightarrow> (Done, wld\<lparr>writer := w\<rparr>))
           | _ \<Rightarrow>
               (case writeResult (writer wld) (marshalError ext err marshaler)
                       StatusInternalServerError contentType of
                  (Panic msg, w) \<Rightarrow> (Panicked msg, wld\<lparr>writer := w\<rparr>)
                | (Return u, w) \<Rightarrow> (Done, wld\<lparr>writer := w\<rparr>))))"

section \<open>The handlers of a resource\<close>

text \<open>
  What \<^verbatim>\<open>reflect\<close> tells about a prototype's type: its kind, its name, and the name of
  the type a pointer points to (\<^verbatim>\<open>resourceType.Elem().Name()\<close>).
\<close>

datatype kind = Struct | Ptr | Other_kind

record reflect_Type =
  Kind :: kind
  type_Name :: string
  elem_Name :: string

record ('o, 's) resource =
  resourceType :: reflect_Type
  source :: "('o, 's) CRUD"
  name :: string
  marshalers :: marshaler_map

definition handleIndex ::
  "'o externals \<Rightarrow> ('o, 's) resource \<Rightarrow> http_Request \<Rightarrow> information \<Rightarrow> ('o, 's) world \<Rightarrow>
     outcome \<times> ('o, 's) world" where
  "handleIndex ext res r info wld =
     (let pagination = newPaginationQueryParams r in
      if isValid pagination then
        (case PaginatedFindAll (source res) of
           None \<Rightarrow>
             (Failed (NewHTTPError None
                ''Resource does not implement the PaginatedFindAll interface'' StatusNotFound), wld)
         | Some paginatedFindAll \<Rightarrow>
             (case call_PaginatedFindAll paginatedFindAll (buildRequest r) wld of
                (Inl err, wld) \<Rightarrow> (Failed err, wld)
              | (Inr (objs, count), wld) \<Rightarrow>
                  (case getLinks (encodeQuery ext) pagination r count info of
                     Panic msg \<Rightarrow> (Panicked msg, wld)
                   | Return (paginationLinks, Some err) \<Rightarrow> (Failed err, wld)
                   | Return (paginationLinks, None) \<Rightarrow>
                       respondWithPagination ext objs info StatusOK paginationLinks r
                         (marshalers res) wld)))
      else
        (case FindAll (source res) of
           None \<Rightarrow>
             (Failed (NewHTTPError None
                ''Resource does not implement the FindAll interface'' StatusNotFound), wld)
         | Some findAll \<Rightarrow>
             (case call_FindAll findAll (buildRequest r) wld of
                (Inl err, wld) \<Rightarrow> (Failed err, wld)
              | (Inr objs, wld) \<Rightarrow> respondWith ext objs info StatusOK r (marshalers res) wld)))"

text \<open>
  \<^verbatim>\<open>handleCreate\<close>. \<^verbatim>\<open>jsonapi.UnmarshalInto\<close> receives the empty slice and returns the
  slice of decoded objects.
\<close>

definition handleCreate ::
  "'o externals \<Rightarrow> ('o, 's) resource \<Rightarrow> http_Request \<Rightarrow> string \<Rightarrow> information \<Rightarrow>
     ('o, 's) world \<Rightarrow> outcome \<times> ('o, 's) world" where
  "handleCreate ext res r pfx info wld =
     (case unmarshalRequest ext r (marshalers res) of
        Panic msg \<Rightarrow> (Panicked msg, wld)
      | Return (Inl err) \<Rightarrow> (Failed err, wld)
      | Return (Inr ctx) \<Rightarrow>
          (case UnmarshalInto ext ctx [] of
             Inl err \<Rightarrow> (Failed err, wld)
           | Inr newObjs \<Rightarrow>
               if length newObjs \<noteq> 1 then (Failed (ErrorString ''expected one object in POST''), wld)
               else
                 let newObj = newObjs ! 0 in
                 (case call_Create (source res) newObj (buildRequest r) wld of
                    (Inl err, wld) \<Rightarrow> (Failed err, wld)
                  | (Inr ident, wld) \<Rightarrow>
                      let wld = wld\<lparr>writer :=
                            Header_Set (writer wld) ''Location'' (pfx @ name res @ ''/'' @ ident)\<rparr>
                      in (case call_FindOne (source res) ident (buildRequest r) wld of
                            (Inl err, wld) \<Rightarrow> (Failed err, wld)
                          | (Inr obj, wld) \<Rightarrow>
                              respondWith ext obj info StatusCreated r (marshalers res) wld))))"

text \<open>
  \<^verbatim>\<open>handleUpdate\<close>; \<open>ident\<close> is \<^verbatim>\<open>ps.ByName("id")\<close>. \<^verbatim>\<open>jsonapi.UnmarshalInto\<close> receives
  the slice that holds the fetched object.
\<close>

definition forbidden :: "string \<Rightarrow> error" where
  "forbidden detail = NewHTTPError (Some (ErrorString ''Forbidden'')) detail StatusForbidden"

definition handleUpdate ::
  "'o externals \<Rightarrow> ('o, 's) resource \<Rightarrow> http_Request \<Rightarrow> string \<Rightarrow> ('o, 's) world \<Rightarrow>
     outcome \<times> ('o, 's) world" where
  "handleUpdate ext res r ident wld =
     (case call_FindOne (source res) ident (buildRequest r) wld of
        (Inl err, wld) \<Rightarrow> (Failed err, wld)
      | (Inr obj, wld) \<Rightarrow>
          (case unmarshalRequest ext r (marshalers res) of
             Panic msg \<Rightarrow> (Panicked msg, wld)
           | Return (Inl err) \<Rightarrow> (Failed err, wld)
           | Return (Inr ctx) \<Rightarrow>
               (case ctx ''data'' of
                  None \<Rightarrow> (Failed (forbidden ''missing mandatory data key.''), wld)
                | Some data \<Rightarrow>
                    (case data of
                       VObject check \<Rightarrow>
                         if check ''id'' = None then
                           (Failed (forbidden ''missing mandatory id key.''), wld)
                         else if check ''type'' = None then
                           (Failed (forbidden ''missing mandatory type key.''), wld)
                         else
                           (case UnmarshalInto ext ctx [obj] of
                              Inl err \<Rightarrow> (Failed err, wld)
                            | Inr updatingObjs \<Rightarrow>
                                if length updatingObjs \<noteq> 1 then
                                  (Failed (ErrorString ''expected one object''), wld)
                                else
                                  let updatingObj = updatingObjs ! 0 in
                                  (case call_Update (source res) updatingObj (buildRequest r) wld of
                                     (Some err, wld) \<Rightarrow> (Failed err, wld)
                                   | (None, wld) \<Rightarrow>
                                       (case WriteHeader (writer wld) StatusNoContent of
                                          Panic msg \<Rightarrow> (Panicked msg, wld)
                                        | Return w \<Rightarrow> (Done, wld\<lparr>writer := w\<rparr>))))
                     | _ \<Rightarrow> (Failed (forbidden ''data must contain an object.''), wld)))))"

text \<open>
  The closures \<^verbatim>\<open>addResource\<close> registers for \<^verbatim>\<open>GET\<close> and \<^verbatim>\<open>POST\<close> on the collection
  and \<^verbatim>\<open>PATCH\<close> on an item: the handler, then \<^verbatim>\<open>handleError\<close> on the error it
  returns.
\<close>

definition on_error ::
  "'o externals \<Rightarrow> http_Request \<Rightarrow> marshaler_map \<Rightarrow> outcome \<times> ('o, 's) world \<Rightarrow>
     outcome \<times> ('o, 's) world" where
  "on_error ext r ms res =
     (case res of
        (Failed err, wld) \<Rightarrow> handleError ext err r ms wld
      | (Done, wld) \<Rightarrow> (Done, wld)
      | (Panicked msg, wld) \<Rightarrow> (Panicked msg, wld))"

definition serve_index ::
  "'o externals \<Rightarrow> ('o, 's) resource \<Rightarrow> information \<Rightarrow> http_Request \<Rightarrow> ('o, 's) world \<Rightarrow>
     outcome \<times> ('o, 's) world" where
  "serve_index ext res info r wld = on_error ext r (marshalers res) (handleIndex ext res r info wld)"

definition serve_create ::
  "'o externals \<Rightarrow> ('o, 's) resource \<Rightarrow> string \<Rightarrow> information \<Rightarrow> http_Request \<Rightarrow>
     ('o, 's) world \<Rightarrow> outcome \<times> ('o, 's) world" where
  "serve_create ext res pfx info r wld =
     on_error ext r (marshalers res) (handleCreate ext res r pfx info wld)"

definition serve_update ::
  "'o externals \<Rightarrow> ('o, 's) resource \<Rightarrow> http_Request \<Rightarrow> string \<Rightarrow> ('o, 's) world \<Rightarrow>
     outcome \<times> ('o, 's) world" where
  "serve_update ext res r ident wld =
     on_error ext r (marshalers res) (handleUpdate ext res r ident wld)"

section \<open>Registration of a resource\<close>

text \<open>
  A \<^verbatim>\<open>jsonapi.Reference\<close> and the prototype passed to \<^verbatim>\<open>addResource\<close>: the type
  \<^verbatim>\<open>reflect.TypeOf\<close> gives, the references of \<^verbatim>\<open>GetReferences()\<close> when the prototype
  implements \<^verbatim>\<open>jsonapi.MarshalReferences\<close>, and whether \<^verbatim>\<open>ptrPrototype\<close> implements
  \<^verbatim>\<open>jsonapi.EditToManyRelations\<close>.
\<close>

record Reference =
  Type :: string
  Name :: string

record prototype =
  TypeOf :: reflect_Type
  MarshalReferences :: "Reference list option"
  ptr_EditToManyRelations :: bool

text \<open>
  The router is the list of the routes registered so far. A route names the method of
  the resource its closure calls. The router's own refusal of conflicting paths is not
  part of the model.
\<close>

datatype handler =
    options_collection
  | options_item
  | to_handleIndex
  | to_handleRead
  | to_handleReadRelation Reference
  | to_handleLinked Reference
  | to_handleReplaceRelation Reference
  | to_handleAddToManyRelation Reference
  | to_handleDeleteToManyRelation Reference
  | to_handleCreate
  | to_handleDelete
  | to_handleUpdate

record route =
  verb :: string
  path :: string
  handle :: handler

record ('o, 's) API =
  router :: "route list"
  prefix_of_API :: string
  info_of_API :: information
  resources :: "('o, 's) resource list"
  marshalers_of_API :: marshaler_map

definition relation_routes ::
  "(string \<Rightarrow> string) \<Rightarrow> string \<Rightarrow> string \<Rightarrow> bool \<Rightarrow> Reference \<Rightarrow> route list" where
  "relation_routes Pluralize pfx nm editToMany relation =
     [\<lparr>verb = ''GET'', path = pfx @ nm @ ''/:id/relationships/'' @ Name relation,
       handle = to_handleReadRelation relation\<rparr>,
      \<lparr>verb = ''GET'', path = pfx @ nm @ ''/:id/'' @ Name relation,
       handle = to_handleLinked relation\<rparr>,
      \<lparr>verb = ''PATCH'', path = pfx @ nm @ ''/:id/relationships/'' @ Name relation,
       handle = to_handleReplaceRelation relation\<rparr>] @
     (if editToMany \<and> Name relation = Pluralize (Name relation) then
        [\<lparr>verb = ''POST'', path = pfx @ nm @ ''/:id/relationships/'' @ Name relation,
          handle = to_handleAddToManyRelation relation\<rparr>,
         \<lparr>verb = ''DELETE'', path = pfx @ nm @ ''/:id/relationships/'' @ Name relation,
          handle = to_handleDeleteToManyRelation relation\<rparr>]
      else [])"

text \<open>
  \<^verbatim>\<open>addResource\<close>; \<open>Pluralize\<close> and \<open>Jsonify\<close> are the functions of package
  \<^verbatim>\<open>jsonapi\<close>. \<open>resource_routes\<close> lists the routes in the order the source registers
  them. The result is the API with its new routes and resource, and the resource.
\<close>

definition resource_routes ::
  "(string \<Rightarrow> string) \<Rightarrow> string \<Rightarrow> string \<Rightarrow> prototype \<Rightarrow> route list" where
  "resource_routes Pluralize pfx nm proto =
     [\<lparr>verb = ''OPTIONS'', path = pfx @ nm, handle = options_collection\<rparr>,
      \<lparr>verb = ''OPTIONS'', path = pfx @ nm @ ''/:id'', handle = options_item\<rparr>,
      \<lparr>verb = ''GET'', path = pfx @ nm, handle = to_handleIndex\<rparr>,
      \<lparr>verb = ''GET'', path = pfx @ nm @ ''/:id'', handle = to_handleRead\<rparr>] @
     (case MarshalReferences proto of
        None \<Rightarrow> []
      | Some relations \<Rightarrow>
          concat (map (relation_routes Pluralize pfx nm (ptr_EditToManyRelations proto))
            relations)) @
     [\<lparr>verb = ''POST'', path = pfx @ nm, handle = to_handleCreate\<rparr>,
      \<lparr>verb = ''DELETE'', path = pfx @ nm @ ''/:id'', handle = to_handleDelete\<rparr>,
      \<lparr>verb = ''PATCH'', path = pfx @ nm @ ''/:id'', handle = to_handleUpdate\<rparr>]"

definition addResource ::
  "(string \<Rightarrow> string) \<Rightarrow> (string \<Rightarrow> string) \<Rightarrow> ('o, 's) API \<Rightarrow> prototype \<Rightarrow> ('o, 's) CRUD \<Rightarrow>
     marshaler_map \<Rightarrow> (('o, 's) API \<times> ('o, 's) resource) go" where
  "addResource Pluralize Jsonify api proto src ms =
     (let rt = TypeOf proto in
      if Kind rt \<noteq> Struct \<and> Kind rt \<noteq> Ptr then
        Panic ''pass an empty resource struct or a struct pointer to AddResource!''
      else
        let nm = (if Kind rt = Struct then type_Name rt else elem_Name rt);
            nm = Jsonify (Pluralize nm);
            res = \<lparr>resourceType = rt, source = src, name = nm, marshalers = ms\<rparr>;
            routes = resource_routes Pluralize (prefix_of_API api) nm proto
        in Return (api\<lparr>router := router api @ routes, resources := resources api @ [res]\<rparr>, res))"

section \<open>The tree of structured errors\<close>

text \<open>
  Modelled from the spec: \<^verbatim>\<open>error.go\<close>, which declares the structured error, its
  \<^verbatim>\<open>NewHTTPError\<close> and its \<^verbatim>\<open>AddHTTPError\<close>, is not among the sources; only its test
  \<^verbatim>\<open>error_test.go\<close> is. The spec describes a node that carries a status code, a
  title, a detail, an ordered sequence of nested errors of its own type, and a count.
  The test reads two fields of the node, \<^verbatim>\<open>errors\<close> and \<^verbatim>\<open>errorsCount\<close>.
\<close>

datatype httpError =
  ErrorNode (node_status: int) (node_title: string) (node_detail: string)
    (errors: "httpError list") (errorsCount: int)

text \<open>
  The test of \<^verbatim>\<open>error_test.go\<close>, with the operation under test as a parameter: an
  error is appended to itself twenty times (the argument is passed by value, so each
  append receives the error as it is before the append), and the test expects the
  count 20 and as many immediate children as the count says.
\<close>

definition can_create_array_tree :: "(httpError \<Rightarrow> httpError \<Rightarrow> httpError) \<Rightarrow> httpError \<Rightarrow> bool" where
  "can_create_array_tree add httpErr =
     (let httpErr = ((\<lambda>e. add e e) ^^ 20) httpErr
      in errorsCount httpErr = 20 \<and> int (length (errors httpErr)) = errorsCount httpErr)"





section \<open>Requests as the server delivers them, and a small instance\<close>

text \<open>
  net/http gives every header it stores at least one value. \<^verbatim>\<open>selectContentMarshaler\<close>
  relies on it for \<^verbatim>\<open>Content-Type\<close>, the one header it indexes.
\<close>

definition content_type_has_value :: "http_Request \<Rightarrow> bool" where
  "content_type_has_value r = (Header r ''Content-Type'' \<noteq> Some [])"

text \<open>\<^verbatim>\<open>strings.Contains\<close>, to compare a message with a quoted phrase.\<close>

fun HasPrefix :: "string \<Rightarrow> string \<Rightarrow> bool" where
  "HasPrefix s [] = True"
| "HasPrefix [] (c # cs) = False"
| "HasPrefix (d # ds) (c # cs) = (d = c \<and> HasPrefix ds cs)"

fun Contains :: "string \<Rightarrow> string \<Rightarrow> bool" where
  "Contains [] sub = (sub = [])"
| "Contains (d # ds) sub = (HasPrefix (d # ds) sub \<or> Contains ds sub)"

text \<open>
  A small instance on which the statements below are run: a backend that stores posts
  as texts and counts its writes, a codec that puts an object under \<^verbatim>\<open>data\<close>, a
  JSON stand-in that knows three request bodies, and a negotiation that knows exact
  matches only: it picks the first offer that is one of the values of \<^verbatim>\<open>Accept\<close>, and
  the default offer when there is none.
\<close>

definition ex_ext :: "string externals" where
  "ex_ext =
     \<lparr> json_Marshal =
         (\<lambda>v. case v of
                VObject d \<Rightarrow> (case d ''data'' of Some (VString s) \<Rightarrow> Inr s | _ \<Rightarrow> Inr ''{}'')
              | _ \<Rightarrow> Inr ''{}''),
       json_Unmarshal =
         (\<lambda>b. if b = ''full'' then
                Inr [''data'' \<mapsto> VObject [''id'' \<mapsto> VString ''1'', ''type'' \<mapsto> VString ''posts'']]
              else if b = ''no-id'' then Inr [''data'' \<mapsto> VObject [''type'' \<mapsto> VString ''posts'']]
              else if b = ''no-data'' then Inr Map.empty
              else Inl (ErrorString ''unexpected end of JSON input'')),
       NegotiateContentType =
         (\<lambda>r offers dflt.
            case Header r ''Accept'' of
              None \<Rightarrow> dflt
            | Some accept \<Rightarrow>
                (case List.find (\<lambda>offer. offer \<in> set accept) offers of
                   None \<Rightarrow> dflt
                 | Some offer \<Rightarrow> offer)),
       encodeQuery = (\<lambda>v. Get v ''page[number]''),
       MarshalWithURLs = (\<lambda>obj info. Inr [''data'' \<mapsto> VString obj]),
       UnmarshalInto = (\<lambda>doc objs. Inr [''decoded post'']),
       marshalError = (\<lambda>err m. ''error'') \<rparr>"

definition ex_source :: "(string, nat) CRUD" where
  "ex_source =
     \<lparr> FindOne =
         (\<lambda>ident req s. if ident = ''1'' then (Inr ''stored post 1'', s)
                         else (Inl (HTTPError None ''post not found'' 404), s)),
       Create = (\<lambda>obj req s. (Inr ''1'', s + 1)),
       Delete = (\<lambda>ident req s. (None, s + 1)),
       Update = (\<lambda>obj req s. (None, s + 1)),
       FindAll = Some (\<lambda>req s. (Inr ''all posts'', s)),
       PaginatedFindAll = Some (\<lambda>req s. (Inr (''one page of posts'', 25), s)) \<rparr>"

definition ex_resource :: "(string, nat) resource" where
  "ex_resource =
     \<lparr> resourceType = \<lparr>Kind = Struct, type_Name = ''Post'', elem_Name = ''''\<rparr>,
       source = ex_source,
       name = ''posts'',
       marshalers = [(''application/vnd.api+json'', Some JSONContentMarshaler)] \<rparr>"

text \<open>
  A marshaler map with a marshaler for HTML, a nil entry for plain text and the JSON
  marshaler.
\<close>

definition ex_marshaler_map :: marshaler_map where
  "ex_marshaler_map =
     [(''text/html'', Some (CustomMarshaler (\<lambda>v. Inr ''<html/>'') (\<lambda>b. Inr Map.empty))),
      (''text/plain'', None),
      (''application/vnd.api+json'', Some JSONContentMarshaler)]"

definition ex_info :: information where
  "ex_info = \<lparr>prefix = ''v1'', baseURL = ''''\<rparr>"

definition ex_world :: "(string, nat) world" where
  "ex_world =
     \<lparr> backend = 0, calls = [],
       writer = \<lparr>rw_header = Map.empty, rw_status = None, rw_body = ''''\<rparr>,
       logged = [] \<rparr>"

definition ex_request :: "(string \<times> string) list \<Rightarrow> bytes \<Rightarrow> http_Request" where
  "ex_request query body =
     \<lparr> Header = [''Content-Type'' \<mapsto> [''application/vnd.api+json'']],
       URL_Path = ''/v1/posts'', URL_RawQuery = query, Body = Inr body \<rparr>"

text \<open>
  For the registration: a stand-in for \<^verbatim>\<open>jsonapi.Pluralize\<close> that appends an s to a
  word that does not end in one, an empty API under the prefix \<^verbatim>\<open>/v1/\<close>, and a
  prototype \<^verbatim>\<open>post\<close> with a to-one relation \<^verbatim>\<open>author\<close> and a to-many relation
  \<^verbatim>\<open>comments\<close>, whose pointer implements \<^verbatim>\<open>EditToManyRelations\<close>.
\<close>

definition ex_Pluralize :: "string \<Rightarrow> string" where
  "ex_Pluralize word = (if word \<noteq> [] \<and> last word = CHR ''s'' then word else word @ ''s'')"

definition ex_API :: "(string, nat) API" where
  "ex_API =
     \<lparr> router = [], prefix_of_API = ''/v1/'', info_of_API = ex_info, resources = [],
       marshalers_of_API = [(''application/vnd.api+json'', Some JSONContentMarshaler)] \<rparr>"

definition ex_prototype :: prototype where
  "ex_prototype =
     \<lparr> TypeOf = \<lparr>Kind = Struct, type_Name = ''post'', elem_Name = ''''\<rparr>,
       MarshalReferences =
         Some [\<lparr>Type = ''users'', Name = ''author''\<rparr>, \<lparr>Type = ''comments'', Name = ''comments''\<rparr>],
       ptr_EditToManyRelations = True \<rparr>"

section \<open>The query of a request\<close>

text \<open>
  Every key of the map \<^verbatim>\<open>r.URL.Query()\<close> builds has at least one value, so the
  \<^verbatim>\<open>values[0]\<close> of \<^verbatim>\<open>buildRequest\<close> is always in range.
\<close>

lemma ParseQuery_values_nonempty:
  "(\<forall>key. m key \<noteq> Some []) \<Longrightarrow> ParseQuery kvs m key \<noteq> Some []"
proof (induction kvs arbitrary: m)
  case Nil
  then show ?case by simp
next
  case (Cons kv kvs)
  obtain k v where kv: "kv = (k, v)"
    by (cases kv)
  have "\<forall>key. (m(k \<mapsto> (case m k of None \<Rightarrow> [] | Some vs \<Rightarrow> vs) @ [v])) key \<noteq> Some []"
    using Cons.prems by simp
  then show ?case
    unfolding kv ParseQuery.simps by (rule Cons.IH)
qed

lemma Query_values_nonempty: "Query r key \<noteq> Some []"
  unfolding Query_def by (rule ParseQuery_values_nonempty) simp

lemma buildRequest_QueryParams:
  "QueryParams (buildRequest r) key =
     (case Query r key of None \<Rightarrow> None | Some values \<Rightarrow> Some (Split (hd values) CHR '',''))"
  using Query_values_nonempty [of r key]
  by (simp add: buildRequest_def split: option.splits list.splits)

section \<open>Properties of the pagination parameters\<close>

lemma isValid_shapes:
  "isValid p =
     ((number p \<noteq> '''' \<and> size_param p \<noteq> '''' \<and> offset p = '''' \<and> limit p = '''') \<or>
      (number p = '''' \<and> size_param p = '''' \<and> offset p \<noteq> '''' \<and> limit p \<noteq> ''''))"
  by (auto simp: isValid_def)

text \<open>
  Claim C5. \<open>isValid\<close> holds exactly for the two complete shapes: number and size both
  given with offset and limit both empty, or offset and limit both given with number
  and size both empty. In particular it is false when only the number is given and
  when all four parameters are given.
\<close>

theorem isValid_exactly_one_shape:
  "(isValid p \<longleftrightarrow>
      (number p \<noteq> '''' \<and> size_param p \<noteq> '''' \<and> offset p = '''' \<and> limit p = '''') \<or>
      (number p = '''' \<and> size_param p = '''' \<and> offset p \<noteq> '''' \<and> limit p \<noteq> '''')) \<and>
   (number p \<noteq> '''' \<and> size_param p = '''' \<and> offset p = '''' \<and> limit p = '''' \<longrightarrow> \<not> isValid p) \<and>
   (number p \<noteq> '''' \<and> size_param p \<noteq> '''' \<and> offset p \<noteq> '''' \<and> limit p \<noteq> '''' \<longrightarrow> \<not> isValid p)"
  by (auto simp: isValid_def)

theorem isValid_exactly_one_shape_witness:
  "isValid \<lparr>number = ''2'', size_param = ''10'', offset = '''', limit = ''''\<rparr> \<and>
   isValid \<lparr>number = '''', size_param = '''', offset = ''20'', limit = ''10''\<rparr> \<and>
   \<not> isValid \<lparr>number = ''2'', size_param = '''', offset = '''', limit = ''''\<rparr> \<and>
   \<not> isValid \<lparr>number = ''2'', size_param = ''10'', offset = ''20'', limit = ''10''\<rparr>"
  using isValid_exactly_one_shape [of "\<lparr>number = ''2'', size_param = ''10'', offset = '''', limit = ''''\<rparr>"]
    isValid_exactly_one_shape [of "\<lparr>number = '''', size_param = '''', offset = ''20'', limit = ''10''\<rparr>"]
    isValid_exactly_one_shape [of "\<lparr>number = ''2'', size_param = '''', offset = '''', limit = ''''\<rparr>"]
    isValid_exactly_one_shape [of "\<lparr>number = ''2'', size_param = ''10'', offset = ''20'', limit = ''10''\<rparr>"]
  by simp

section \<open>Evaluating numerals\<close>

lemma format_nat_small: "n < 10 \<Longrightarrow> format_nat n = [digits ! n]"
  by (simp add: format_nat.simps)

lemma format_nat_large:
  "\<not> n < 10 \<Longrightarrow> format_nat n = format_nat (n div 10) @ [digits ! (n mod 10)]"
  by (subst format_nat.simps) simp

lemmas FormatUint_eval = FormatUint_def format_nat_small format_nat_large digits_def

section \<open>The division by the page size\<close>

text \<open>
  Claim C10. A request of the number and size shape is accepted by \<open>isValid\<close> whatever
  its size is. Once the page number is parsed, the link computation divides the count
  by the parsed size with no guard: it panics with a division by zero exactly when the
  size parses to 0, it returns links when the size parses to an integer of at least 1,
  and the input \<^verbatim>\<open>page[size]=0\<close> reaches the division by zero.
\<close>

theorem getLinks_size_zero_divides:
  assumes "number p \<noteq> ''''" and "size_param p \<noteq> ''''" and "offset p = ''''" and "limit p = ''''"
    and "ParseUint (number p) = Inr n"
  shows "isValid p \<and>
    (\<forall>s. ParseUint (size_param p) = Inr s \<longrightarrow>
       ((getLinks enc p r count info = Panic divide_by_zero) = (s = 0)) \<and>
       (s \<noteq> 0 \<longrightarrow> (\<exists>links. getLinks enc p r count info = Return (links, None)))) \<and>
    (size_param p = ''0'' \<longrightarrow> getLinks enc p r count info = Panic divide_by_zero)"
proof -
  have v: "isValid p"
    using assms by (simp add: isValid_def)
  have z: "ParseUint ''0'' = Inr 0"
    by (simp add: ParseUint_def digit_of_def)
  have g: "getLinks enc p r count info =
      number_links enc p (Query r) ((if GetBaseURL info \<noteq> '''' then GetBaseURL info else '''') @ URL_Path r) count"
    using assms(1) by (simp add: getLinks_def Let_def)
  have a: "ParseUint (size_param p) = Inr s \<Longrightarrow>
       ((number_links enc p ps u count = Panic divide_by_zero) = (s = 0)) \<and>
       (s \<noteq> 0 \<longrightarrow> (\<exists>links. number_links enc p ps u count = Return (links, None)))" for s ps u
    using assms(5) by (simp add: number_links_def Let_def split: prod.splits)
  show ?thesis
    using v a z unfolding g by auto
qed


theorem getLinks_size_zero_divides_witness:
  "isValid \<lparr>number = ''1'', size_param = ''0'', offset = '''', limit = ''''\<rparr> \<and>
   getLinks (\<lambda>v. Get v ''page[number]'')
     \<lparr>number = ''1'', size_param = ''0'', offset = '''', limit = ''''\<rparr>
     \<lparr>Header = Map.empty, URL_Path = ''/posts'',
      URL_RawQuery = [(''page[number]'', ''1''), (''page[size]'', ''0'')], Body = Inr ''''\<rparr>
     25 \<lparr>prefix = ''v1'', baseURL = ''''\<rparr> = Panic divide_by_zero \<and>
   (\<exists>links. getLinks (\<lambda>v. Get v ''page[number]'')
     \<lparr>number = ''1'', size_param = ''10'', offset = '''', limit = ''''\<rparr>
     \<lparr>Header = Map.empty, URL_Path = ''/posts'',
      URL_RawQuery = [(''page[number]'', ''1''), (''page[size]'', ''10'')], Body = Inr ''''\<rparr>
     25 \<lparr>prefix = ''v1'', baseURL = ''''\<rparr> = Return (links, None))"
proof -
  have n: "ParseUint ''1'' = Inr 1"
    by (simp add: ParseUint_def digit_of_def)
  have s: "ParseUint ''10'' = Inr 10"
    by (simp add: ParseUint_def digit_of_def)
  show ?thesis
    using getLinks_size_zero_divides [of "\<lparr>number = ''1'', size_param = ''0'', offset = '''', limit = ''''\<rparr>" 1
        "\<lambda>v. Get v ''page[number]''"
        "\<lparr>Header = Map.empty, URL_Path = ''/posts'',
          URL_RawQuery = [(''page[number]'', ''1''), (''page[size]'', ''0'')], Body = Inr ''''\<rparr>"
        25 "\<lparr>prefix = ''v1'', baseURL = ''''\<rparr>"]
      getLinks_size_zero_divides [of "\<lparr>number = ''1'', size_param = ''10'', offset = '''', limit = ''''\<rparr>" 1
        "\<lambda>v. Get v ''page[number]''"
        "\<lparr>Header = Map.empty, URL_Path = ''/posts'',
          URL_RawQuery = [(''page[number]'', ''1''), (''page[size]'', ''10'')], Body = Inr ''''\<rparr>"
        25 "\<lparr>prefix = ''v1'', baseURL = ''''\<rparr>"]
      n s
    by simp
qed

section \<open>Numerals: formatting and parsing agree\<close>

lemma digit_of_digits: "k < 10 \<Longrightarrow> digit_of (digits ! k) = Some k"
proof -
  assume "k < 10"
  then have "k = 0 \<or> k = 1 \<or> k = 2 \<or> k = 3 \<or> k = 4 \<or> k = 5 \<or> k = 6 \<or> k = 7 \<or> k = 8 \<or> k = 9"
    by arith
  then show ?thesis
    by (elim disjE) (simp_all add: digits_def digit_of_def)
qed

lemma parse_digits_snoc:
  "parse_digits a (xs @ [d]) =
     (case parse_digits a xs of
        Inl e \<Rightarrow> Inl e
      | Inr m \<Rightarrow>
          (case digit_of d of
             None \<Rightarrow> Inl ErrSyntax
           | Some v \<Rightarrow> if 2 ^ 64 \<le> m * 10 + v then Inl ErrRange else Inr (m * 10 + v)))"
  by (induction xs arbitrary: a) (auto split: option.splits sum.splits)

lemma format_nat_nonempty: "format_nat n \<noteq> []"
  by (subst format_nat.simps) simp

lemma parse_format_nat: "n < 2 ^ 64 \<Longrightarrow> parse_digits 0 (format_nat n) = Inr n"
proof (induction n rule: format_nat.induct)
  case (1 n)
  show ?case
  proof (cases "n < 10")
    case True
    then show ?thesis
      by (simp add: format_nat_small digit_of_digits)
  next
    case False
    have "n div 10 < 2 ^ 64"
      using "1.prems" by (simp add: div_less_dividend less_imp_le order.strict_trans1 div_le_dividend)
    with False "1.IH" have ih: "parse_digits 0 (format_nat (n div 10)) = Inr (n div 10)"
      by simp
    have d: "digit_of (digits ! (n mod 10)) = Some (n mod 10)"
      by (simp add: digit_of_digits)
    show ?thesis
      using False ih d "1.prems"
      by (simp add: format_nat_large parse_digits_snoc)
  qed
qed

lemma ParseUint_FormatUint: "ParseUint (FormatUint w) = Inr w"
proof -
  have "unat w < 2 ^ 64"
    using unsigned_less [of w] by simp
  then show ?thesis
    by (simp add: ParseUint_def FormatUint_def format_nat_nonempty parse_format_nat)
qed

lemma FormatUint_is_1: "(FormatUint w = ''1'') = (w = 1)"
proof
  assume a: "FormatUint w = ''1''"
  have "ParseUint ''1'' = Inr 1"
    by (simp add: ParseUint_def digit_of_def)
  with a ParseUint_FormatUint [of w] show "w = 1"
    by simp
next
  assume "w = 1"
  then show "FormatUint w = ''1''"
    by (simp add: FormatUint_eval)
qed

lemma FormatUint_is_0: "(FormatUint w = ''0'') = (w = 0)"
proof
  assume a: "FormatUint w = ''0''"
  have "ParseUint ''0'' = Inr 0"
    by (simp add: ParseUint_def digit_of_def)
  with a ParseUint_FormatUint [of w] show "w = 0"
    by simp
next
  assume "w = 0"
  then show "FormatUint w = ''0''"
    by (simp add: FormatUint_eval)
qed

section \<open>The links of a page\<close>

text \<open>
  The number of pages the source computes is the ceiling of the count over the size.
\<close>

lemma ceil_div_exact:
  fixes c t :: nat
  assumes "0 < t" and "c mod t = 0"
  shows "(c + t - 1) div t = c div t"
proof -
  obtain q where q: "c = t * q"
    using assms(2) by (auto simp: mod_eq_0_iff_dvd)
  have "t * q \<le> c + t - 1" and "c + t - 1 < t * Suc q"
    using assms(1) q by simp_all
  then have "(c + t - 1) div t = q"
    by (rule div_nat_eqI)
  with q assms(1) show ?thesis
    by simp
qed

lemma ceil_div_inexact:
  fixes c t :: nat
  assumes "0 < t" and "c mod t \<noteq> 0"
  shows "(c + t - 1) div t = c div t + 1"
proof -
  define q where "q = c div t"
  define r where "r = c mod t"
  have c: "c = t * q + r"
    by (simp add: q_def r_def)
  have r: "0 < r" "r < t"
    using assms by (simp_all add: r_def)
  have e1: "t * (q + 1) = t * q + t" and e2: "t * Suc (q + 1) = t * q + t + t"
    by (simp_all add: algebra_simps)
  have "t * (q + 1) \<le> c + t - 1"
    unfolding e1 c using r by linarith
  moreover have "c + t - 1 < t * Suc (q + 1)"
    unfolding e2 c using r by linarith
  ultimately have "(c + t - 1) div t = q + 1"
    by (rule div_nat_eqI)
  then show ?thesis
    by (simp add: q_def)
qed

lemma div_succ_le:
  fixes c t :: nat
  assumes "c mod t \<noteq> 0"
  shows "c div t + 1 \<le> c"
proof (cases "t = 0")
  case True
  with assms show ?thesis by simp
next
  case False
  have c: "c = t * (c div t) + c mod t"
    by simp
  have "c div t \<le> t * (c div t)"
    using False by simp
  moreover have "0 < c mod t"
    using assms by simp
  ultimately show ?thesis
    using c by linarith
qed


lemma total_pages_ceiling:
  fixes count s :: uint64
  assumes "s \<noteq> 0"
  shows "unat (if count mod s \<noteq> 0 then count div s + 1 else count div s) =
         (unat count + unat s - 1) div unat s"
proof -
  have t: "0 < unat s"
    using assms by (simp add: unat_gt_0)
  have m: "(count mod s \<noteq> 0) = (unat count mod unat s \<noteq> 0)"
    by (metis unat_mod unat_eq_0)
  show ?thesis
  proof (cases "count mod s \<noteq> 0")
    case False
    with m have "unat count mod unat s = 0"
      by simp
    with t have "(unat count + unat s - 1) div unat s = unat count div unat s"
      by (rule ceil_div_exact)
    with False show ?thesis
      by (simp only: if_False unat_div)
  next
    case True
    with m have r: "unat count mod unat s \<noteq> 0"
      by simp
    have "unat (count div s) + unat (1::uint64) \<le> unat count"
      using div_succ_le [OF r] by (simp add: unat_div)
    also have "unat count < 2 ^ LENGTH(64)"
      by (rule unsigned_less)
    finally have "unat (count div s + 1) = unat (count div s) + unat (1::uint64)"
      by (simp only: unat_add_lem [THEN iffD1])
    moreover have "(unat count + unat s - 1) div unat s = unat count div unat s + 1"
      using t r by (rule ceil_div_inexact)
    ultimately show ?thesis
      using True by (simp add: unat_div)
  qed
qed

lemma url_prefix: "(if GetBaseURL info \<noteq> '''' then GetBaseURL info else '''') = GetBaseURL info"
  by simp

lemma getLinks_number:
  assumes "number p \<noteq> ''''" and "ParseUint (number p) = Inr n"
    and "ParseUint (size_param p) = Inr s" and "s \<noteq> 0"
  shows "\<exists>links. getLinks enc p r count info = Return (links, None) \<and>
     links ''first'' =
       (if number p \<noteq> ''1'' then Some (rewritten_link enc r info ''page[number]'' ''1'') else None) \<and>
     links ''prev'' =
       (if number p \<noteq> ''1'' then Some (rewritten_link enc r info ''page[number]'' (FormatUint (n - 1)))
        else None) \<and>
     links ''next'' =
       (if n \<noteq> (if count mod s \<noteq> 0 then count div s + 1 else count div s)
        then Some (rewritten_link enc r info ''page[number]'' (FormatUint (n + 1))) else None) \<and>
     links ''last'' =
       (if n \<noteq> (if count mod s \<noteq> 0 then count div s + 1 else count div s)
        then Some (rewritten_link enc r info ''page[number]''
               (FormatUint (if count mod s \<noteq> 0 then count div s + 1 else count div s)))
        else None)"
  using assms
  by (simp add: getLinks_def number_links_def rewritten_link_def Set_value_def Let_def)

lemma getLinks_offset:
  assumes "number p = ''''" and "ParseUint (offset p) = Inr off"
    and "ParseUint (limit p) = Inr lim"
  shows "\<exists>links. getLinks enc p r count info = Return (links, None) \<and>
     links ''first'' =
       (if offset p \<noteq> ''0'' then Some (rewritten_link enc r info ''page[offset]'' ''0'') else None) \<and>
     links ''prev'' =
       (if offset p \<noteq> ''0''
        then Some (rewritten_link enc r info ''page[offset]''
               (FormatUint (if lim > off then 0 else off - lim)))
        else None) \<and>
     links ''next'' =
       (if off + lim < count
        then Some (rewritten_link enc r info ''page[offset]'' (FormatUint (off + lim))) else None) \<and>
     links ''last'' =
       (if off + lim < count
        then Some (rewritten_link enc r info ''page[offset]'' (FormatUint (count - lim))) else None)"
  using assms
  by (simp add: getLinks_def offset_links_def rewritten_link_def Set_value_def Let_def)

text \<open>
  For parameters written as the numerals \<^verbatim>\<open>FormatUint\<close> writes (no leading zero), the
  links are the ones the spec describes: in the number and size mode \<open>first\<close> and
  \<open>prev\<close> exactly when the page is not 1, \<open>next\<close> and \<open>last\<close> exactly when the page
  is not the last one; in the offset and limit mode, when offset plus limit stays within
  64 bits, \<open>first\<close> and \<open>prev\<close> exactly when the offset is not 0, with \<open>prev\<close> at the
  offset minus the limit or at 0, and \<open>next\<close> and \<open>last\<close> exactly when offset plus
  limit is below the count.
\<close>

lemma getLinks_number_canonical:
  assumes "number p = FormatUint n" and "size_param p = FormatUint s" and "s \<noteq> 0"
  shows "\<exists>links totalPages. getLinks enc p r count info = Return (links, None) \<and>
     unat totalPages = (unat count + unat s - 1) div unat s \<and>
     (links ''first'' = (if n \<noteq> 1 then Some (rewritten_link enc r info ''page[number]'' (FormatUint 1)) else None)) \<and>
     (links ''prev'' = (if n \<noteq> 1 then Some (rewritten_link enc r info ''page[number]'' (FormatUint (n - 1))) else None)) \<and>
     (links ''next'' = (if n \<noteq> totalPages then Some (rewritten_link enc r info ''page[number]'' (FormatUint (n + 1))) else None)) \<and>
     (links ''last'' = (if n \<noteq> totalPages then Some (rewritten_link enc r info ''page[number]'' (FormatUint totalPages)) else None))"
proof -
  have ne: "number p \<noteq> ''''"
    using assms(1) by (simp add: FormatUint_def format_nat_nonempty)
  have pn: "ParseUint (number p) = Inr n" and ps: "ParseUint (size_param p) = Inr s"
    using assms by (simp_all add: ParseUint_FormatUint)
  have one: "(number p \<noteq> ''1'') = (n \<noteq> 1)"
    using assms(1) by (simp add: FormatUint_is_1)
  have f1: "FormatUint 1 = ''1''"
    by (simp add: FormatUint_eval)
  obtain links where l: "getLinks enc p r count info = Return (links, None)"
    "links ''first'' =
       (if number p \<noteq> ''1'' then Some (rewritten_link enc r info ''page[number]'' ''1'') else None)"
    "links ''prev'' =
       (if number p \<noteq> ''1'' then Some (rewritten_link enc r info ''page[number]'' (FormatUint (n - 1)))
        else None)"
    "links ''next'' =
       (if n \<noteq> (if count mod s \<noteq> 0 then count div s + 1 else count div s)
        then Some (rewritten_link enc r info ''page[number]'' (FormatUint (n + 1))) else None)"
    "links ''last'' =
       (if n \<noteq> (if count mod s \<noteq> 0 then count div s + 1 else count div s)
        then Some (rewritten_link enc r info ''page[number]''
               (FormatUint (if count mod s \<noteq> 0 then count div s + 1 else count div s)))
        else None)"
    using getLinks_number [OF ne pn ps assms(3), of enc r count info] by blast
  show ?thesis
    apply (rule exI [of _ links])
    apply (rule exI [of _ "if count mod s \<noteq> 0 then count div s + 1 else count div s"])
    using l one total_pages_ceiling [OF assms(3), of count]
    by (simp only: f1 simp_thms)
qed


lemma prev_offset_nat:
  fixes off lim :: uint64
  shows "(if lim > off then 0 else off - lim) = of_nat (unat off - unat lim)"
proof (cases "lim > off")
  case True
  then have "unat off - unat lim = 0"
    by (simp add: word_less_nat_alt)
  with True show ?thesis
    by simp
next
  case False
  then have "lim \<le> off"
    by simp
  then have "unat (off - lim) = unat off - unat lim"
    by (rule unat_sub)
  then have "off - lim = of_nat (unat off - unat lim)"
    by (metis of_nat_unat ucast_id)
  with False show ?thesis
    by simp
qed

lemma next_offset_nat:
  fixes off lim count :: uint64
  assumes "unat off + unat lim < 2 ^ 64"
  shows "(off + lim < count) = (unat off + unat lim < unat count)"
    and "off + lim = of_nat (unat off + unat lim)"
    and "off + lim < count \<Longrightarrow> count - lim = of_nat (unat count - unat lim)"
proof -
  have u: "unat (off + lim) = unat off + unat lim"
    using assms by (simp add: unat_add_lem [THEN iffD1])
  show "(off + lim < count) = (unat off + unat lim < unat count)"
    by (simp add: word_less_nat_alt u)
  show "off + lim = of_nat (unat off + unat lim)"
    by simp
  assume "off + lim < count"
  then have "unat lim \<le> unat count"
    by (simp add: word_less_nat_alt u)
  then have "lim \<le> count"
    by (simp add: word_le_nat_alt)
  then have "unat (count - lim) = unat count - unat lim"
    by (rule unat_sub)
  then show "count - lim = of_nat (unat count - unat lim)"
    by (metis of_nat_unat ucast_id)
qed

lemma getLinks_offset_canonical:
  assumes "number p = ''''" and "offset p = FormatUint off" and "limit p = FormatUint lim"
    and "unat off + unat lim < 2 ^ 64"
  shows "\<exists>links. getLinks enc p r count info = Return (links, None) \<and>
     (links ''first'' = (if off \<noteq> 0 then Some (rewritten_link enc r info ''page[offset]'' (FormatUint 0)) else None)) \<and>
     (links ''prev'' = (if off \<noteq> 0 then Some (rewritten_link enc r info ''page[offset]''
          (FormatUint (of_nat (unat off - unat lim)))) else None)) \<and>
     (links ''next'' = (if unat off + unat lim < unat count then Some (rewritten_link enc r info ''page[offset]''
          (FormatUint (of_nat (unat off + unat lim)))) else None)) \<and>
     (links ''last'' = (if unat off + unat lim < unat count then Some (rewritten_link enc r info ''page[offset]''
          (FormatUint (of_nat (unat count - unat lim)))) else None))"
proof -
  have po: "ParseUint (offset p) = Inr off" and pl: "ParseUint (limit p) = Inr lim"
    using assms by (simp_all add: ParseUint_FormatUint)
  have zero: "(offset p \<noteq> ''0'') = (off \<noteq> 0)"
    using assms(2) by (simp add: FormatUint_is_0)
  have f0: "FormatUint 0 = ''0''"
    by (simp add: FormatUint_eval)
  obtain links where l: "getLinks enc p r count info = Return (links, None)"
    "links ''first'' =
       (if offset p \<noteq> ''0'' then Some (rewritten_link enc r info ''page[offset]'' ''0'') else None)"
    "links ''prev'' =
       (if offset p \<noteq> ''0''
        then Some (rewritten_link enc r info ''page[offset]''
               (FormatUint (if lim > off then 0 else off - lim)))
        else None)"
    "links ''next'' =
       (if off + lim < count
        then Some (rewritten_link enc r info ''page[offset]'' (FormatUint (off + lim))) else None)"
    "links ''last'' =
       (if off + lim < count
        then Some (rewritten_link enc r info ''page[offset]'' (FormatUint (count - lim))) else None)"
    using getLinks_offset [OF assms(1) po pl, of enc r count info] by blast
  have last: "links ''last'' = (if unat off + unat lim < unat count
      then Some (rewritten_link enc r info ''page[offset]'' (FormatUint (of_nat (unat count - unat lim))))
      else None)"
    using l(5) next_offset_nat(1) [OF assms(4), of count] next_offset_nat(3) [OF assms(4), of count]
    by (cases "off + lim < count") simp_all
  show ?thesis
    apply (rule exI [of _ links])
    using l(1-4) last zero next_offset_nat(1) [OF assms(4), of count] next_offset_nat(2) [OF assms(4)]
      prev_offset_nat [of off lim]
    by (simp only: f0 simp_thms)
qed



text \<open>
  Claim C3. In the number and size mode the \<open>first\<close> and \<open>prev\<close> links are to be
  present exactly when the page number \<open>n\<close> is not 1. The source decides it on the text
  of the parameter (\<^verbatim>\<open>p.number != "1"\<close>), not on the parsed number, while it compares
  the parsed number for \<open>next\<close> and \<open>last\<close>. The request
  \<^verbatim>\<open>page[number]=01&page[size]=10\<close> is accepted, its page number parses to 1, and
  the code still answers with a \<open>first\<close> link and with a \<open>prev\<close> link that points at
  page 0.
\<close>

theorem getLinks_number_leading_zero:
  "newPaginationQueryParams
      \<lparr>Header = Map.empty, URL_Path = ''/v1/posts'',
       URL_RawQuery = [(''page[number]'', ''01''), (''page[size]'', ''10'')], Body = Inr ''''\<rparr> =
     \<lparr>number = ''01'', size_param = ''10'', offset = '''', limit = ''''\<rparr> \<and>
   isValid \<lparr>number = ''01'', size_param = ''10'', offset = '''', limit = ''''\<rparr> \<and>
   ParseUint ''01'' = Inr 1 \<and>
   (\<exists>links.
      getLinks enc \<lparr>number = ''01'', size_param = ''10'', offset = '''', limit = ''''\<rparr>
        \<lparr>Header = Map.empty, URL_Path = ''/v1/posts'',
         URL_RawQuery = [(''page[number]'', ''01''), (''page[size]'', ''10'')], Body = Inr ''''\<rparr>
        25 info = Return (links, None) \<and>
      links ''first'' =
        Some (rewritten_link enc
          \<lparr>Header = Map.empty, URL_Path = ''/v1/posts'',
           URL_RawQuery = [(''page[number]'', ''01''), (''page[size]'', ''10'')], Body = Inr ''''\<rparr>
          info ''page[number]'' ''1'') \<and>
      links ''prev'' =
        Some (rewritten_link enc
          \<lparr>Header = Map.empty, URL_Path = ''/v1/posts'',
           URL_RawQuery = [(''page[number]'', ''01''), (''page[size]'', ''10'')], Body = Inr ''''\<rparr>
          info ''page[number]'' ''0''))"
proof -
  have n: "ParseUint ''01'' = Inr 1" and s: "ParseUint ''10'' = Inr 10"
    by (simp_all add: ParseUint_def digit_of_def)
  have z: "FormatUint (1 - 1) = ''0''"
    by (simp add: FormatUint_eval)
  have q: "newPaginationQueryParams
      \<lparr>Header = Map.empty, URL_Path = ''/v1/posts'',
       URL_RawQuery = [(''page[number]'', ''01''), (''page[size]'', ''10'')], Body = Inr ''''\<rparr> =
     \<lparr>number = ''01'', size_param = ''10'', offset = '''', limit = ''''\<rparr>"
    by (simp add: newPaginationQueryParams_def Query_def Get_def)
  have v: "isValid \<lparr>number = ''01'', size_param = ''10'', offset = '''', limit = ''''\<rparr>"
    by (simp add: isValid_def)
  show ?thesis
    using getLinks_number [of "\<lparr>number = ''01'', size_param = ''10'', offset = '''', limit = ''''\<rparr>"
        1 10 enc
        "\<lparr>Header = Map.empty, URL_Path = ''/v1/posts'',
          URL_RawQuery = [(''page[number]'', ''01''), (''page[size]'', ''10'')], Body = Inr ''''\<rparr>"
        25 info] n s z q v
    by auto
qed


text \<open>
  Claim C4. In the offset and limit mode the \<open>first\<close> and \<open>prev\<close> links are to be
  present exactly when the offset \<open>o\<close> is not 0. The source decides it on the text of
  the parameter (\<^verbatim>\<open>p.offset != "0"\<close>), not on the parsed offset. The request
  \<^verbatim>\<open>page[offset]=00&page[limit]=10\<close> is accepted, its offset parses to 0, and the
  code still answers with a \<open>first\<close> and a \<open>prev\<close> link, both at offset 0.
\<close>

theorem getLinks_offset_leading_zero:
  "newPaginationQueryParams
      \<lparr>Header = Map.empty, URL_Path = ''/v1/posts'',
       URL_RawQuery = [(''page[offset]'', ''00''), (''page[limit]'', ''10'')], Body = Inr ''''\<rparr> =
     \<lparr>number = '''', size_param = '''', offset = ''00'', limit = ''10''\<rparr> \<and>
   isValid \<lparr>number = '''', size_param = '''', offset = ''00'', limit = ''10''\<rparr> \<and>
   ParseUint ''00'' = Inr 0 \<and>
   (\<exists>links.
      getLinks enc \<lparr>number = '''', size_param = '''', offset = ''00'', limit = ''10''\<rparr>
        \<lparr>Header = Map.empty, URL_Path = ''/v1/posts'',
         URL_RawQuery = [(''page[offset]'', ''00''), (''page[limit]'', ''10'')], Body = Inr ''''\<rparr>
        25 info = Return (links, None) \<and>
      links ''first'' =
        Some (rewritten_link enc
          \<lparr>Header = Map.empty, URL_Path = ''/v1/posts'',
           URL_RawQuery = [(''page[offset]'', ''00''), (''page[limit]'', ''10'')], Body = Inr ''''\<rparr>
          info ''page[offset]'' ''0'') \<and>
      links ''prev'' =
        Some (rewritten_link enc
          \<lparr>Header = Map.empty, URL_Path = ''/v1/posts'',
           URL_RawQuery = [(''page[offset]'', ''00''), (''page[limit]'', ''10'')], Body = Inr ''''\<rparr>
          info ''page[offset]'' ''0''))"
proof -
  have n: "ParseUint ''00'' = Inr 0" and s: "ParseUint ''10'' = Inr 10"
    by (simp_all add: ParseUint_def digit_of_def)
  have z: "FormatUint 0 = ''0''"
    by (simp add: FormatUint_eval)
  have q: "newPaginationQueryParams
      \<lparr>Header = Map.empty, URL_Path = ''/v1/posts'',
       URL_RawQuery = [(''page[offset]'', ''00''), (''page[limit]'', ''10'')], Body = Inr ''''\<rparr> =
     \<lparr>number = '''', size_param = '''', offset = ''00'', limit = ''10''\<rparr>"
    by (simp add: newPaginationQueryParams_def Query_def Get_def)
  have v: "isValid \<lparr>number = '''', size_param = '''', offset = ''00'', limit = ''10''\<rparr>"
    by (simp add: isValid_def)
  show ?thesis
    using getLinks_offset [of "\<lparr>number = '''', size_param = '''', offset = ''00'', limit = ''10''\<rparr>"
        0 10 enc
        "\<lparr>Header = Map.empty, URL_Path = ''/v1/posts'',
          URL_RawQuery = [(''page[offset]'', ''00''), (''page[limit]'', ''10'')], Body = Inr ''''\<rparr>"
        25 info] n s z q v
    by auto
qed

section \<open>Content negotiation\<close>

lemma selectContentMarshaler_returns:
  assumes "content_type_has_value r"
  shows "\<exists>m ct. selectContentMarshaler ext r ms = Return (m, ct)"
  using assms
  by (auto simp: selectContentMarshaler_def content_type_has_value_def Let_def
      split: option.splits list.splits)

text \<open>
  Claim C9, as amended. When an \<^verbatim>\<open>Accept\<close> header is present, the content type is the
  one \<^verbatim>\<open>NegotiateContentType\<close> picks among the keys of the marshaler map, with
  \<^verbatim>\<open>application/vnd.api+json\<close> as the default offer, and the marshaler is the map's
  entry under that content type. Otherwise, when a \<^verbatim>\<open>Content-Type\<close> header is
  present with at least one value, the content type is its first value and the
  marshaler is the map's entry under it. Whenever the map has no entry under the
  content type, or the entry is nil, or neither header is present, the result is the
  built-in JSON marshaler with \<^verbatim>\<open>application/vnd.api+json\<close>. In all these cases the
  selection returns a marshaler. The case left is a request with no \<^verbatim>\<open>Accept\<close> header
  whose \<^verbatim>\<open>Content-Type\<close> header is stored with no value: there \<^verbatim>\<open>contentTypes[0]\<close>
  panics and no marshaler is selected. The selection is a function of the request and
  the marshaler map alone.
\<close>

theorem selectContentMarshaler_choice:
  "(Header r ''Accept'' \<noteq> None \<longrightarrow>
      selectContentMarshaler ext r ms =
        Return
          (case map_of ms (NegotiateContentType ext r (map fst ms) ''application/vnd.api+json'') of
             Some (Some m) \<Rightarrow>
               (m, NegotiateContentType ext r (map fst ms) ''application/vnd.api+json'')
           | _ \<Rightarrow> (JSONContentMarshaler, ''application/vnd.api+json''))) \<and>
   (Header r ''Accept'' = None \<longrightarrow>
      (\<forall>contentType rest. Header r ''Content-Type'' = Some (contentType # rest) \<longrightarrow>
         selectContentMarshaler ext r ms =
           Return
             (case map_of ms contentType of
                Some (Some m) \<Rightarrow> (m, contentType)
              | _ \<Rightarrow> (JSONContentMarshaler, ''application/vnd.api+json''))) \<and>
      (Header r ''Content-Type'' = None \<longrightarrow>
         selectContentMarshaler ext r ms =
           Return (JSONContentMarshaler, ''application/vnd.api+json'')) \<and>
      (Header r ''Content-Type'' = Some [] \<longrightarrow>
         selectContentMarshaler ext r ms =
           Panic ''runtime error: index out of range [0] with length 0'')) \<and>
   (Header r ''Accept'' \<noteq> None \<or> Header r ''Content-Type'' \<noteq> Some [] \<longrightarrow>
      (\<exists>m ct. selectContentMarshaler ext r ms = Return (m, ct)))"
  by (auto simp: selectContentMarshaler_def lookup_marshaler_def Let_def jsonapi_mime_def
      index_out_of_range_def split: option.splits list.splits)

text \<open>
  The claim as first stated promises a marshaler for every request. The request of the
  small instance with its \<^verbatim>\<open>Content-Type\<close> header stored with no value, and no
  \<^verbatim>\<open>Accept\<close> header, gets none: the selection panics.
\<close>

theorem selectContentMarshaler_choice_counterexample:
  "selectContentMarshaler ex_ext
     ((ex_request [] '''')\<lparr>Header := [''Content-Type'' \<mapsto> []]\<rparr>) (marshalers ex_resource) =
   Panic ''runtime error: index out of range [0] with length 0''"
  by (simp add: selectContentMarshaler_def index_out_of_range_def)

text \<open>
  The statement on a marshaler map with an HTML marshaler, a nil entry and the JSON
  marshaler: an \<^verbatim>\<open>Accept\<close> header that names a configured type selects its marshaler;
  one that names no configured type, or the type of the nil entry, gives the default;
  without \<^verbatim>\<open>Accept\<close> the first value of \<^verbatim>\<open>Content-Type\<close> decides in the same way; with
  neither header the default is selected; and an empty \<^verbatim>\<open>Content-Type\<close> panics.
\<close>

theorem selectContentMarshaler_choice_witness:
  "Header ((ex_request [] '''')\<lparr>Header := [''Accept'' \<mapsto> [''image/png'', ''text/html'']]\<rparr>)
     ''Accept'' \<noteq> None \<and>
   selectContentMarshaler ex_ext
     ((ex_request [] '''')\<lparr>Header := [''Accept'' \<mapsto> [''image/png'', ''text/html'']]\<rparr>)
     ex_marshaler_map =
     Return (CustomMarshaler (\<lambda>v. Inr ''<html/>'') (\<lambda>b. Inr Map.empty), ''text/html'') \<and>
   selectContentMarshaler ex_ext
     ((ex_request [] '''')\<lparr>Header := [''Accept'' \<mapsto> [''image/png'']]\<rparr>) ex_marshaler_map =
     Return (JSONContentMarshaler, ''application/vnd.api+json'') \<and>
   selectContentMarshaler ex_ext
     ((ex_request [] '''')\<lparr>Header := [''Accept'' \<mapsto> [''text/plain'']]\<rparr>) ex_marshaler_map =
     Return (JSONContentMarshaler, ''application/vnd.api+json'') \<and>
   selectContentMarshaler ex_ext
     ((ex_request [] '''')\<lparr>Header := [''Content-Type'' \<mapsto> [''text/html'', ''text/plain'']]\<rparr>)
     ex_marshaler_map =
     Return (CustomMarshaler (\<lambda>v. Inr ''<html/>'') (\<lambda>b. Inr Map.empty), ''text/html'') \<and>
   selectContentMarshaler ex_ext
     ((ex_request [] '''')\<lparr>Header := [''Content-Type'' \<mapsto> [''text/plain'']]\<rparr>) ex_marshaler_map =
     Return (JSONContentMarshaler, ''application/vnd.api+json'') \<and>
   selectContentMarshaler ex_ext
     ((ex_request [] '''')\<lparr>Header := [''Content-Type'' \<mapsto> [''image/png'']]\<rparr>) ex_marshaler_map =
     Return (JSONContentMarshaler, ''application/vnd.api+json'') \<and>
   selectContentMarshaler ex_ext ((ex_request [] '''')\<lparr>Header := Map.empty\<rparr>) ex_marshaler_map =
     Return (JSONContentMarshaler, ''application/vnd.api+json'') \<and>
   selectContentMarshaler ex_ext
     ((ex_request [] '''')\<lparr>Header := [''Content-Type'' \<mapsto> []]\<rparr>) ex_marshaler_map =
     Panic ''runtime error: index out of range [0] with length 0''"
proof -
  let ?html = "CustomMarshaler (\<lambda>v. Inr ''<html/>'') (\<lambda>b. Inr Map.empty)"
  have keys: "map fst ex_marshaler_map = [''text/html'', ''text/plain'', ''application/vnd.api+json'']"
    by (simp add: ex_marshaler_map_def)
  have m1: "map_of ex_marshaler_map ''text/html'' = Some (Some ?html)"
    and m2: "map_of ex_marshaler_map ''text/plain'' = Some None"
    and m3: "map_of ex_marshaler_map ''image/png'' = None"
    and m4: "map_of ex_marshaler_map ''application/vnd.api+json'' = Some (Some JSONContentMarshaler)"
    by (simp_all add: ex_marshaler_map_def)
  have n1: "NegotiateContentType ex_ext
      ((ex_request [] '''')\<lparr>Header := [''Accept'' \<mapsto> [''image/png'', ''text/html'']]\<rparr>)
      [''text/html'', ''text/plain'', ''application/vnd.api+json''] ''application/vnd.api+json'' =
      ''text/html''"
    by (simp add: ex_ext_def)
  have n2: "NegotiateContentType ex_ext
      ((ex_request [] '''')\<lparr>Header := [''Accept'' \<mapsto> [''image/png'']]\<rparr>)
      [''text/html'', ''text/plain'', ''application/vnd.api+json''] ''application/vnd.api+json'' =
      ''application/vnd.api+json''"
    by (simp add: ex_ext_def)
  have n3: "NegotiateContentType ex_ext
      ((ex_request [] '''')\<lparr>Header := [''Accept'' \<mapsto> [''text/plain'']]\<rparr>)
      [''text/html'', ''text/plain'', ''application/vnd.api+json''] ''application/vnd.api+json'' =
      ''text/plain''"
    by (simp add: ex_ext_def)
  have a1: "selectContentMarshaler ex_ext
     ((ex_request [] '''')\<lparr>Header := [''Accept'' \<mapsto> [''image/png'', ''text/html'']]\<rparr>)
     ex_marshaler_map = Return (?html, ''text/html'')"
    using selectContentMarshaler_choice [of
        "(ex_request [] '''')\<lparr>Header := [''Accept'' \<mapsto> [''image/png'', ''text/html'']]\<rparr>"
        ex_ext ex_marshaler_map]
    by (simp add: keys n1 m1)
  have a2: "selectContentMarshaler ex_ext
     ((ex_request [] '''')\<lparr>Header := [''Accept'' \<mapsto> [''image/png'']]\<rparr>) ex_marshaler_map =
     Return (JSONContentMarshaler, ''application/vnd.api+json'')"
    using selectContentMarshaler_choice [of
        "(ex_request [] '''')\<lparr>Header := [''Accept'' \<mapsto> [''image/png'']]\<rparr>" ex_ext ex_marshaler_map]
    by (simp add: keys n2 m4)
  have a3: "selectContentMarshaler ex_ext
     ((ex_request [] '''')\<lparr>Header := [''Accept'' \<mapsto> [''text/plain'']]\<rparr>) ex_marshaler_map =
     Return (JSONContentMarshaler, ''application/vnd.api+json'')"
    using selectContentMarshaler_choice [of
        "(ex_request [] '''')\<lparr>Header := [''Accept'' \<mapsto> [''text/plain'']]\<rparr>" ex_ext ex_marshaler_map]
    by (simp add: keys n3 m2)
  have c1: "selectContentMarshaler ex_ext
     ((ex_request [] '''')\<lparr>Header := [''Content-Type'' \<mapsto> [''text/html'', ''text/plain'']]\<rparr>)
     ex_marshaler_map = Return (?html, ''text/html'')"
    using selectContentMarshaler_choice [of
        "(ex_request [] '''')\<lparr>Header := [''Content-Type'' \<mapsto> [''text/html'', ''text/plain'']]\<rparr>"
        ex_ext ex_marshaler_map]
    by (simp add: m1)
  have c2: "selectContentMarshaler ex_ext
     ((ex_request [] '''')\<lparr>Header := [''Content-Type'' \<mapsto> [''text/plain'']]\<rparr>) ex_marshaler_map =
     Return (JSONContentMarshaler, ''application/vnd.api+json'')"
    using selectContentMarshaler_choice [of
        "(ex_request [] '''')\<lparr>Header := [''Content-Type'' \<mapsto> [''text/plain'']]\<rparr>"
        ex_ext ex_marshaler_map]
    by (simp add: m2)
  have c3: "selectContentMarshaler ex_ext
     ((ex_request [] '''')\<lparr>Header := [''Content-Type'' \<mapsto> [''image/png'']]\<rparr>) ex_marshaler_map =
     Return (JSONContentMarshaler, ''application/vnd.api+json'')"
    using selectContentMarshaler_choice [of
        "(ex_request [] '''')\<lparr>Header := [''Content-Type'' \<mapsto> [''image/png'']]\<rparr>"
        ex_ext ex_marshaler_map]
    by (simp add: m3)
  have d: "selectContentMarshaler ex_ext ((ex_request [] '''')\<lparr>Header := Map.empty\<rparr>) ex_marshaler_map =
     Return (JSONContentMarshaler, ''application/vnd.api+json'')"
    using selectContentMarshaler_choice [of "(ex_request [] '''')\<lparr>Header := Map.empty\<rparr>"
        ex_ext ex_marshaler_map]
    by simp
  have e: "selectContentMarshaler ex_ext
     ((ex_request [] '''')\<lparr>Header := [''Content-Type'' \<mapsto> []]\<rparr>) ex_marshaler_map =
     Panic ''runtime error: index out of range [0] with length 0''"
    using selectContentMarshaler_choice [of
        "(ex_request [] '''')\<lparr>Header := [''Content-Type'' \<mapsto> []]\<rparr>" ex_ext ex_marshaler_map]
    by simp
  show ?thesis
    using a1 a2 a3 c1 c2 c3 d e by simp
qed

text \<open>The panic, for every request of that shape.\<close>

lemma selectContentMarshaler_no_value:
  "Header r ''Accept'' = None \<Longrightarrow> Header r ''Content-Type'' = Some [] \<Longrightarrow>
   selectContentMarshaler ext r ms = Panic index_out_of_range"
  by (simp add: selectContentMarshaler_def)

section \<open>Writing a response\<close>

text \<open>
  What \<^verbatim>\<open>WriteHeader\<close> and \<^verbatim>\<open>writeResult\<close> do on a response not yet started: a status
  from 200 to 999 becomes the status of the response, a status outside 100..999 is a
  panic that leaves the status unwritten, and a status from 100 to 199 other than 101
  goes out as an interim response, after which \<^verbatim>\<open>Write\<close> sends 200.
\<close>

lemma WriteHeader_fresh:
  "rw_status w = None \<Longrightarrow> 200 \<le> st \<Longrightarrow> st \<le> 999 \<Longrightarrow>
   WriteHeader w st = Return (w\<lparr>rw_status := Some st\<rparr>)"
  by (simp add: WriteHeader_def checkWriteHeaderCode_def)

lemma WriteHeader_invalid:
  "rw_status w = None \<Longrightarrow> st < 100 \<or> 999 < st \<Longrightarrow>
   WriteHeader w st = Panic (''invalid WriteHeader code '' @ format_int st)"
  by (simp add: WriteHeader_def checkWriteHeaderCode_def)

lemma WriteHeader_valid:
  "100 \<le> st \<Longrightarrow> st \<le> 999 \<Longrightarrow> \<exists>w'. WriteHeader w st = Return w'"
  by (simp add: WriteHeader_def checkWriteHeaderCode_def)

lemma writeResult_valid:
  "100 \<le> st \<Longrightarrow> st \<le> 999 \<Longrightarrow> fst (writeResult w data st ct) = Return ()"
  by (simp add: writeResult_def WriteHeader_def checkWriteHeaderCode_def Let_def)

lemma writeResult_fresh:
  "rw_status w = None \<Longrightarrow> 200 \<le> st \<Longrightarrow> st \<le> 999 \<Longrightarrow> st \<noteq> 204 \<Longrightarrow> st \<noteq> 304 \<Longrightarrow>
   writeResult w data st ct =
     (Return (),
      w\<lparr>rw_header := (rw_header w)(''Content-Type'' \<mapsto> [ct]), rw_status := Some st,
        rw_body := rw_body w @ data\<rparr>)"
  by (simp add: writeResult_def Header_Set_def WriteHeader_def checkWriteHeaderCode_def Write_def
      bodyAllowedForStatus_def StatusNoContent_def Let_def)

lemma writeResult_status:
  "rw_status w = None \<Longrightarrow> 200 \<le> st \<Longrightarrow> st \<le> 999 \<Longrightarrow>
   fst (writeResult w data st ct) = Return () \<and>
   rw_status (snd (writeResult w data st ct)) = Some st"
  by (simp add: writeResult_def Header_Set_def WriteHeader_def checkWriteHeaderCode_def Write_def
      Let_def)

lemma writeResult_interim:
  "rw_status w = None \<Longrightarrow> 100 \<le> st \<Longrightarrow> st \<le> 199 \<Longrightarrow> st \<noteq> 101 \<Longrightarrow>
   writeResult w data st ct =
     (Return (),
      w\<lparr>rw_header := (rw_header w)(''Content-Type'' \<mapsto> [ct]), rw_status := Some 200,
        rw_body := rw_body w @ data\<rparr>)"
  by (simp add: writeResult_def Header_Set_def WriteHeader_def checkWriteHeaderCode_def Write_def
      bodyAllowedForStatus_def StatusNoContent_def StatusOK_def Let_def)

lemma writeResult_invalid:
  "rw_status w = None \<Longrightarrow> st < 100 \<or> 999 < st \<Longrightarrow>
   writeResult w data st ct =
     (Panic (''invalid WriteHeader code '' @ format_int st),
      w\<lparr>rw_header := (rw_header w)(''Content-Type'' \<mapsto> [ct])\<rparr>)"
  by (simp add: writeResult_def Header_Set_def WriteHeader_def checkWriteHeaderCode_def Let_def)

lemma writeResult_calls_case:
  "(case writeResult w data st ct of
      (Panic msg, w') \<Rightarrow> (Panicked msg, wld\<lparr>writer := w'\<rparr>)
    | (Return u, w') \<Rightarrow> (Done, wld\<lparr>writer := w'\<rparr>)) =
   ((case fst (writeResult w data st ct) of Panic msg \<Rightarrow> Panicked msg | Return u \<Rightarrow> Done),
    wld\<lparr>writer := snd (writeResult w data st ct)\<rparr>)"
  by (simp split: prod.splits go.splits)

lemma marshalResponse_done:
  "selectContentMarshaler ext r ms = Return (m, ct) \<Longrightarrow> Marshal ext m resp = Inr body \<Longrightarrow>
   100 \<le> st \<Longrightarrow> st \<le> 999 \<Longrightarrow>
   marshalResponse ext resp st r ms wld =
     (Done, wld\<lparr>writer := snd (writeResult (writer wld) body st ct)\<rparr>)"
  by (simp add: marshalResponse_def writeResult_calls_case writeResult_valid)

lemma marshalResponse_calls:
  "calls (snd (marshalResponse ext resp st r ms wld)) = calls wld"
  by (simp add: marshalResponse_def split: go.splits prod.splits sum.splits)

lemma respondWith_calls:
  "calls (snd (respondWith ext obj info st r ms wld)) = calls wld"
  by (simp add: respondWith_def marshalResponse_calls split: sum.splits)

lemma respondWithPagination_calls:
  "calls (snd (respondWithPagination ext obj info st links r ms wld)) = calls wld"
  by (simp add: respondWithPagination_def marshalResponse_calls split: sum.splits)

lemma handleError_eq:
  "selectContentMarshaler ext r ms = Return (m, ct) \<Longrightarrow>
   handleError ext err r ms wld =
     ((case fst (writeResult (writer wld) (marshalError ext err m)
                  (case err of HTTPError inner msg st \<Rightarrow> st | _ \<Rightarrow> 500) ct) of
         Panic msg \<Rightarrow> Panicked msg
       | Return u \<Rightarrow> Done),
      wld\<lparr>logged := logged wld @ [err],
        writer := snd (writeResult (writer wld) (marshalError ext err m)
          (case err of HTTPError inner msg st \<Rightarrow> st | _ \<Rightarrow> 500) ct)\<rparr>)"
  by (simp add: handleError_def Let_def writeResult_calls_case StatusInternalServerError_def
      split: error.splits)

lemma handleError_done:
  "selectContentMarshaler ext r ms = Return (m, ct) \<Longrightarrow>
   100 \<le> (case err of HTTPError inner msg st \<Rightarrow> st | _ \<Rightarrow> 500) \<Longrightarrow>
   (case err of HTTPError inner msg st \<Rightarrow> st | _ \<Rightarrow> 500) \<le> 999 \<Longrightarrow>
   handleError ext err r ms wld =
     (Done, wld\<lparr>logged := logged wld @ [err],
        writer := snd (writeResult (writer wld) (marshalError ext err m)
          (case err of HTTPError inner msg st \<Rightarrow> st | _ \<Rightarrow> 500) ct)\<rparr>)"
  by (simp add: handleError_eq writeResult_valid)

lemma handleError_calls:
  "calls (snd (handleError ext err r ms wld)) = calls wld"
  by (simp add: handleError_def Let_def split: go.splits prod.splits error.splits)

lemma on_error_calls:
  "calls (snd (on_error ext r ms res)) = calls (snd res)"
  by (cases res) (simp add: on_error_def handleError_calls split: outcome.splits)

lemma on_error_Done: "on_error ext r ms (Done, wld) = (Done, wld)"
  by (simp add: on_error_def)

lemma on_error_Failed: "on_error ext r ms (Failed err, wld) = handleError ext err r ms wld"
  by (simp add: on_error_def)

lemma call_FindAll_eq:
  "f req (backend wld) = (res, s) \<Longrightarrow>
   call_FindAll f req wld = (res, wld\<lparr>backend := s, calls := calls wld @ [Called_FindAll]\<rparr>)"
  by (simp add: call_FindAll_def)

lemma call_PaginatedFindAll_eq:
  "f req (backend wld) = (res, s) \<Longrightarrow>
   call_PaginatedFindAll f req wld =
     (res, wld\<lparr>backend := s, calls := calls wld @ [Called_PaginatedFindAll]\<rparr>)"
  by (simp add: call_PaginatedFindAll_def)

lemma handleIndex_no_PaginatedFindAll:
  "isValid (newPaginationQueryParams r) \<Longrightarrow> PaginatedFindAll (source res) = None \<Longrightarrow>
   handleIndex ext res r info wld =
     (Failed (HTTPError None ''Resource does not implement the PaginatedFindAll interface'' 404), wld)"
  by (simp add: handleIndex_def Let_def NewHTTPError_def StatusNotFound_def)

lemma handleIndex_no_FindAll:
  "\<not> isValid (newPaginationQueryParams r) \<Longrightarrow> FindAll (source res) = None \<Longrightarrow>
   handleIndex ext res r info wld =
     (Failed (HTTPError None ''Resource does not implement the FindAll interface'' 404), wld)"
  by (simp add: handleIndex_def Let_def NewHTTPError_def StatusNotFound_def)

lemma handleIndex_FindAll_calls:
  "\<not> isValid (newPaginationQueryParams r) \<Longrightarrow> FindAll (source res) = Some findAll \<Longrightarrow>
   calls (snd (handleIndex ext res r info wld)) = calls wld @ [Called_FindAll]"
  by (cases "findAll (buildRequest r) (backend wld)")
     (simp add: handleIndex_def Let_def call_FindAll_def respondWith_calls split: sum.splits)

lemma handleIndex_PaginatedFindAll_calls:
  "isValid (newPaginationQueryParams r) \<Longrightarrow> PaginatedFindAll (source res) = Some f \<Longrightarrow>
   calls (snd (handleIndex ext res r info wld)) = calls wld @ [Called_PaginatedFindAll]"
  by (cases "f (buildRequest r) (backend wld)")
     (simp add: handleIndex_def Let_def call_PaginatedFindAll_def respondWithPagination_calls
        split: sum.splits go.splits prod.splits option.splits)

lemma handleIndex_FindAll_ok:
  assumes "\<not> isValid (newPaginationQueryParams r)" and "FindAll (source res) = Some findAll"
    and "findAll (buildRequest r) (backend wld) = (Inr objs, s)"
    and "MarshalWithURLs ext objs info = Inr data"
    and "selectContentMarshaler ext r (marshalers res) = Return (m, ct)"
    and "Marshal ext m (VObject data) = Inr body"
  shows "handleIndex ext res r info wld =
     (Done, wld\<lparr>backend := s, calls := calls wld @ [Called_FindAll],
        writer := snd (writeResult (writer wld) body 200 ct)\<rparr>)"
  using assms
  by (simp add: handleIndex_def Let_def call_FindAll_eq respondWith_def marshalResponse_done
      StatusOK_def)

lemma handleIndex_FindAll_error:
  assumes "\<not> isValid (newPaginationQueryParams r)" and "FindAll (source res) = Some findAll"
    and "findAll (buildRequest r) (backend wld) = (Inl err, s)"
  shows "handleIndex ext res r info wld =
     (Failed err, wld\<lparr>backend := s, calls := calls wld @ [Called_FindAll]\<rparr>)"
  using assms by (simp add: handleIndex_def Let_def call_FindAll_eq)

lemma handleIndex_PaginatedFindAll_ok:
  assumes "isValid (newPaginationQueryParams r)" and "PaginatedFindAll (source res) = Some f"
    and "f (buildRequest r) (backend wld) = (Inr (objs, count), s)"
    and "getLinks (encodeQuery ext) (newPaginationQueryParams r) r count info = Return (links, None)"
    and "MarshalWithURLs ext objs info = Inr data"
    and "selectContentMarshaler ext r (marshalers res) = Return (m, ct)"
    and "Marshal ext m (VObject (data(''links'' \<mapsto> VStringMap links))) = Inr body"
  shows "handleIndex ext res r info wld =
     (Done, wld\<lparr>backend := s, calls := calls wld @ [Called_PaginatedFindAll],
        writer := snd (writeResult (writer wld) body 200 ct)\<rparr>)"
  using assms
  by (simp add: handleIndex_def Let_def call_PaginatedFindAll_eq respondWithPagination_def
      marshalResponse_done StatusOK_def)

lemma handleIndex_PaginatedFindAll_error:
  assumes "isValid (newPaginationQueryParams r)" and "PaginatedFindAll (source res) = Some f"
    and "f (buildRequest r) (backend wld) = (Inl err, s)"
  shows "handleIndex ext res r info wld =
     (Failed err, wld\<lparr>backend := s, calls := calls wld @ [Called_PaginatedFindAll]\<rparr>)"
  using assms by (simp add: handleIndex_def Let_def call_PaginatedFindAll_eq)

lemma handleIndex_links_error:
  assumes "isValid (newPaginationQueryParams r)" and "PaginatedFindAll (source res) = Some f"
    and "f (buildRequest r) (backend wld) = (Inr (objs, count), s)"
    and "getLinks (encodeQuery ext) (newPaginationQueryParams r) r count info = Return (links, Some err)"
  shows "handleIndex ext res r info wld =
     (Failed err, wld\<lparr>backend := s, calls := calls wld @ [Called_PaginatedFindAll]\<rparr>)"
  using assms by (simp add: handleIndex_def Let_def call_PaginatedFindAll_eq)


lemma selectContentMarshaler_returns':
  assumes "content_type_has_value r"
  obtains m ct where "selectContentMarshaler ext r ms = Return (m, ct)"
  using selectContentMarshaler_returns [OF assms] by blast

lemma on_error_failed:
  assumes "content_type_has_value r" and "rw_status (writer wld) = None"
    and "200 \<le> (case err of HTTPError inner msg st \<Rightarrow> st | _ \<Rightarrow> 500)"
    and "(case err of HTTPError inner msg st \<Rightarrow> st | _ \<Rightarrow> 500) \<le> 999"
  shows "fst (on_error ext r ms (Failed err, wld)) = Done \<and>
     rw_status (writer (snd (on_error ext r ms (Failed err, wld)))) =
       Some (case err of HTTPError inner msg st \<Rightarrow> st | _ \<Rightarrow> 500) \<and>
     logged (snd (on_error ext r ms (Failed err, wld))) = logged wld @ [err] \<and>
     backend (snd (on_error ext r ms (Failed err, wld))) = backend wld"
proof -
  obtain m ct where "selectContentMarshaler ext r ms = Return (m, ct)"
    using assms(1) by (rule selectContentMarshaler_returns')
  then show ?thesis
    using assms(2-)
    by (simp add: on_error_Failed handleError_eq writeResult_status)
qed

lemma on_error_failed_invalid:
  assumes "content_type_has_value r" and "rw_status (writer wld) = None"
    and "(case err of HTTPError inner msg st \<Rightarrow> st | _ \<Rightarrow> 500) < 100 \<or>
         999 < (case err of HTTPError inner msg st \<Rightarrow> st | _ \<Rightarrow> 500)"
  shows "fst (on_error ext r ms (Failed err, wld)) =
       Panicked (''invalid WriteHeader code '' @
         format_int (case err of HTTPError inner msg st \<Rightarrow> st | _ \<Rightarrow> 500)) \<and>
     rw_status (writer (snd (on_error ext r ms (Failed err, wld)))) = None \<and>
     logged (snd (on_error ext r ms (Failed err, wld))) = logged wld @ [err] \<and>
     backend (snd (on_error ext r ms (Failed err, wld))) = backend wld"
proof -
  obtain m ct where "selectContentMarshaler ext r ms = Return (m, ct)"
    using assms(1) by (rule selectContentMarshaler_returns')
  then show ?thesis
    using assms(2-)
    by (simp add: on_error_Failed handleError_eq writeResult_invalid)
qed

lemma failed_answer:
  assumes "content_type_has_value r" and "rw_status (writer wld') = None"
    and "handleIndex ext res r info wld = (Failed err, wld')"
  shows "(let st = (case err of HTTPError inner msg st \<Rightarrow> st | _ \<Rightarrow> 500) in
     (200 \<le> st \<and> st \<le> 999 \<longrightarrow>
        fst (serve_index ext res info r wld) = Done \<and>
        rw_status (writer (snd (serve_index ext res info r wld))) = Some st) \<and>
     (st < 100 \<or> 999 < st \<longrightarrow>
        fst (serve_index ext res info r wld) =
          Panicked (''invalid WriteHeader code '' @ format_int st) \<and>
        rw_status (writer (snd (serve_index ext res info r wld))) = None))"
  using on_error_failed [OF assms(1,2), of err ext "marshalers res"]
    on_error_failed_invalid [OF assms(1,2), of err ext "marshalers res"]
  by (simp add: Let_def serve_index_def assms(3))

lemma on_error_done:
  "fst (on_error ext r ms (Done, wld)) = Done \<and> snd (on_error ext r ms (Done, wld)) = wld"
  by (simp add: on_error_Done)


section \<open>The small instance, evaluated\<close>

lemma ex_query_empty: "newPaginationQueryParams (ex_request [] body) =
    \<lparr>number = '''', size_param = '''', offset = '''', limit = ''''\<rparr>"
  by (simp add: newPaginationQueryParams_def ex_request_def Query_def Get_def)

lemma ex_not_paginated: "\<not> isValid (newPaginationQueryParams (ex_request [] body))"
  by (simp add: ex_query_empty isValid_def)

lemma ex_query_page: "newPaginationQueryParams
      (ex_request [(''page[number]'', ''2''), (''page[size]'', ''10'')] body) =
    \<lparr>number = ''2'', size_param = ''10'', offset = '''', limit = ''''\<rparr>"
  by (simp add: newPaginationQueryParams_def ex_request_def Query_def Get_def)

lemma ex_paginated:
  "isValid (newPaginationQueryParams (ex_request [(''page[number]'', ''2''), (''page[size]'', ''10'')] body))"
  by (simp add: ex_query_page isValid_def)

lemma ex_content_type: "content_type_has_value (ex_request query body)"
  by (simp add: content_type_has_value_def ex_request_def)

lemma ex_select:
  "selectContentMarshaler ex_ext (ex_request query body) (marshalers ex_resource) =
     Return (JSONContentMarshaler, ''application/vnd.api+json'')"
  by (simp add: selectContentMarshaler_def ex_request_def ex_resource_def lookup_marshaler_def)

lemma ex_select_updated:
  "selectContentMarshaler ex_ext (ex_request query body) (marshalers (ex_resource\<lparr>source := src\<rparr>)) =
     Return (JSONContentMarshaler, ''application/vnd.api+json'')"
  by (simp add: selectContentMarshaler_def ex_request_def ex_resource_def lookup_marshaler_def)

lemma ex_MarshalWithURLs: "MarshalWithURLs ex_ext obj info = Inr [''data'' \<mapsto> VString obj]"
  by (simp add: ex_ext_def)

lemma ex_Marshal: "json_Marshal ex_ext (VObject (d(''data'' \<mapsto> VString obj))) = Inr obj"
  by (simp add: ex_ext_def)

lemma ex_Marshal_links:
  "json_Marshal ex_ext (VObject ([''data'' \<mapsto> VString obj](''links'' \<mapsto> l))) = Inr obj"
  by (simp add: ex_ext_def)

lemma ex_world_fresh: "rw_status (writer ex_world) = None" "calls ex_world = []"
  "backend ex_world = 0" "rw_body (writer ex_world) = ''''"
  by (simp_all add: ex_world_def)

lemma ex_source_fields:
  "FindAll ex_source = Some (\<lambda>req s. (Inr ''all posts'', s))"
  "PaginatedFindAll ex_source = Some (\<lambda>req s. (Inr (''one page of posts'', 25), s))"
  "Create ex_source = (\<lambda>obj req s. (Inr ''1'', s + 1))"
  "Update ex_source = (\<lambda>obj req s. (None, s + 1))"
  "FindOne ex_source = (\<lambda>ident req s. if ident = ''1'' then (Inr ''stored post 1'', s)
                         else (Inl (HTTPError None ''post not found'' 404), s))"
  by (simp_all add: ex_source_def)

lemma ex_resource_fields: "source ex_resource = ex_source" "name ex_resource = ''posts''"
  by (simp_all add: ex_resource_def)


section \<open>The collection endpoint\<close>

text \<open>
  Claim C2, as amended. Take a \<^verbatim>\<open>GET\<close> on the collection endpoint of a resource, a
  request as the server delivers it and a response not yet started. When the query
  holds a valid pagination shape and the backend does not implement
  \<^verbatim>\<open>PaginatedFindAll\<close>, the handler fails with the 404 error "Resource does not
  implement the PaginatedFindAll interface", no backend operation is invoked and the
  status written is 404. When the query holds no valid pagination shape and the backend
  does not implement \<^verbatim>\<open>FindAll\<close>, the same holds with the message "Resource does not
  implement the FindAll interface". Otherwise the corresponding fetch is invoked, once;
  when the fetch returns objects, the links are computed (paginated case) and the
  encoding succeeds, the status written is 200 and the body is the encoded document;
  when the fetch or the computation of the links returns an error, the handler returns
  that error and \<^verbatim>\<open>handleError\<close> hands the status of the error, its own or 500 when
  it is not an \<^verbatim>\<open>HTTPError\<close>, to \<^verbatim>\<open>WriteHeader\<close>: a status from 200 to 999 is the
  status written; on a status below 100 or above 999 \<^verbatim>\<open>WriteHeader\<close> panics and no
  status is written.
\<close>

theorem handleIndex_dispatch:
  assumes "content_type_has_value r" and "rw_status (writer wld) = None"
  shows
   "(isValid (newPaginationQueryParams r) \<and> PaginatedFindAll (source res) = None \<longrightarrow>
       handleIndex ext res r info wld =
         (Failed (HTTPError None ''Resource does not implement the PaginatedFindAll interface'' 404),
          wld) \<and>
       fst (serve_index ext res info r wld) = Done \<and>
       rw_status (writer (snd (serve_index ext res info r wld))) = Some 404 \<and>
       calls (snd (serve_index ext res info r wld)) = calls wld) \<and>
    (\<not> isValid (newPaginationQueryParams r) \<and> FindAll (source res) = None \<longrightarrow>
       handleIndex ext res r info wld =
         (Failed (HTTPError None ''Resource does not implement the FindAll interface'' 404), wld) \<and>
       fst (serve_index ext res info r wld) = Done \<and>
       rw_status (writer (snd (serve_index ext res info r wld))) = Some 404 \<and>
       calls (snd (serve_index ext res info r wld)) = calls wld) \<and>
    (\<forall>findAll. \<not> isValid (newPaginationQueryParams r) \<and> FindAll (source res) = Some findAll \<longrightarrow>
       calls (snd (serve_index ext res info r wld)) = calls wld @ [Called_FindAll] \<and>
       (\<forall>objs s data m ct body.
          findAll (buildRequest r) (backend wld) = (Inr objs, s) \<and>
          MarshalWithURLs ext objs info = Inr data \<and>
          selectContentMarshaler ext r (marshalers res) = Return (m, ct) \<and>
          Marshal ext m (VObject data) = Inr body \<longrightarrow>
          fst (serve_index ext res info r wld) = Done \<and>
          rw_status (writer (snd (serve_index ext res info r wld))) = Some 200 \<and>
          rw_body (writer (snd (serve_index ext res info r wld))) = rw_body (writer wld) @ body) \<and>
       (\<forall>err s.
          findAll (buildRequest r) (backend wld) = (Inl err, s) \<longrightarrow>
          fst (handleIndex ext res r info wld) = Failed err \<and>
          (let st = (case err of HTTPError inner msg st \<Rightarrow> st | _ \<Rightarrow> 500) in
             (200 \<le> st \<and> st \<le> 999 \<longrightarrow>
                fst (serve_index ext res info r wld) = Done \<and>
                rw_status (writer (snd (serve_index ext res info r wld))) = Some st) \<and>
             (st < 100 \<or> 999 < st \<longrightarrow>
                fst (serve_index ext res info r wld) =
                  Panicked (''invalid WriteHeader code '' @ format_int st) \<and>
                rw_status (writer (snd (serve_index ext res info r wld))) = None)))) \<and>
    (\<forall>f. isValid (newPaginationQueryParams r) \<and> PaginatedFindAll (source res) = Some f \<longrightarrow>
       calls (snd (serve_index ext res info r wld)) = calls wld @ [Called_PaginatedFindAll] \<and>
       (\<forall>objs count s links data m ct body.
          f (buildRequest r) (backend wld) = (Inr (objs, count), s) \<and>
          getLinks (encodeQuery ext) (newPaginationQueryParams r) r count info = Return (links, None) \<and>
          MarshalWithURLs ext objs info = Inr data \<and>
          selectContentMarshaler ext r (marshalers res) = Return (m, ct) \<and>
          Marshal ext m (VObject (data(''links'' \<mapsto> VStringMap links))) = Inr body \<longrightarrow>
          fst (serve_index ext res info r wld) = Done \<and>
          rw_status (writer (snd (serve_index ext res info r wld))) = Some 200 \<and>
          rw_body (writer (snd (serve_index ext res info r wld))) = rw_body (writer wld) @ body) \<and>
       (\<forall>err s.
          f (buildRequest r) (backend wld) = (Inl err, s) \<longrightarrow>
          fst (handleIndex ext res r info wld) = Failed err \<and>
          (let st = (case err of HTTPError inner msg st \<Rightarrow> st | _ \<Rightarrow> 500) in
             (200 \<le> st \<and> st \<le> 999 \<longrightarrow>
                fst (serve_index ext res info r wld) = Done \<and>
                rw_status (writer (snd (serve_index ext res info r wld))) = Some st) \<and>
             (st < 100 \<or> 999 < st \<longrightarrow>
                fst (serve_index ext res info r wld) =
                  Panicked (''invalid WriteHeader code '' @ format_int st) \<and>
                rw_status (writer (snd (serve_index ext res info r wld))) = None))) \<and>
       (\<forall>objs count s links err.
          f (buildRequest r) (backend wld) = (Inr (objs, count), s) \<and>
          getLinks (encodeQuery ext) (newPaginationQueryParams r) r count info =
            Return (links, Some err) \<longrightarrow>
          fst (handleIndex ext res r info wld) = Failed err \<and>
          (let st = (case err of HTTPError inner msg st \<Rightarrow> st | _ \<Rightarrow> 500) in
             (200 \<le> st \<and> st \<le> 999 \<longrightarrow>
                fst (serve_index ext res info r wld) = Done \<and>
                rw_status (writer (snd (serve_index ext res info r wld))) = Some st) \<and>
             (st < 100 \<or> 999 < st \<longrightarrow>
                fst (serve_index ext res info r wld) =
                  Panicked (''invalid WriteHeader code '' @ format_int st) \<and>
                rw_status (writer (snd (serve_index ext res info r wld))) = None))))"
proof -
  note fresh = assms(2)
  have c1: "isValid (newPaginationQueryParams r) \<and> PaginatedFindAll (source res) = None \<longrightarrow>
       handleIndex ext res r info wld =
         (Failed (HTTPError None ''Resource does not implement the PaginatedFindAll interface'' 404),
          wld) \<and>
       fst (serve_index ext res info r wld) = Done \<and>
       rw_status (writer (snd (serve_index ext res info r wld))) = Some 404 \<and>
       calls (snd (serve_index ext res info r wld)) = calls wld"
    using on_error_failed [OF assms(1) fresh,
        where err = "HTTPError None ''Resource does not implement the PaginatedFindAll interface'' 404"
          and ext = ext and ms = "marshalers res"]
    by (simp add: serve_index_def handleIndex_no_PaginatedFindAll on_error_calls)
  have c2: "\<not> isValid (newPaginationQueryParams r) \<and> FindAll (source res) = None \<longrightarrow>
       handleIndex ext res r info wld =
         (Failed (HTTPError None ''Resource does not implement the FindAll interface'' 404), wld) \<and>
       fst (serve_index ext res info r wld) = Done \<and>
       rw_status (writer (snd (serve_index ext res info r wld))) = Some 404 \<and>
       calls (snd (serve_index ext res info r wld)) = calls wld"
    using on_error_failed [OF assms(1) fresh,
        where err = "HTTPError None ''Resource does not implement the FindAll interface'' 404"
          and ext = ext and ms = "marshalers res"]
    by (simp add: serve_index_def handleIndex_no_FindAll on_error_calls)
  have c3: "\<forall>findAll. \<not> isValid (newPaginationQueryParams r) \<and> FindAll (source res) = Some findAll \<longrightarrow>
       calls (snd (serve_index ext res info r wld)) = calls wld @ [Called_FindAll] \<and>
       (\<forall>objs s data m ct body.
          findAll (buildRequest r) (backend wld) = (Inr objs, s) \<and>
          MarshalWithURLs ext objs info = Inr data \<and>
          selectContentMarshaler ext r (marshalers res) = Return (m, ct) \<and>
          Marshal ext m (VObject data) = Inr body \<longrightarrow>
          fst (serve_index ext res info r wld) = Done \<and>
          rw_status (writer (snd (serve_index ext res info r wld))) = Some 200 \<and>
          rw_body (writer (snd (serve_index ext res info r wld))) = rw_body (writer wld) @ body) \<and>
       (\<forall>err s.
          findAll (buildRequest r) (backend wld) = (Inl err, s) \<longrightarrow>
          fst (handleIndex ext res r info wld) = Failed err \<and>
          (let st = (case err of HTTPError inner msg st \<Rightarrow> st | _ \<Rightarrow> 500) in
             (200 \<le> st \<and> st \<le> 999 \<longrightarrow>
                fst (serve_index ext res info r wld) = Done \<and>
                rw_status (writer (snd (serve_index ext res info r wld))) = Some st) \<and>
             (st < 100 \<or> 999 < st \<longrightarrow>
                fst (serve_index ext res info r wld) =
                  Panicked (''invalid WriteHeader code '' @ format_int st) \<and>
                rw_status (writer (snd (serve_index ext res info r wld))) = None)))"
  proof (intro allI impI conjI; (elim conjE)?)
    fix findAll
    assume a: "\<not> isValid (newPaginationQueryParams r)" "FindAll (source res) = Some findAll"
    show "calls (snd (serve_index ext res info r wld)) = calls wld @ [Called_FindAll]"
      using a by (simp add: serve_index_def on_error_calls handleIndex_FindAll_calls)
    {
      fix objs s data m ct body
      assume b: "findAll (buildRequest r) (backend wld) = (Inr objs, s)"
        "MarshalWithURLs ext objs info = Inr data"
        "selectContentMarshaler ext r (marshalers res) = Return (m, ct)"
        "Marshal ext m (VObject data) = Inr body"
      have h: "handleIndex ext res r info wld =
         (Done, wld\<lparr>backend := s, calls := calls wld @ [Called_FindAll],
            writer := snd (writeResult (writer wld) body 200 ct)\<rparr>)"
        using a b by (rule handleIndex_FindAll_ok)
      show "fst (serve_index ext res info r wld) = Done"
        by (simp add: serve_index_def h on_error_Done)
      show "rw_status (writer (snd (serve_index ext res info r wld))) = Some 200"
        using fresh by (simp add: serve_index_def h on_error_Done writeResult_fresh)
      show "rw_body (writer (snd (serve_index ext res info r wld))) = rw_body (writer wld) @ body"
        using fresh by (simp add: serve_index_def h on_error_Done writeResult_fresh)
    }
    {
      fix err s
      assume b: "findAll (buildRequest r) (backend wld) = (Inl err, s)"
      have h: "handleIndex ext res r info wld =
         (Failed err, wld\<lparr>backend := s, calls := calls wld @ [Called_FindAll]\<rparr>)"
        using a b by (rule handleIndex_FindAll_error)
      show "fst (handleIndex ext res r info wld) = Failed err"
        by (simp add: h)
      show "(let st = (case err of HTTPError inner msg st \<Rightarrow> st | _ \<Rightarrow> 500) in
               (200 \<le> st \<and> st \<le> 999 \<longrightarrow>
                  fst (serve_index ext res info r wld) = Done \<and>
                  rw_status (writer (snd (serve_index ext res info r wld))) = Some st) \<and>
               (st < 100 \<or> 999 < st \<longrightarrow>
                  fst (serve_index ext res info r wld) =
                    Panicked (''invalid WriteHeader code '' @ format_int st) \<and>
                  rw_status (writer (snd (serve_index ext res info r wld))) = None))"
        by (rule failed_answer [OF assms(1) _ h]) (simp add: fresh)
    }
  qed
  have c4: "\<forall>f. isValid (newPaginationQueryParams r) \<and> PaginatedFindAll (source res) = Some f \<longrightarrow>
       calls (snd (serve_index ext res info r wld)) = calls wld @ [Called_PaginatedFindAll] \<and>
       (\<forall>objs count s links data m ct body.
          f (buildRequest r) (backend wld) = (Inr (objs, count), s) \<and>
          getLinks (encodeQuery ext) (newPaginationQueryParams r) r count info = Return (links, None) \<and>
          MarshalWithURLs ext objs info = Inr data \<and>
          selectContentMarshaler ext r (marshalers res) = Return (m, ct) \<and>
          Marshal ext m (VObject (data(''links'' \<mapsto> VStringMap links))) = Inr body \<longrightarrow>
          fst (serve_index ext res info r wld) = Done \<and>
          rw_status (writer (snd (serve_index ext res info r wld))) = Some 200 \<and>
          rw_body (writer (snd (serve_index ext res info r wld))) = rw_body (writer wld) @ body) \<and>
       (\<forall>err s.
          f (buildRequest r) (backend wld) = (Inl err, s) \<longrightarrow>
          fst (handleIndex ext res r info wld) = Failed err \<and>
          (let st = (case err of HTTPError inner msg st \<Rightarrow> st | _ \<Rightarrow> 500) in
             (200 \<le> st \<and> st \<le> 999 \<longrightarrow>
                fst (serve_index ext res info r wld) = Done \<and>
                rw_status (writer (snd (serve_index ext res info r wld))) = Some st) \<and>
             (st < 100 \<or> 999 < st \<longrightarrow>
                fst (serve_index ext res info r wld) =
                  Panicked (''invalid WriteHeader code '' @ format_int st) \<and>
                rw_status (writer (snd (serve_index ext res info r wld))) = None))) \<and>
       (\<forall>objs count s links err.
          f (buildRequest r) (backend wld) = (Inr (objs, count), s) \<and>
          getLinks (encodeQuery ext) (newPaginationQueryParams r) r count info =
            Return (links, Some err) \<longrightarrow>
          fst (handleIndex ext res r info wld) = Failed err \<and>
          (let st = (case err of HTTPError inner msg st \<Rightarrow> st | _ \<Rightarrow> 500) in
             (200 \<le> st \<and> st \<le> 999 \<longrightarrow>
                fst (serve_index ext res info r wld) = Done \<and>
                rw_status (writer (snd (serve_index ext res info r wld))) = Some st) \<and>
             (st < 100 \<or> 999 < st \<longrightarrow>
                fst (serve_index ext res info r wld) =
                  Panicked (''invalid WriteHeader code '' @ format_int st) \<and>
                rw_status (writer (snd (serve_index ext res info r wld))) = None)))"
  proof (intro allI impI conjI; (elim conjE)?)
    fix f
    assume a: "isValid (newPaginationQueryParams r)" "PaginatedFindAll (source res) = Some f"
    show "calls (snd (serve_index ext res info r wld)) = calls wld @ [Called_PaginatedFindAll]"
      using a by (simp add: serve_index_def on_error_calls handleIndex_PaginatedFindAll_calls)
    {
      fix objs count s links data m ct body
      assume b: "f (buildRequest r) (backend wld) = (Inr (objs, count), s)"
        "getLinks (encodeQuery ext) (newPaginationQueryParams r) r count info = Return (links, None)"
        "MarshalWithURLs ext objs info = Inr data"
        "selectContentMarshaler ext r (marshalers res) = Return (m, ct)"
        "Marshal ext m (VObject (data(''links'' \<mapsto> VStringMap links))) = Inr body"
      have h: "handleIndex ext res r info wld =
         (Done, wld\<lparr>backend := s, calls := calls wld @ [Called_PaginatedFindAll],
            writer := snd (writeResult (writer wld) body 200 ct)\<rparr>)"
        using a b by (rule handleIndex_PaginatedFindAll_ok)
      show "fst (serve_index ext res info r wld) = Done"
        by (simp add: serve_index_def h on_error_Done)
      show "rw_status (writer (snd (serve_index ext res info r wld))) = Some 200"
        using fresh by (simp add: serve_index_def h on_error_Done writeResult_fresh)
      show "rw_body (writer (snd (serve_index ext res info r wld))) = rw_body (writer wld) @ body"
        using fresh by (simp add: serve_index_def h on_error_Done writeResult_fresh)
    }
    {
      fix err s
      assume b: "f (buildRequest r) (backend wld) = (Inl err, s)"
      have h: "handleIndex ext res r info wld =
         (Failed err, wld\<lparr>backend := s, calls := calls wld @ [Called_PaginatedFindAll]\<rparr>)"
        using a b by (rule handleIndex_PaginatedFindAll_error)
      show "fst (handleIndex ext res r info wld) = Failed err"
        by (simp add: h)
      show "(let st = (case err of HTTPError inner msg st \<Rightarrow> st | _ \<Rightarrow> 500) in
               (200 \<le> st \<and> st \<le> 999 \<longrightarrow>
                  fst (serve_index ext res info r wld) = Done \<and>
                  rw_status (writer (snd (serve_index ext res info r wld))) = Some st) \<and>
               (st < 100 \<or> 999 < st \<longrightarrow>
                  fst (serve_index ext res info r wld) =
                    Panicked (''invalid WriteHeader code '' @ format_int st) \<and>
                  rw_status (writer (snd (serve_index ext res info r wld))) = None))"
        by (rule failed_answer [OF assms(1) _ h]) (simp add: fresh)
    }
    {
      fix objs count s links err
      assume b: "f (buildRequest r) (backend wld) = (Inr (objs, count), s)"
        "getLinks (encodeQuery ext) (newPaginationQueryParams r) r count info = Return (links, Some err)"
      have h: "handleIndex ext res r info wld =
         (Failed err, wld\<lparr>backend := s, calls := calls wld @ [Called_PaginatedFindAll]\<rparr>)"
        using a b by (rule handleIndex_links_error)
      show "fst (handleIndex ext res r info wld) = Failed err"
        by (simp add: h)
      show "(let st = (case err of HTTPError inner msg st \<Rightarrow> st | _ \<Rightarrow> 500) in
               (200 \<le> st \<and> st \<le> 999 \<longrightarrow>
                  fst (serve_index ext res info r wld) = Done \<and>
                  rw_status (writer (snd (serve_index ext res info r wld))) = Some st) \<and>
               (st < 100 \<or> 999 < st \<longrightarrow>
                  fst (serve_index ext res info r wld) =
                    Panicked (''invalid WriteHeader code '' @ format_int st) \<and>
                  rw_status (writer (snd (serve_index ext res info r wld))) = None))"
        by (rule failed_answer [OF assms(1) _ h]) (simp add: fresh)
    }
  qed
  show ?thesis
    by (intro conjI c1 c2 c3 c4)
qed

text \<open>
  The claim as first stated promises status 200 whenever the fetch is implemented. On
  the small instance with a \<^verbatim>\<open>FindAll\<close> that returns an error the fetch is invoked and
  the status written is 500. Nor does the message of the missing \<^verbatim>\<open>FindAll\<close> contain
  the phrase "does not implement FindAll": it reads "does not implement the FindAll
  interface".
\<close>

theorem handleIndex_dispatch_counterexample:
  "\<not> isValid (newPaginationQueryParams (ex_request [] '''')) \<and>
   FindAll (source (ex_resource\<lparr>source :=
      ex_source\<lparr>FindAll := Some (\<lambda>req s. (Inl (ErrorString ''database is down''), s))\<rparr>\<rparr>)) \<noteq> None \<and>
   calls (snd (serve_index ex_ext
      (ex_resource\<lparr>source :=
         ex_source\<lparr>FindAll := Some (\<lambda>req s. (Inl (ErrorString ''database is down''), s))\<rparr>\<rparr>)
      ex_info (ex_request [] '''') ex_world)) = [Called_FindAll] \<and>
   rw_status (writer (snd (serve_index ex_ext
      (ex_resource\<lparr>source :=
         ex_source\<lparr>FindAll := Some (\<lambda>req s. (Inl (ErrorString ''database is down''), s))\<rparr>\<rparr>)
      ex_info (ex_request [] '''') ex_world))) = Some 500 \<and>
   fst (handleIndex ex_ext (ex_resource\<lparr>source := ex_source\<lparr>FindAll := None\<rparr>\<rparr>)
      (ex_request [] '''') ex_info ex_world) =
     Failed (HTTPError None ''Resource does not implement the FindAll interface'' 404) \<and>
   \<not> Contains ''Resource does not implement the FindAll interface'' ''does not implement FindAll''"
proof -
  let ?res = "ex_resource\<lparr>source :=
      ex_source\<lparr>FindAll := Some (\<lambda>req s. (Inl (ErrorString ''database is down''), s))\<rparr>\<rparr>"
  have h: "handleIndex ex_ext ?res (ex_request [] '''') ex_info ex_world =
     (Failed (ErrorString ''database is down''),
      ex_world\<lparr>backend := backend ex_world, calls := calls ex_world @ [Called_FindAll]\<rparr>)"
    by (rule handleIndex_FindAll_error [where findAll = "\<lambda>req s. (Inl (ErrorString ''database is down''), s)"])
       (simp_all add: ex_not_paginated)
  have e: "handleError ex_ext (ErrorString ''database is down'') (ex_request [] '''')
       (marshalers ex_resource) wld =
     (Done, wld\<lparr>logged := logged wld @ [ErrorString ''database is down''],
        writer := snd (writeResult (writer wld)
          (marshalError ex_ext (ErrorString ''database is down'') JSONContentMarshaler)
          500 ''application/vnd.api+json'')\<rparr>)" for wld :: "(string, nat) world"
    using handleError_done [OF ex_select, of "ErrorString ''database is down''"]
    by simp
  have s: "serve_index ex_ext ?res ex_info (ex_request [] '''') ex_world =
     handleError ex_ext (ErrorString ''database is down'') (ex_request [] '''') (marshalers ?res)
       (ex_world\<lparr>backend := backend ex_world, calls := calls ex_world @ [Called_FindAll]\<rparr>)"
    by (simp add: serve_index_def h on_error_Failed)
  have n: "handleIndex ex_ext (ex_resource\<lparr>source := ex_source\<lparr>FindAll := None\<rparr>\<rparr>)
      (ex_request [] '''') ex_info ex_world =
     (Failed (HTTPError None ''Resource does not implement the FindAll interface'' 404), ex_world)"
    by (rule handleIndex_no_FindAll) (simp_all add: ex_not_paginated)
  have c: "\<not> Contains ''Resource does not implement the FindAll interface'' ''does not implement FindAll''"
    by simp
  show ?thesis
    using c
    by (simp add: ex_not_paginated s e n ex_world_fresh writeResult_fresh StatusInternalServerError_def)
qed



lemma format_int_minus_one: "format_int (- 1) = ''-1''"
  by (simp add: format_int_def format_nat_small digits_def)

theorem handleIndex_dispatch_witness:
  "content_type_has_value (ex_request [] '''') \<and> rw_status (writer ex_world) = None \<and>
   fst (serve_index ex_ext ex_resource ex_info (ex_request [] '''') ex_world) = Done \<and>
   rw_status (writer (snd (serve_index ex_ext ex_resource ex_info (ex_request [] '''') ex_world))) =
     Some 200 \<and>
   rw_body (writer (snd (serve_index ex_ext ex_resource ex_info (ex_request [] '''') ex_world))) =
     ''all posts'' \<and>
   calls (snd (serve_index ex_ext ex_resource ex_info (ex_request [] '''') ex_world)) =
     [Called_FindAll] \<and>
   rw_status (writer (snd (serve_index ex_ext ex_resource ex_info
      (ex_request [(''page[number]'', ''2''), (''page[size]'', ''10'')] '''') ex_world))) = Some 200 \<and>
   rw_body (writer (snd (serve_index ex_ext ex_resource ex_info
      (ex_request [(''page[number]'', ''2''), (''page[size]'', ''10'')] '''') ex_world))) =
     ''one page of posts'' \<and>
   calls (snd (serve_index ex_ext ex_resource ex_info
      (ex_request [(''page[number]'', ''2''), (''page[size]'', ''10'')] '''') ex_world)) =
     [Called_PaginatedFindAll] \<and>
   rw_status (writer (snd (serve_index ex_ext (ex_resource\<lparr>source := ex_source\<lparr>FindAll := None\<rparr>\<rparr>)
      ex_info (ex_request [] '''') ex_world))) = Some 404 \<and>
   rw_status (writer (snd (serve_index ex_ext
      (ex_resource\<lparr>source := ex_source\<lparr>PaginatedFindAll := None\<rparr>\<rparr>) ex_info
      (ex_request [(''page[number]'', ''2''), (''page[size]'', ''10'')] '''') ex_world))) = Some 404 \<and>
   fst (serve_index ex_ext
      (ex_resource\<lparr>source := ex_source\<lparr>FindAll :=
         Some (\<lambda>req s. (Inl (HTTPError None ''try again later'' 503), s))\<rparr>\<rparr>)
      ex_info (ex_request [] '''') ex_world) = Done \<and>
   rw_status (writer (snd (serve_index ex_ext
      (ex_resource\<lparr>source := ex_source\<lparr>FindAll :=
         Some (\<lambda>req s. (Inl (HTTPError None ''try again later'' 503), s))\<rparr>\<rparr>)
      ex_info (ex_request [] '''') ex_world))) = Some 503 \<and>
   fst (serve_index ex_ext
      (ex_resource\<lparr>source := ex_source\<lparr>FindAll :=
         Some (\<lambda>req s. (Inl (HTTPError None ''no status'' (- 1)), s))\<rparr>\<rparr>)
      ex_info (ex_request [] '''') ex_world) = Panicked ''invalid WriteHeader code -1'' \<and>
   rw_status (writer (snd (serve_index ex_ext
      (ex_resource\<lparr>source := ex_source\<lparr>FindAll :=
         Some (\<lambda>req s. (Inl (HTTPError None ''no status'' (- 1)), s))\<rparr>\<rparr>)
      ex_info (ex_request [] '''') ex_world))) = None"
proof -
  let ?plain = "ex_request [] ''''"
  let ?paged = "ex_request [(''page[number]'', ''2''), (''page[size]'', ''10'')] ''''"
  have n: "ParseUint ''2'' = Inr 2" and sz: "ParseUint ''10'' = Inr 10"
    by (simp_all add: ParseUint_def digit_of_def)
  obtain links where links: "getLinks (encodeQuery ex_ext)
      \<lparr>number = ''2'', size_param = ''10'', offset = '''', limit = ''''\<rparr> ?paged 25 ex_info =
      Return (links, None)"
    using getLinks_number [of "\<lparr>number = ''2'', size_param = ''10'', offset = '''', limit = ''''\<rparr>"
        2 10 "encodeQuery ex_ext" ?paged 25 ex_info] n sz
    by auto
  note plain = handleIndex_dispatch [OF ex_content_type ex_world_fresh(1),
      of "[]" "''''" ex_resource ex_ext ex_info]
  note paged = handleIndex_dispatch [OF ex_content_type ex_world_fresh(1),
      of "[(''page[number]'', ''2''), (''page[size]'', ''10'')]" "''''" ex_resource ex_ext ex_info]
  note no_all = handleIndex_dispatch [OF ex_content_type ex_world_fresh(1),
      of "[]" "''''" "ex_resource\<lparr>source := ex_source\<lparr>FindAll := None\<rparr>\<rparr>" ex_ext ex_info]
  note no_paged = handleIndex_dispatch [OF ex_content_type ex_world_fresh(1),
      of "[(''page[number]'', ''2''), (''page[size]'', ''10'')]" "''''"
        "ex_resource\<lparr>source := ex_source\<lparr>PaginatedFindAll := None\<rparr>\<rparr>" ex_ext ex_info]
  have a: "fst (serve_index ex_ext ex_resource ex_info ?plain ex_world) = Done \<and>
      rw_status (writer (snd (serve_index ex_ext ex_resource ex_info ?plain ex_world))) = Some 200 \<and>
      rw_body (writer (snd (serve_index ex_ext ex_resource ex_info ?plain ex_world))) = ''all posts'' \<and>
      calls (snd (serve_index ex_ext ex_resource ex_info ?plain ex_world)) = [Called_FindAll]"
    using plain [THEN conjunct2, THEN conjunct2, THEN conjunct1, rule_format,
        of "\<lambda>req s. (Inr ''all posts'', s)"]
    by (simp add: ex_not_paginated ex_resource_fields ex_source_fields ex_world_fresh
        ex_MarshalWithURLs ex_select ex_Marshal)
  have b: "rw_status (writer (snd (serve_index ex_ext ex_resource ex_info ?paged ex_world))) = Some 200 \<and>
      rw_body (writer (snd (serve_index ex_ext ex_resource ex_info ?paged ex_world))) =
        ''one page of posts'' \<and>
      calls (snd (serve_index ex_ext ex_resource ex_info ?paged ex_world)) = [Called_PaginatedFindAll]"
    using paged [THEN conjunct2, THEN conjunct2, THEN conjunct2, rule_format,
        of "\<lambda>req s. (Inr (''one page of posts'', 25), s)"] links
    by (simp add: ex_query_page isValid_def ex_resource_fields ex_source_fields ex_world_fresh
        ex_MarshalWithURLs ex_select ex_Marshal_links)
  have c: "rw_status (writer (snd (serve_index ex_ext
        (ex_resource\<lparr>source := ex_source\<lparr>FindAll := None\<rparr>\<rparr>) ex_info ?plain ex_world))) = Some 404"
    using no_all [THEN conjunct2, THEN conjunct1]
    by (simp add: ex_not_paginated)
  have d: "rw_status (writer (snd (serve_index ex_ext
        (ex_resource\<lparr>source := ex_source\<lparr>PaginatedFindAll := None\<rparr>\<rparr>) ex_info ?paged ex_world))) =
      Some 404"
    using no_paged [THEN conjunct1]
    by (simp add: ex_paginated)
  have e: "fst (serve_index ex_ext
        (ex_resource\<lparr>source := ex_source\<lparr>FindAll :=
           Some (\<lambda>req s. (Inl (HTTPError None ''try again later'' 503), s))\<rparr>\<rparr>)
        ex_info ?plain ex_world) = Done \<and>
      rw_status (writer (snd (serve_index ex_ext
        (ex_resource\<lparr>source := ex_source\<lparr>FindAll :=
           Some (\<lambda>req s. (Inl (HTTPError None ''try again later'' 503), s))\<rparr>\<rparr>)
        ex_info ?plain ex_world))) = Some 503"
    using handleIndex_dispatch [OF ex_content_type ex_world_fresh(1),
      of "[]" "''''" "ex_resource\<lparr>source := ex_source\<lparr>FindAll :=
           Some (\<lambda>req s. (Inl (HTTPError None ''try again later'' 503), s))\<rparr>\<rparr>" ex_ext ex_info,
      THEN conjunct2, THEN conjunct2, THEN conjunct1, rule_format,
        of "\<lambda>req s. (Inl (HTTPError None ''try again later'' 503), s)"]
    by (simp add: ex_not_paginated Let_def)
  have f: "fst (serve_index ex_ext
        (ex_resource\<lparr>source := ex_source\<lparr>FindAll :=
           Some (\<lambda>req s. (Inl (HTTPError None ''no status'' (- 1)), s))\<rparr>\<rparr>)
        ex_info ?plain ex_world) = Panicked ''invalid WriteHeader code -1'' \<and>
      rw_status (writer (snd (serve_index ex_ext
        (ex_resource\<lparr>source := ex_source\<lparr>FindAll :=
           Some (\<lambda>req s. (Inl (HTTPError None ''no status'' (- 1)), s))\<rparr>\<rparr>)
        ex_info ?plain ex_world))) = None"
    using handleIndex_dispatch [OF ex_content_type ex_world_fresh(1),
      of "[]" "''''" "ex_resource\<lparr>source := ex_source\<lparr>FindAll :=
           Some (\<lambda>req s. (Inl (HTTPError None ''no status'' (- 1)), s))\<rparr>\<rparr>" ex_ext ex_info,
      THEN conjunct2, THEN conjunct2, THEN conjunct1, rule_format,
        of "\<lambda>req s. (Inl (HTTPError None ''no status'' (- 1)), s)"]
    by (simp add: ex_not_paginated Let_def format_int_minus_one)
  show ?thesis
    using a b c d e f ex_content_type [of "[]" "''''"] ex_world_fresh(1) by simp
qed

section \<open>The creation endpoint\<close>

lemma call_Create_eq:
  "Create src obj req (backend wld) = (res, s) \<Longrightarrow>
   call_Create src obj req wld = (res, wld\<lparr>backend := s, calls := calls wld @ [Called_Create obj]\<rparr>)"
  by (simp add: call_Create_def)

lemma call_FindOne_eq:
  "FindOne src ident req (backend wld) = (res, s) \<Longrightarrow>
   call_FindOne src ident req wld =
     (res, wld\<lparr>backend := s, calls := calls wld @ [Called_FindOne ident]\<rparr>)"
  by (simp add: call_FindOne_def)

lemma call_Update_eq:
  "Update src obj req (backend wld) = (res, s) \<Longrightarrow>
   call_Update src obj req wld = (res, wld\<lparr>backend := s, calls := calls wld @ [Called_Update obj]\<rparr>)"
  by (simp add: call_Update_def)

lemma unmarshalRequest_selects:
  assumes "unmarshalRequest ext r ms = Return (Inr ctx)"
  obtains m ct where "selectContentMarshaler ext r ms = Return (m, ct)"
  using assms
  by (auto simp: unmarshalRequest_def split: sum.splits go.splits prod.splits)

lemma writeResult_header:
  "key \<noteq> ''Content-Type'' \<Longrightarrow>
   rw_header (snd (writeResult w data st ct)) key = rw_header w key"
  by (auto simp: writeResult_def Header_Set_def WriteHeader_def Write_def Let_def
      split: go.splits option.splits if_splits)

lemma marshalResponse_header:
  "key \<noteq> ''Content-Type'' \<Longrightarrow>
   rw_header (writer (snd (marshalResponse ext resp st r ms wld))) key = rw_header (writer wld) key"
  by (simp add: marshalResponse_def writeResult_calls_case writeResult_header
      split: go.splits prod.splits sum.splits)

lemma respondWith_header:
  "key \<noteq> ''Content-Type'' \<Longrightarrow>
   rw_header (writer (snd (respondWith ext obj info st r ms wld))) key = rw_header (writer wld) key"
  by (simp add: respondWith_def marshalResponse_header split: sum.splits)

lemma respondWith_done:
  "MarshalWithURLs ext obj info = Inr data \<Longrightarrow>
   selectContentMarshaler ext r ms = Return (m, ct) \<Longrightarrow>
   Marshal ext m (VObject data) = Inr body \<Longrightarrow>
   100 \<le> st \<Longrightarrow> st \<le> 999 \<Longrightarrow>
   respondWith ext obj info st r ms wld =
     (Done, wld\<lparr>writer := snd (writeResult (writer wld) body st ct)\<rparr>)"
  by (simp add: respondWith_def marshalResponse_done)

lemma handleCreate_not_one:
  assumes "unmarshalRequest ext r (marshalers res) = Return (Inr ctx)"
    and "UnmarshalInto ext ctx [] = Inr newObjs" and "length newObjs \<noteq> 1"
  shows "handleCreate ext res r pfx info wld =
     (Failed (ErrorString ''expected one object in POST''), wld)"
  using assms by (simp add: handleCreate_def)

lemma handleCreate_Create_error:
  assumes "unmarshalRequest ext r (marshalers res) = Return (Inr ctx)"
    and "UnmarshalInto ext ctx [] = Inr [newObj]"
    and "Create (source res) newObj (buildRequest r) (backend wld) = (Inl err, s1)"
  shows "handleCreate ext res r pfx info wld =
     (Failed err, wld\<lparr>backend := s1, calls := calls wld @ [Called_Create newObj]\<rparr>)"
  using assms by (simp add: handleCreate_def call_Create_eq)

lemma handleCreate_created:
  assumes "unmarshalRequest ext r (marshalers res) = Return (Inr ctx)"
    and "UnmarshalInto ext ctx [] = Inr [newObj]"
    and "Create (source res) newObj (buildRequest r) (backend wld) = (Inr ident, s1)"
    and "FindOne (source res) ident (buildRequest r) s1 = (found, s2)"
  shows "handleCreate ext res r pfx info wld =
     (case found of
        Inl err \<Rightarrow>
          (Failed err,
           wld\<lparr>backend := s2, calls := calls wld @ [Called_Create newObj, Called_FindOne ident],
             writer := Header_Set (writer wld) ''Location'' (pfx @ name res @ ''/'' @ ident)\<rparr>)
      | Inr obj \<Rightarrow>
          respondWith ext obj info 201 r (marshalers res)
            (wld\<lparr>writer := Header_Set (writer wld) ''Location'' (pfx @ name res @ ''/'' @ ident),
               backend := s2,
               calls := calls wld @ [Called_Create newObj, Called_FindOne ident]\<rparr>))"
  using assms
  by (simp add: handleCreate_def call_Create_eq call_FindOne_eq Let_def StatusCreated_def
      split: sum.splits)


lemma Header_Set_status: "rw_status (Header_Set w key val) = rw_status w"
  "rw_body (Header_Set w key val) = rw_body w"
  "rw_header (Header_Set w key val) key = Some [val]"
  by (simp_all add: Header_Set_def)

lemma ex_Body: "Body (ex_request query body) = Inr body"
  by (simp add: ex_request_def)

lemma ex_json_Unmarshal:
  "json_Unmarshal ex_ext ''full'' =
     Inr [''data'' \<mapsto> VObject [''id'' \<mapsto> VString ''1'', ''type'' \<mapsto> VString ''posts'']]"
  "json_Unmarshal ex_ext ''no-id'' = Inr [''data'' \<mapsto> VObject [''type'' \<mapsto> VString ''posts'']]"
  "json_Unmarshal ex_ext ''no-data'' = Inr Map.empty"
  by (simp_all add: ex_ext_def)

lemma ex_unmarshal_full:
  "unmarshalRequest ex_ext (ex_request query ''full'') (marshalers ex_resource) =
     Return (Inr [''data'' \<mapsto> VObject [''id'' \<mapsto> VString ''1'', ''type'' \<mapsto> VString ''posts'']])"
  by (simp add: unmarshalRequest_def ex_Body ex_select ex_json_Unmarshal)

lemma ex_unmarshal_no_id:
  "unmarshalRequest ex_ext (ex_request query ''no-id'') (marshalers ex_resource) =
     Return (Inr [''data'' \<mapsto> VObject [''type'' \<mapsto> VString ''posts'']])"
  by (simp add: unmarshalRequest_def ex_Body ex_select ex_json_Unmarshal)

lemma ex_unmarshal_no_data:
  "unmarshalRequest ex_ext (ex_request query ''no-data'') (marshalers ex_resource) =
     Return (Inr Map.empty)"
  by (simp add: unmarshalRequest_def ex_Body ex_select ex_json_Unmarshal)

lemma ex_UnmarshalInto: "UnmarshalInto ex_ext doc objs = Inr [''decoded post'']"
  by (simp add: ex_ext_def)

lemma ex_marshalers: "marshalers (ex_resource\<lparr>source := src\<rparr>) = marshalers ex_resource"
  by simp


text \<open>
  Claim C7, as amended. Take a \<^verbatim>\<open>POST\<close> on a collection endpoint whose body decodes:
  the request decodes to a document and the document to a slice of objects. When the
  slice does not hold exactly one object the handler fails with "expected one object in
  POST" and leaves the backend, the record of its calls and the response as they were.
  When it holds exactly one object, \<^verbatim>\<open>Create\<close> is invoked with it; if \<^verbatim>\<open>Create\<close> returns
  an error the handler returns that error and nothing else is invoked; if it returns an
  id, the \<^verbatim>\<open>Location\<close> header is set to prefix, name, a slash and the id, and
  \<^verbatim>\<open>FindOne\<close> is invoked with that id on the state \<^verbatim>\<open>Create\<close> left; if \<^verbatim>\<open>FindOne\<close>
  returns an error the handler returns it; if it returns an object and the encoding
  succeeds, the status written is 201 and the body is the encoding of the fetched
  object.
\<close>

theorem handleCreate_cases:
  assumes "unmarshalRequest ext r (marshalers res) = Return (Inr ctx)"
    and "UnmarshalInto ext ctx [] = Inr newObjs"
    and "rw_status (writer wld) = None"
  shows
   "(length newObjs \<noteq> 1 \<longrightarrow>
       handleCreate ext res r pfx info wld =
         (Failed (ErrorString ''expected one object in POST''), wld)) \<and>
    (\<forall>newObj. newObjs = [newObj] \<longrightarrow>
       (\<forall>err s1.
          Create (source res) newObj (buildRequest r) (backend wld) = (Inl err, s1) \<longrightarrow>
          handleCreate ext res r pfx info wld =
            (Failed err, wld\<lparr>backend := s1, calls := calls wld @ [Called_Create newObj]\<rparr>)) \<and>
       (\<forall>ident s1.
          Create (source res) newObj (buildRequest r) (backend wld) = (Inr ident, s1) \<longrightarrow>
          calls (snd (handleCreate ext res r pfx info wld)) =
            calls wld @ [Called_Create newObj, Called_FindOne ident] \<and>
          rw_header (writer (snd (handleCreate ext res r pfx info wld))) ''Location'' =
            Some [pfx @ name res @ ''/'' @ ident] \<and>
          (\<forall>err s2.
             FindOne (source res) ident (buildRequest r) s1 = (Inl err, s2) \<longrightarrow>
             fst (handleCreate ext res r pfx info wld) = Failed err) \<and>
          (\<forall>obj s2 data m ct body.
             FindOne (source res) ident (buildRequest r) s1 = (Inr obj, s2) \<and>
             MarshalWithURLs ext obj info = Inr data \<and>
             selectContentMarshaler ext r (marshalers res) = Return (m, ct) \<and>
             Marshal ext m (VObject data) = Inr body \<longrightarrow>
             fst (serve_create ext res pfx info r wld) = Done \<and>
             backend (snd (serve_create ext res pfx info r wld)) = s2 \<and>
             rw_status (writer (snd (serve_create ext res pfx info r wld))) = Some 201 \<and>
             rw_body (writer (snd (serve_create ext res pfx info r wld))) =
               rw_body (writer wld) @ body)))"
proof -
  have c1: "length newObjs \<noteq> 1 \<longrightarrow>
       handleCreate ext res r pfx info wld =
         (Failed (ErrorString ''expected one object in POST''), wld)"
    using assms(1,2) by (simp add: handleCreate_not_one)
  have c2: "\<forall>newObj. newObjs = [newObj] \<longrightarrow>
       (\<forall>err s1.
          Create (source res) newObj (buildRequest r) (backend wld) = (Inl err, s1) \<longrightarrow>
          handleCreate ext res r pfx info wld =
            (Failed err, wld\<lparr>backend := s1, calls := calls wld @ [Called_Create newObj]\<rparr>)) \<and>
       (\<forall>ident s1.
          Create (source res) newObj (buildRequest r) (backend wld) = (Inr ident, s1) \<longrightarrow>
          calls (snd (handleCreate ext res r pfx info wld)) =
            calls wld @ [Called_Create newObj, Called_FindOne ident] \<and>
          rw_header (writer (snd (handleCreate ext res r pfx info wld))) ''Location'' =
            Some [pfx @ name res @ ''/'' @ ident] \<and>
          (\<forall>err s2.
             FindOne (source res) ident (buildRequest r) s1 = (Inl err, s2) \<longrightarrow>
             fst (handleCreate ext res r pfx info wld) = Failed err) \<and>
          (\<forall>obj s2 data m ct body.
             FindOne (source res) ident (buildRequest r) s1 = (Inr obj, s2) \<and>
             MarshalWithURLs ext obj info = Inr data \<and>
             selectContentMarshaler ext r (marshalers res) = Return (m, ct) \<and>
             Marshal ext m (VObject data) = Inr body \<longrightarrow>
             fst (serve_create ext res pfx info r wld) = Done \<and>
             backend (snd (serve_create ext res pfx info r wld)) = s2 \<and>
             rw_status (writer (snd (serve_create ext res pfx info r wld))) = Some 201 \<and>
             rw_body (writer (snd (serve_create ext res pfx info r wld))) =
               rw_body (writer wld) @ body))"
  proof (intro allI impI conjI; (elim conjE)?)
    fix newObj
    assume one: "newObjs = [newObj]"
    with assms(2) have dec: "UnmarshalInto ext ctx [] = Inr [newObj]"
      by simp
    {
      fix err s1
      assume "Create (source res) newObj (buildRequest r) (backend wld) = (Inl err, s1)"
      with assms(1) dec show "handleCreate ext res r pfx info wld =
            (Failed err, wld\<lparr>backend := s1, calls := calls wld @ [Called_Create newObj]\<rparr>)"
        by (rule handleCreate_Create_error)
    }
    {
      fix ident s1
      assume cr: "Create (source res) newObj (buildRequest r) (backend wld) = (Inr ident, s1)"
      obtain found s2 where fo: "FindOne (source res) ident (buildRequest r) s1 = (found, s2)"
        by (cases "FindOne (source res) ident (buildRequest r) s1")
      note h = handleCreate_created [OF assms(1) dec cr fo, of pfx info]
      show "calls (snd (handleCreate ext res r pfx info wld)) =
            calls wld @ [Called_Create newObj, Called_FindOne ident]"
        by (simp add: h respondWith_calls split: sum.splits)
      show "rw_header (writer (snd (handleCreate ext res r pfx info wld))) ''Location'' =
            Some [pfx @ name res @ ''/'' @ ident]"
        by (simp add: h respondWith_header Header_Set_status split: sum.splits)
    }
    {
      fix ident s1 err s2
      assume cr: "Create (source res) newObj (buildRequest r) (backend wld) = (Inr ident, s1)"
        and fo: "FindOne (source res) ident (buildRequest r) s1 = (Inl err, s2)"
      show "fst (handleCreate ext res r pfx info wld) = Failed err"
        by (simp add: handleCreate_created [OF assms(1) dec cr fo])
    }
    {
      fix ident s1 obj s2 data m ct body
      assume cr: "Create (source res) newObj (buildRequest r) (backend wld) = (Inr ident, s1)"
        and fo: "FindOne (source res) ident (buildRequest r) s1 = (Inr obj, s2)"
        and en: "MarshalWithURLs ext obj info = Inr data"
          "selectContentMarshaler ext r (marshalers res) = Return (m, ct)"
          "Marshal ext m (VObject data) = Inr body"
      have h: "handleCreate ext res r pfx info wld =
          (Done, wld\<lparr>writer := Header_Set (writer wld) ''Location'' (pfx @ name res @ ''/'' @ ident),
             backend := s2,
             calls := calls wld @ [Called_Create newObj, Called_FindOne ident],
             writer := snd (writeResult
               (Header_Set (writer wld) ''Location'' (pfx @ name res @ ''/'' @ ident)) body 201 ct)\<rparr>)"
        by (simp add: handleCreate_created [OF assms(1) dec cr fo] respondWith_done [OF en])
      show "fst (serve_create ext res pfx info r wld) = Done"
        by (simp add: serve_create_def h on_error_Done)
      show "backend (snd (serve_create ext res pfx info r wld)) = s2"
        by (simp add: serve_create_def h on_error_Done)
      show "rw_status (writer (snd (serve_create ext res pfx info r wld))) = Some 201"
        using assms(3)
        by (simp add: serve_create_def h on_error_Done writeResult_fresh Header_Set_status)
      show "rw_body (writer (snd (serve_create ext res pfx info r wld))) = rw_body (writer wld) @ body"
        using assms(3)
        by (simp add: serve_create_def h on_error_Done writeResult_fresh Header_Set_status)
    }
  qed
  show ?thesis
    by (intro conjI c1 c2)
qed



text \<open>
  The claim as first stated promises the \<^verbatim>\<open>Location\<close> header, the second fetch and the
  status 201 whenever exactly one object is decoded. On the small instance with a
  \<^verbatim>\<open>Create\<close> that returns an error, one object is decoded, \<^verbatim>\<open>Create\<close> is the only call,
  no \<^verbatim>\<open>Location\<close> header is set and the status written is 500.
\<close>

theorem handleCreate_cases_counterexample:
  "unmarshalRequest ex_ext (ex_request [] ''full'')
      (marshalers (ex_resource\<lparr>source :=
         ex_source\<lparr>Create := (\<lambda>obj req s. (Inl (ErrorString ''disk full''), s))\<rparr>\<rparr>)) =
     Return (Inr [''data'' \<mapsto> VObject [''id'' \<mapsto> VString ''1'', ''type'' \<mapsto> VString ''posts'']]) \<and>
   UnmarshalInto ex_ext
      [''data'' \<mapsto> VObject [''id'' \<mapsto> VString ''1'', ''type'' \<mapsto> VString ''posts'']] [] =
     Inr [''decoded post''] \<and>
   calls (snd (serve_create ex_ext
      (ex_resource\<lparr>source :=
         ex_source\<lparr>Create := (\<lambda>obj req s. (Inl (ErrorString ''disk full''), s))\<rparr>\<rparr>)
      ''/v1/'' ex_info (ex_request [] ''full'') ex_world)) = [Called_Create ''decoded post''] \<and>
   rw_status (writer (snd (serve_create ex_ext
      (ex_resource\<lparr>source :=
         ex_source\<lparr>Create := (\<lambda>obj req s. (Inl (ErrorString ''disk full''), s))\<rparr>\<rparr>)
      ''/v1/'' ex_info (ex_request [] ''full'') ex_world))) = Some 500 \<and>
   rw_header (writer (snd (serve_create ex_ext
      (ex_resource\<lparr>source :=
         ex_source\<lparr>Create := (\<lambda>obj req s. (Inl (ErrorString ''disk full''), s))\<rparr>\<rparr>)
      ''/v1/'' ex_info (ex_request [] ''full'') ex_world))) ''Location'' = None"
proof -
  let ?res = "ex_resource\<lparr>source :=
      ex_source\<lparr>Create := (\<lambda>obj req s. (Inl (ErrorString ''disk full''), s))\<rparr>\<rparr>"
  let ?r = "ex_request [] ''full''"
  have u: "unmarshalRequest ex_ext ?r (marshalers ?res) =
     Return (Inr [''data'' \<mapsto> VObject [''id'' \<mapsto> VString ''1'', ''type'' \<mapsto> VString ''posts'']])"
    by (simp only: ex_marshalers ex_unmarshal_full)
  have h: "handleCreate ex_ext ?res ?r ''/v1/'' ex_info ex_world =
     (Failed (ErrorString ''disk full''),
      ex_world\<lparr>backend := backend ex_world, calls := calls ex_world @ [Called_Create ''decoded post'']\<rparr>)"
    by (rule handleCreate_Create_error [OF u ex_UnmarshalInto]) simp
  have e: "handleError ex_ext (ErrorString ''disk full'') ?r (marshalers ex_resource) wld =
     (Done, wld\<lparr>logged := logged wld @ [ErrorString ''disk full''],
        writer := snd (writeResult (writer wld)
          (marshalError ex_ext (ErrorString ''disk full'') JSONContentMarshaler)
          500 ''application/vnd.api+json'')\<rparr>)" for wld :: "(string, nat) world"
    using handleError_done [OF ex_select, of "ErrorString ''disk full''"]
    by simp
  have s: "serve_create ex_ext ?res ''/v1/'' ex_info ?r ex_world =
     handleError ex_ext (ErrorString ''disk full'') ?r (marshalers ex_resource)
       (ex_world\<lparr>backend := backend ex_world, calls := calls ex_world @ [Called_Create ''decoded post'']\<rparr>)"
    by (simp add: serve_create_def h on_error_Failed)
  have w: "rw_header (writer ex_world) ''Location'' = None"
    by (simp add: ex_world_def)
  show ?thesis
    using u w
    by (simp add: ex_UnmarshalInto s e ex_world_fresh writeResult_fresh writeResult_header
        StatusInternalServerError_def)
qed


theorem handleCreate_cases_witness:
  "unmarshalRequest ex_ext (ex_request [] ''full'') (marshalers ex_resource) =
     Return (Inr [''data'' \<mapsto> VObject [''id'' \<mapsto> VString ''1'', ''type'' \<mapsto> VString ''posts'']]) \<and>
   rw_status (writer ex_world) = None \<and>
   fst (serve_create ex_ext ex_resource ''/v1/'' ex_info (ex_request [] ''full'') ex_world) = Done \<and>
   rw_status (writer (snd (serve_create ex_ext ex_resource ''/v1/'' ex_info
      (ex_request [] ''full'') ex_world))) = Some 201 \<and>
   rw_body (writer (snd (serve_create ex_ext ex_resource ''/v1/'' ex_info
      (ex_request [] ''full'') ex_world))) = ''stored post 1'' \<and>
   calls (snd (handleCreate ex_ext ex_resource (ex_request [] ''full'') ''/v1/'' ex_info ex_world)) =
     [Called_Create ''decoded post'', Called_FindOne ''1''] \<and>
   rw_header (writer (snd (handleCreate ex_ext ex_resource (ex_request [] ''full'') ''/v1/''
      ex_info ex_world))) ''Location'' = Some [''/v1/posts/1''] \<and>
   handleCreate (ex_ext\<lparr>UnmarshalInto := (\<lambda>doc objs. Inr [])\<rparr>) ex_resource
      (ex_request [] ''full'') ''/v1/'' ex_info ex_world =
     (Failed (ErrorString ''expected one object in POST''), ex_world)"
proof -
  let ?r = "ex_request [] ''full''"
  let ?doc = "[''data'' \<mapsto> VObject [''id'' \<mapsto> VString ''1'', ''type'' \<mapsto> VString ''posts'']]"
  note one = handleCreate_cases [where ext = ex_ext and r = ?r and res = ex_resource
      and ctx = ?doc and newObjs = "[''decoded post'']" and wld = ex_world and pfx = "''/v1/''"
      and info = ex_info, OF ex_unmarshal_full ex_UnmarshalInto ex_world_fresh(1)]
  have cr: "Create (source ex_resource) ''decoded post'' (buildRequest ?r) (backend ex_world) =
      (Inr ''1'', 1)"
    by (simp add: ex_resource_fields ex_source_fields ex_world_fresh)
  have fo: "FindOne (source ex_resource) ''1'' (buildRequest ?r) 1 = (Inr ''stored post 1'', 1)"
    by (simp add: ex_resource_fields ex_source_fields)
  note created = one [THEN conjunct2, rule_format, OF refl, THEN conjunct2, rule_format, OF cr]
  have a: "calls (snd (handleCreate ex_ext ex_resource ?r ''/v1/'' ex_info ex_world)) =
      [Called_Create ''decoded post'', Called_FindOne ''1''] \<and>
    rw_header (writer (snd (handleCreate ex_ext ex_resource ?r ''/v1/'' ex_info ex_world)))
      ''Location'' = Some [''/v1/posts/1'']"
    using created [THEN conjunct1] created [THEN conjunct2, THEN conjunct1]
    by (simp add: ex_world_fresh ex_resource_fields)
  have b: "fst (serve_create ex_ext ex_resource ''/v1/'' ex_info ?r ex_world) = Done \<and>
    rw_status (writer (snd (serve_create ex_ext ex_resource ''/v1/'' ex_info ?r ex_world))) =
      Some 201 \<and>
    rw_body (writer (snd (serve_create ex_ext ex_resource ''/v1/'' ex_info ?r ex_world))) =
      ''stored post 1''"
    using created [THEN conjunct2, THEN conjunct2, THEN conjunct2, rule_format,
        of "''stored post 1''" 1 "[''data'' \<mapsto> VString ''stored post 1'']"
          JSONContentMarshaler "''application/vnd.api+json''" "''stored post 1''"]
      fo
    by (simp add: ex_MarshalWithURLs ex_select ex_Marshal ex_world_fresh)
  have u0: "unmarshalRequest (ex_ext\<lparr>UnmarshalInto := (\<lambda>doc objs. Inr [])\<rparr>) ?r
      (marshalers ex_resource) = Return (Inr ?doc)"
    by (simp add: unmarshalRequest_def selectContentMarshaler_def ex_request_def ex_resource_def
        lookup_marshaler_def ex_ext_def)
  have z: "UnmarshalInto (ex_ext\<lparr>UnmarshalInto := (\<lambda>doc objs. Inr [])\<rparr>) ?doc [] = Inr []"
    by simp
  have c: "handleCreate (ex_ext\<lparr>UnmarshalInto := (\<lambda>doc objs. Inr [])\<rparr>) ex_resource ?r ''/v1/''
      ex_info ex_world = (Failed (ErrorString ''expected one object in POST''), ex_world)"
    using handleCreate_cases [where pfx = "''/v1/''" and info = ex_info,
        OF u0 z ex_world_fresh(1), THEN conjunct1]
    by simp
  show ?thesis
    using a b c ex_unmarshal_full [of "[]"] ex_world_fresh(1) by simp
qed

section \<open>The update endpoint\<close>

lemma on_error_failed_selected:
  assumes "selectContentMarshaler ext r ms = Return (m, ct)" and "rw_status (writer wld) = None"
    and "200 \<le> (case err of HTTPError inner msg st \<Rightarrow> st | _ \<Rightarrow> 500)"
    and "(case err of HTTPError inner msg st \<Rightarrow> st | _ \<Rightarrow> 500) \<le> 999"
  shows "fst (on_error ext r ms (Failed err, wld)) = Done \<and>
     rw_status (writer (snd (on_error ext r ms (Failed err, wld)))) =
       Some (case err of HTTPError inner msg st \<Rightarrow> st | _ \<Rightarrow> 500) \<and>
     calls (snd (on_error ext r ms (Failed err, wld))) = calls wld \<and>
     backend (snd (on_error ext r ms (Failed err, wld))) = backend wld"
  using assms
  by (simp add: on_error_Failed handleError_eq writeResult_status)

lemma WriteHeader_NoContent:
  "WriteHeader w StatusNoContent =
     Return (if rw_status w = None then w\<lparr>rw_status := Some 204\<rparr> else w)"
  by (simp add: WriteHeader_def checkWriteHeaderCode_def StatusNoContent_def)

lemma handleUpdate_found:
  assumes "FindOne (source res) ident (buildRequest r) (backend wld) = (Inr obj, s0)"
    and "unmarshalRequest ext r (marshalers res) = Return (Inr ctx)"
  shows "handleUpdate ext res r ident wld =
     (case ctx ''data'' of
        None \<Rightarrow>
          (Failed (forbidden ''missing mandatory data key.''),
           wld\<lparr>backend := s0, calls := calls wld @ [Called_FindOne ident]\<rparr>)
      | Some data \<Rightarrow>
          (case data of
             VObject check \<Rightarrow>
               if check ''id'' = None then
                 (Failed (forbidden ''missing mandatory id key.''),
                  wld\<lparr>backend := s0, calls := calls wld @ [Called_FindOne ident]\<rparr>)
               else if check ''type'' = None then
                 (Failed (forbidden ''missing mandatory type key.''),
                  wld\<lparr>backend := s0, calls := calls wld @ [Called_FindOne ident]\<rparr>)
               else
                 (case UnmarshalInto ext ctx [obj] of
                    Inl err \<Rightarrow>
                      (Failed err, wld\<lparr>backend := s0, calls := calls wld @ [Called_FindOne ident]\<rparr>)
                  | Inr updatingObjs \<Rightarrow>
                      if length updatingObjs \<noteq> 1 then
                        (Failed (ErrorString ''expected one object''),
                         wld\<lparr>backend := s0, calls := calls wld @ [Called_FindOne ident]\<rparr>)
                      else
                        (case Update (source res) (updatingObjs ! 0) (buildRequest r) s0 of
                           (Some err, s1) \<Rightarrow>
                             (Failed err,
                              wld\<lparr>backend := s1,
                                calls := calls wld @
                                  [Called_FindOne ident, Called_Update (updatingObjs ! 0)]\<rparr>)
                         | (None, s1) \<Rightarrow>
                             (Done,
                              wld\<lparr>backend := s1,
                                calls := calls wld @
                                  [Called_FindOne ident, Called_Update (updatingObjs ! 0)],
                                writer :=
                                  (if rw_status (writer wld) = None
                                   then (writer wld)\<lparr>rw_status := Some 204\<rparr>
                                   else writer wld)\<rparr>)))
           | _ \<Rightarrow>
               (Failed (forbidden ''data must contain an object.''),
                wld\<lparr>backend := s0, calls := calls wld @ [Called_FindOne ident]\<rparr>)))"
  using assms
  by (simp add: handleUpdate_def call_FindOne_eq call_Update_def Let_def WriteHeader_NoContent
      split: option.splits val.splits sum.splits prod.splits)

lemma handleUpdate_not_found:
  assumes "FindOne (source res) ident (buildRequest r) (backend wld) = (Inl err, s0)"
  shows "handleUpdate ext res r ident wld =
     (Failed err, wld\<lparr>backend := s0, calls := calls wld @ [Called_FindOne ident]\<rparr>)"
  using assms by (simp add: handleUpdate_def call_FindOne_eq)

lemma forbidden_status:
  "forbidden detail = HTTPError (Some (ErrorString ''Forbidden'')) detail 403"
  by (simp add: forbidden_def NewHTTPError_def StatusForbidden_def)


lemma serve_update_forbidden:
  assumes "unmarshalRequest ext r (marshalers res) = Return (Inr ctx)"
    and "rw_status (writer wld) = None"
    and "handleUpdate ext res r ident wld =
      (Failed (forbidden detail), wld\<lparr>backend := s0, calls := calls wld @ [Called_FindOne ident]\<rparr>)"
  shows "handleUpdate ext res r ident wld =
      (Failed (HTTPError (Some (ErrorString ''Forbidden'')) detail 403),
       wld\<lparr>backend := s0, calls := calls wld @ [Called_FindOne ident]\<rparr>) \<and>
    fst (serve_update ext res r ident wld) = Done \<and>
    rw_status (writer (snd (serve_update ext res r ident wld))) = Some 403 \<and>
    calls (snd (serve_update ext res r ident wld)) = calls wld @ [Called_FindOne ident]"
proof -
  obtain m ct where sel: "selectContentMarshaler ext r (marshalers res) = Return (m, ct)"
    using assms(1) by (rule unmarshalRequest_selects)
  have fresh: "rw_status (writer (wld\<lparr>backend := s0, calls := calls wld @ [Called_FindOne ident]\<rparr>)) = None"
    using assms(2) by simp
  show ?thesis
    using on_error_failed_selected [OF sel fresh, of "forbidden detail"] assms(3)
    by (simp add: serve_update_def forbidden_status)
qed


text \<open>
  Claim C6, as amended. Take a \<^verbatim>\<open>PATCH\<close> on an item endpoint whose object is found by
  its id and whose body decodes, with a response not yet started. When the decoded
  document has no \<^verbatim>\<open>data\<close> key, or \<^verbatim>\<open>data\<close> is not an object, or the object has no
  \<^verbatim>\<open>id\<close> key, or it has an \<^verbatim>\<open>id\<close> key and no \<^verbatim>\<open>type\<close> key, the handler fails with
  the 403 error whose message is "missing mandatory data key.", "data must contain an
  object.", "missing mandatory id key." or "missing mandatory type key."; the status
  written is 403 and the only backend call is the \<^verbatim>\<open>FindOne\<close> that fetched the object.
  Otherwise the document is decoded onto the slice that holds the fetched object; when
  that fails or does not leave exactly one object, the handler returns the error and
  \<^verbatim>\<open>Update\<close> is not invoked; when it leaves one object, \<^verbatim>\<open>Update\<close> is invoked with it;
  when \<^verbatim>\<open>Update\<close> succeeds the status written is 204 and nothing else of the response
  changes (no body, no header); when \<^verbatim>\<open>Update\<close> returns an error the handler returns
  it.
\<close>

theorem handleUpdate_cases:
  assumes "FindOne (source res) ident (buildRequest r) (backend wld) = (Inr obj, s0)"
    and "unmarshalRequest ext r (marshalers res) = Return (Inr ctx)"
    and "rw_status (writer wld) = None"
  shows
   "(ctx ''data'' = None \<longrightarrow>
       handleUpdate ext res r ident wld =
         (Failed (HTTPError (Some (ErrorString ''Forbidden'')) ''missing mandatory data key.'' 403),
          wld\<lparr>backend := s0, calls := calls wld @ [Called_FindOne ident]\<rparr>) \<and>
       fst (serve_update ext res r ident wld) = Done \<and>
       rw_status (writer (snd (serve_update ext res r ident wld))) = Some 403 \<and>
       calls (snd (serve_update ext res r ident wld)) = calls wld @ [Called_FindOne ident]) \<and>
    (\<forall>data. ctx ''data'' = Some data \<and> (\<forall>check. data \<noteq> VObject check) \<longrightarrow>
       handleUpdate ext res r ident wld =
         (Failed (HTTPError (Some (ErrorString ''Forbidden'')) ''data must contain an object.'' 403),
          wld\<lparr>backend := s0, calls := calls wld @ [Called_FindOne ident]\<rparr>) \<and>
       fst (serve_update ext res r ident wld) = Done \<and>
       rw_status (writer (snd (serve_update ext res r ident wld))) = Some 403 \<and>
       calls (snd (serve_update ext res r ident wld)) = calls wld @ [Called_FindOne ident]) \<and>
    (\<forall>check. ctx ''data'' = Some (VObject check) \<longrightarrow>
       (check ''id'' = None \<longrightarrow>
          handleUpdate ext res r ident wld =
            (Failed (HTTPError (Some (ErrorString ''Forbidden'')) ''missing mandatory id key.'' 403),
             wld\<lparr>backend := s0, calls := calls wld @ [Called_FindOne ident]\<rparr>) \<and>
          fst (serve_update ext res r ident wld) = Done \<and>
          rw_status (writer (snd (serve_update ext res r ident wld))) = Some 403 \<and>
          calls (snd (serve_update ext res r ident wld)) = calls wld @ [Called_FindOne ident]) \<and>
       (check ''id'' \<noteq> None \<and> check ''type'' = None \<longrightarrow>
          handleUpdate ext res r ident wld =
            (Failed (HTTPError (Some (ErrorString ''Forbidden'')) ''missing mandatory type key.'' 403),
             wld\<lparr>backend := s0, calls := calls wld @ [Called_FindOne ident]\<rparr>) \<and>
          fst (serve_update ext res r ident wld) = Done \<and>
          rw_status (writer (snd (serve_update ext res r ident wld))) = Some 403 \<and>
          calls (snd (serve_update ext res r ident wld)) = calls wld @ [Called_FindOne ident]) \<and>
       (check ''id'' \<noteq> None \<and> check ''type'' \<noteq> None \<longrightarrow>
          (\<forall>err. UnmarshalInto ext ctx [obj] = Inl err \<longrightarrow>
             handleUpdate ext res r ident wld =
               (Failed err, wld\<lparr>backend := s0, calls := calls wld @ [Called_FindOne ident]\<rparr>)) \<and>
          (\<forall>objs. UnmarshalInto ext ctx [obj] = Inr objs \<and> length objs \<noteq> 1 \<longrightarrow>
             handleUpdate ext res r ident wld =
               (Failed (ErrorString ''expected one object''),
                wld\<lparr>backend := s0, calls := calls wld @ [Called_FindOne ident]\<rparr>)) \<and>
          (\<forall>updatingObj. UnmarshalInto ext ctx [obj] = Inr [updatingObj] \<longrightarrow>
             (\<forall>s1. Update (source res) updatingObj (buildRequest r) s0 = (None, s1) \<longrightarrow>
                fst (serve_update ext res r ident wld) = Done \<and>
                backend (snd (serve_update ext res r ident wld)) = s1 \<and>
                calls (snd (serve_update ext res r ident wld)) =
                  calls wld @ [Called_FindOne ident, Called_Update updatingObj] \<and>
                writer (snd (serve_update ext res r ident wld)) =
                  (writer wld)\<lparr>rw_status := Some 204\<rparr>) \<and>
             (\<forall>err s1. Update (source res) updatingObj (buildRequest r) s0 = (Some err, s1) \<longrightarrow>
                handleUpdate ext res r ident wld =
                  (Failed err,
                   wld\<lparr>backend := s1,
                     calls := calls wld @ [Called_FindOne ident, Called_Update updatingObj]\<rparr>)))))"
proof -
  note h = handleUpdate_found [OF assms(1,2)]
  note forb = serve_update_forbidden [OF assms(2,3)]
  have c1: "ctx ''data'' = None \<longrightarrow>
       handleUpdate ext res r ident wld =
         (Failed (HTTPError (Some (ErrorString ''Forbidden'')) ''missing mandatory data key.'' 403),
          wld\<lparr>backend := s0, calls := calls wld @ [Called_FindOne ident]\<rparr>) \<and>
       fst (serve_update ext res r ident wld) = Done \<and>
       rw_status (writer (snd (serve_update ext res r ident wld))) = Some 403 \<and>
       calls (snd (serve_update ext res r ident wld)) = calls wld @ [Called_FindOne ident]"
  proof
    assume "ctx ''data'' = None"
    then have "handleUpdate ext res r ident wld =
        (Failed (forbidden ''missing mandatory data key.''),
         wld\<lparr>backend := s0, calls := calls wld @ [Called_FindOne ident]\<rparr>)"
      by (simp add: h)
    then show "handleUpdate ext res r ident wld =
         (Failed (HTTPError (Some (ErrorString ''Forbidden'')) ''missing mandatory data key.'' 403),
          wld\<lparr>backend := s0, calls := calls wld @ [Called_FindOne ident]\<rparr>) \<and>
       fst (serve_update ext res r ident wld) = Done \<and>
       rw_status (writer (snd (serve_update ext res r ident wld))) = Some 403 \<and>
       calls (snd (serve_update ext res r ident wld)) = calls wld @ [Called_FindOne ident]"
      by (rule forb)
  qed
  have c2: "\<forall>data. ctx ''data'' = Some data \<and> (\<forall>check. data \<noteq> VObject check) \<longrightarrow>
       handleUpdate ext res r ident wld =
         (Failed (HTTPError (Some (ErrorString ''Forbidden'')) ''data must contain an object.'' 403),
          wld\<lparr>backend := s0, calls := calls wld @ [Called_FindOne ident]\<rparr>) \<and>
       fst (serve_update ext res r ident wld) = Done \<and>
       rw_status (writer (snd (serve_update ext res r ident wld))) = Some 403 \<and>
       calls (snd (serve_update ext res r ident wld)) = calls wld @ [Called_FindOne ident]"
  proof (intro allI impI)
    fix data
    assume a: "ctx ''data'' = Some data \<and> (\<forall>check. data \<noteq> VObject check)"
    then have "handleUpdate ext res r ident wld =
        (Failed (forbidden ''data must contain an object.''),
         wld\<lparr>backend := s0, calls := calls wld @ [Called_FindOne ident]\<rparr>)"
      by (cases data) (simp_all add: h)
    then show "handleUpdate ext res r ident wld =
         (Failed (HTTPError (Some (ErrorString ''Forbidden'')) ''data must contain an object.'' 403),
          wld\<lparr>backend := s0, calls := calls wld @ [Called_FindOne ident]\<rparr>) \<and>
       fst (serve_update ext res r ident wld) = Done \<and>
       rw_status (writer (snd (serve_update ext res r ident wld))) = Some 403 \<and>
       calls (snd (serve_update ext res r ident wld)) = calls wld @ [Called_FindOne ident]"
      by (rule forb)
  qed
  have c3: "\<forall>check. ctx ''data'' = Some (VObject check) \<longrightarrow>
       (check ''id'' = None \<longrightarrow>
          handleUpdate ext res r ident wld =
            (Failed (HTTPError (Some (ErrorString ''Forbidden'')) ''missing mandatory id key.'' 403),
             wld\<lparr>backend := s0, calls := calls wld @ [Called_FindOne ident]\<rparr>) \<and>
          fst (serve_update ext res r ident wld) = Done \<and>
          rw_status (writer (snd (serve_update ext res r ident wld))) = Some 403 \<and>
          calls (snd (serve_update ext res r ident wld)) = calls wld @ [Called_FindOne ident]) \<and>
       (check ''id'' \<noteq> None \<and> check ''type'' = None \<longrightarrow>
          handleUpdate ext res r ident wld =
            (Failed (HTTPError (Some (ErrorString ''Forbidden'')) ''missing mandatory type key.'' 403),
             wld\<lparr>backend := s0, calls := calls wld @ [Called_FindOne ident]\<rparr>) \<and>
          fst (serve_update ext res r ident wld) = Done \<and>
          rw_status (writer (snd (serve_update ext res r ident wld))) = Some 403 \<and>
          calls (snd (serve_update ext res r ident wld)) = calls wld @ [Called_FindOne ident]) \<and>
       (check ''id'' \<noteq> None \<and> check ''type'' \<noteq> None \<longrightarrow>
          (\<forall>err. UnmarshalInto ext ctx [obj] = Inl err \<longrightarrow>
             handleUpdate ext res r ident wld =
               (Failed err, wld\<lparr>backend := s0, calls := calls wld @ [Called_FindOne ident]\<rparr>)) \<and>
          (\<forall>objs. UnmarshalInto ext ctx [obj] = Inr objs \<and> length objs \<noteq> 1 \<longrightarrow>
             handleUpdate ext res r ident wld =
               (Failed (ErrorString ''expected one object''),
                wld\<lparr>backend := s0, calls := calls wld @ [Called_FindOne ident]\<rparr>)) \<and>
          (\<forall>updatingObj. UnmarshalInto ext ctx [obj] = Inr [updatingObj] \<longrightarrow>
             (\<forall>s1. Update (source res) updatingObj (buildRequest r) s0 = (None, s1) \<longrightarrow>
                fst (serve_update ext res r ident wld) = Done \<and>
                backend (snd (serve_update ext res r ident wld)) = s1 \<and>
                calls (snd (serve_update ext res r ident wld)) =
                  calls wld @ [Called_FindOne ident, Called_Update updatingObj] \<and>
                writer (snd (serve_update ext res r ident wld)) =
                  (writer wld)\<lparr>rw_status := Some 204\<rparr>) \<and>
             (\<forall>err s1. Update (source res) updatingObj (buildRequest r) s0 = (Some err, s1) \<longrightarrow>
                handleUpdate ext res r ident wld =
                  (Failed err,
                   wld\<lparr>backend := s1,
                     calls := calls wld @ [Called_FindOne ident, Called_Update updatingObj]\<rparr>))))"
  proof (intro allI impI)
    fix check
    assume d: "ctx ''data'' = Some (VObject check)"
    have g1: "check ''id'' = None \<longrightarrow>
          handleUpdate ext res r ident wld =
            (Failed (HTTPError (Some (ErrorString ''Forbidden'')) ''missing mandatory id key.'' 403),
             wld\<lparr>backend := s0, calls := calls wld @ [Called_FindOne ident]\<rparr>) \<and>
          fst (serve_update ext res r ident wld) = Done \<and>
          rw_status (writer (snd (serve_update ext res r ident wld))) = Some 403 \<and>
          calls (snd (serve_update ext res r ident wld)) = calls wld @ [Called_FindOne ident]"
    proof
      assume "check ''id'' = None"
      with d have "handleUpdate ext res r ident wld =
          (Failed (forbidden ''missing mandatory id key.''),
           wld\<lparr>backend := s0, calls := calls wld @ [Called_FindOne ident]\<rparr>)"
        by (simp add: h)
      then show "handleUpdate ext res r ident wld =
            (Failed (HTTPError (Some (ErrorString ''Forbidden'')) ''missing mandatory id key.'' 403),
             wld\<lparr>backend := s0, calls := calls wld @ [Called_FindOne ident]\<rparr>) \<and>
          fst (serve_update ext res r ident wld) = Done \<and>
          rw_status (writer (snd (serve_update ext res r ident wld))) = Some 403 \<and>
          calls (snd (serve_update ext res r ident wld)) = calls wld @ [Called_FindOne ident]"
        by (rule forb)
    qed
    have g2: "check ''id'' \<noteq> None \<and> check ''type'' = None \<longrightarrow>
          handleUpdate ext res r ident wld =
            (Failed (HTTPError (Some (ErrorString ''Forbidden'')) ''missing mandatory type key.'' 403),
             wld\<lparr>backend := s0, calls := calls wld @ [Called_FindOne ident]\<rparr>) \<and>
          fst (serve_update ext res r ident wld) = Done \<and>
          rw_status (writer (snd (serve_update ext res r ident wld))) = Some 403 \<and>
          calls (snd (serve_update ext res r ident wld)) = calls wld @ [Called_FindOne ident]"
    proof
      assume "check ''id'' \<noteq> None \<and> check ''type'' = None"
      with d have "handleUpdate ext res r ident wld =
          (Failed (forbidden ''missing mandatory type key.''),
           wld\<lparr>backend := s0, calls := calls wld @ [Called_FindOne ident]\<rparr>)"
        by (auto simp: h)
      then show "handleUpdate ext res r ident wld =
            (Failed (HTTPError (Some (ErrorString ''Forbidden'')) ''missing mandatory type key.'' 403),
             wld\<lparr>backend := s0, calls := calls wld @ [Called_FindOne ident]\<rparr>) \<and>
          fst (serve_update ext res r ident wld) = Done \<and>
          rw_status (writer (snd (serve_update ext res r ident wld))) = Some 403 \<and>
          calls (snd (serve_update ext res r ident wld)) = calls wld @ [Called_FindOne ident]"
        by (rule forb)
    qed
    have g3: "check ''id'' \<noteq> None \<and> check ''type'' \<noteq> None \<longrightarrow>
          (\<forall>err. UnmarshalInto ext ctx [obj] = Inl err \<longrightarrow>
             handleUpdate ext res r ident wld =
               (Failed err, wld\<lparr>backend := s0, calls := calls wld @ [Called_FindOne ident]\<rparr>)) \<and>
          (\<forall>objs. UnmarshalInto ext ctx [obj] = Inr objs \<and> length objs \<noteq> 1 \<longrightarrow>
             handleUpdate ext res r ident wld =
               (Failed (ErrorString ''expected one object''),
                wld\<lparr>backend := s0, calls := calls wld @ [Called_FindOne ident]\<rparr>)) \<and>
          (\<forall>updatingObj. UnmarshalInto ext ctx [obj] = Inr [updatingObj] \<longrightarrow>
             (\<forall>s1. Update (source res) updatingObj (buildRequest r) s0 = (None, s1) \<longrightarrow>
                fst (serve_update ext res r ident wld) = Done \<and>
                backend (snd (serve_update ext res r ident wld)) = s1 \<and>
                calls (snd (serve_update ext res r ident wld)) =
                  calls wld @ [Called_FindOne ident, Called_Update updatingObj] \<and>
                writer (snd (serve_update ext res r ident wld)) =
                  (writer wld)\<lparr>rw_status := Some 204\<rparr>) \<and>
             (\<forall>err s1. Update (source res) updatingObj (buildRequest r) s0 = (Some err, s1) \<longrightarrow>
                handleUpdate ext res r ident wld =
                  (Failed err,
                   wld\<lparr>backend := s1,
                     calls := calls wld @ [Called_FindOne ident, Called_Update updatingObj]\<rparr>)))"
      using d assms(3)
      by (auto simp: h serve_update_def on_error_Done WriteHeader_def StatusNoContent_def)
    show "(check ''id'' = None \<longrightarrow>
          handleUpdate ext res r ident wld =
            (Failed (HTTPError (Some (ErrorString ''Forbidden'')) ''missing mandatory id key.'' 403),
             wld\<lparr>backend := s0, calls := calls wld @ [Called_FindOne ident]\<rparr>) \<and>
          fst (serve_update ext res r ident wld) = Done \<and>
          rw_status (writer (snd (serve_update ext res r ident wld))) = Some 403 \<and>
          calls (snd (serve_update ext res r ident wld)) = calls wld @ [Called_FindOne ident]) \<and>
       (check ''id'' \<noteq> None \<and> check ''type'' = None \<longrightarrow>
          handleUpdate ext res r ident wld =
            (Failed (HTTPError (Some (ErrorString ''Forbidden'')) ''missing mandatory type key.'' 403),
             wld\<lparr>backend := s0, calls := calls wld @ [Called_FindOne ident]\<rparr>) \<and>
          fst (serve_update ext res r ident wld) = Done \<and>
          rw_status (writer (snd (serve_update ext res r ident wld))) = Some 403 \<and>
          calls (snd (serve_update ext res r ident wld)) = calls wld @ [Called_FindOne ident]) \<and>
       (check ''id'' \<noteq> None \<and> check ''type'' \<noteq> None \<longrightarrow>
          (\<forall>err. UnmarshalInto ext ctx [obj] = Inl err \<longrightarrow>
             handleUpdate ext res r ident wld =
               (Failed err, wld\<lparr>backend := s0, calls := calls wld @ [Called_FindOne ident]\<rparr>)) \<and>
          (\<forall>objs. UnmarshalInto ext ctx [obj] = Inr objs \<and> length objs \<noteq> 1 \<longrightarrow>
             handleUpdate ext res r ident wld =
               (Failed (ErrorString ''expected one object''),
                wld\<lparr>backend := s0, calls := calls wld @ [Called_FindOne ident]\<rparr>)) \<and>
          (\<forall>updatingObj. UnmarshalInto ext ctx [obj] = Inr [updatingObj] \<longrightarrow>
             (\<forall>s1. Update (source res) updatingObj (buildRequest r) s0 = (None, s1) \<longrightarrow>
                fst (serve_update ext res r ident wld) = Done \<and>
                backend (snd (serve_update ext res r ident wld)) = s1 \<and>
                calls (snd (serve_update ext res r ident wld)) =
                  calls wld @ [Called_FindOne ident, Called_Update updatingObj] \<and>
                writer (snd (serve_update ext res r ident wld)) =
                  (writer wld)\<lparr>rw_status := Some 204\<rparr>) \<and>
             (\<forall>err s1. Update (source res) updatingObj (buildRequest r) s0 = (Some err, s1) \<longrightarrow>
                handleUpdate ext res r ident wld =
                  (Failed err,
                   wld\<lparr>backend := s1,
                     calls := calls wld @ [Called_FindOne ident, Called_Update updatingObj]\<rparr>))))"
      by (intro conjI g1 g2 g3)
  qed
  show ?thesis
    by (intro conjI c1 c2 c3)
qed



text \<open>
  The claim as first stated holds neither when the object is not found nor when the
  update fails. On the small instance a \<^verbatim>\<open>PATCH\<close> of the unknown id 2 with a body that
  decodes and has no \<^verbatim>\<open>id\<close> key is answered with the backend's 404 and not with 403,
  since the handler fetches the object before it decodes the body; and with an
  \<^verbatim>\<open>Update\<close> that returns an error, a complete body is answered with 500 and not with
  204.
\<close>

theorem handleUpdate_cases_counterexample:
  "unmarshalRequest ex_ext (ex_request [] ''no-id'') (marshalers ex_resource) =
     Return (Inr [''data'' \<mapsto> VObject [''type'' \<mapsto> VString ''posts'']]) \<and>
   [''type'' \<mapsto> VString ''posts''] ''id'' = None \<and>
   calls (snd (serve_update ex_ext ex_resource (ex_request [] ''no-id'') ''2'' ex_world)) =
     [Called_FindOne ''2''] \<and>
   rw_status (writer (snd (serve_update ex_ext ex_resource (ex_request [] ''no-id'') ''2'' ex_world))) =
     Some 404 \<and>
   calls (snd (serve_update ex_ext
      (ex_resource\<lparr>source :=
         ex_source\<lparr>Update := (\<lambda>obj req s. (Some (ErrorString ''conflict''), s))\<rparr>\<rparr>)
      (ex_request [] ''full'') ''1'' ex_world)) =
     [Called_FindOne ''1'', Called_Update ''decoded post''] \<and>
   rw_status (writer (snd (serve_update ex_ext
      (ex_resource\<lparr>source :=
         ex_source\<lparr>Update := (\<lambda>obj req s. (Some (ErrorString ''conflict''), s))\<rparr>\<rparr>)
      (ex_request [] ''full'') ''1'' ex_world))) = Some 500"
proof -
  let ?res = "ex_resource\<lparr>source :=
      ex_source\<lparr>Update := (\<lambda>obj req s. (Some (ErrorString ''conflict''), s))\<rparr>\<rparr>"
  have nf: "handleUpdate ex_ext ex_resource (ex_request [] ''no-id'') ''2'' ex_world =
      (Failed (HTTPError None ''post not found'' 404),
       ex_world\<lparr>backend := backend ex_world, calls := calls ex_world @ [Called_FindOne ''2'']\<rparr>)"
    by (rule handleUpdate_not_found) (simp add: ex_resource_fields ex_source_fields)
  have a: "calls (snd (serve_update ex_ext ex_resource (ex_request [] ''no-id'') ''2'' ex_world)) =
      [Called_FindOne ''2''] \<and>
    rw_status (writer (snd (serve_update ex_ext ex_resource (ex_request [] ''no-id'') ''2'' ex_world))) =
      Some 404"
    using on_error_failed_selected [OF ex_select [of "[]" "''no-id''"], where
        wld = "ex_world\<lparr>backend := backend ex_world, calls := calls ex_world @ [Called_FindOne ''2'']\<rparr>"
        and err = "HTTPError None ''post not found'' 404"]
    by (simp add: serve_update_def nf ex_world_fresh)
  have fo: "FindOne (source ?res) ''1'' (buildRequest (ex_request [] ''full'')) (backend ex_world) =
      (Inr ''stored post 1'', 0)"
    by (simp add: ex_source_fields ex_world_fresh)
  have un: "unmarshalRequest ex_ext (ex_request [] ''full'') (marshalers ?res) =
     Return (Inr [''data'' \<mapsto> VObject [''id'' \<mapsto> VString ''1'', ''type'' \<mapsto> VString ''posts'']])"
    by (simp only: ex_marshalers ex_unmarshal_full)
  have uf: "handleUpdate ex_ext ?res (ex_request [] ''full'') ''1'' ex_world =
      (Failed (ErrorString ''conflict''),
       ex_world\<lparr>backend := 0, calls := calls ex_world @ [Called_FindOne ''1'', Called_Update ''decoded post'']\<rparr>)"
    by (simp add: handleUpdate_found [OF fo un] ex_UnmarshalInto)
  have b: "calls (snd (serve_update ex_ext ?res (ex_request [] ''full'') ''1'' ex_world)) =
      [Called_FindOne ''1'', Called_Update ''decoded post''] \<and>
    rw_status (writer (snd (serve_update ex_ext ?res (ex_request [] ''full'') ''1'' ex_world))) =
      Some 500"
    using on_error_failed_selected [OF ex_select [of "[]" "''full''"], where
        wld = "ex_world\<lparr>backend := 0, calls := calls ex_world @ [Called_FindOne ''1'', Called_Update ''decoded post'']\<rparr>"
        and err = "ErrorString ''conflict''"]
    by (simp add: serve_update_def uf ex_world_fresh)
  show ?thesis
    using a b ex_unmarshal_no_id [of "[]"] by simp
qed


theorem handleUpdate_cases_witness:
  "FindOne (source ex_resource) ''1'' (buildRequest (ex_request [] ''full'')) (backend ex_world) =
     (Inr ''stored post 1'', 0) \<and>
   unmarshalRequest ex_ext (ex_request [] ''full'') (marshalers ex_resource) =
     Return (Inr [''data'' \<mapsto> VObject [''id'' \<mapsto> VString ''1'', ''type'' \<mapsto> VString ''posts'']]) \<and>
   rw_status (writer ex_world) = None \<and>
   fst (serve_update ex_ext ex_resource (ex_request [] ''full'') ''1'' ex_world) = Done \<and>
   calls (snd (serve_update ex_ext ex_resource (ex_request [] ''full'') ''1'' ex_world)) =
     [Called_FindOne ''1'', Called_Update ''decoded post''] \<and>
   writer (snd (serve_update ex_ext ex_resource (ex_request [] ''full'') ''1'' ex_world)) =
     \<lparr>rw_header = Map.empty, rw_status = Some 204, rw_body = ''''\<rparr> \<and>
   handleUpdate ex_ext ex_resource (ex_request [] ''no-id'') ''1'' ex_world =
     (Failed (HTTPError (Some (ErrorString ''Forbidden'')) ''missing mandatory id key.'' 403),
      ex_world\<lparr>backend := 0, calls := [Called_FindOne ''1'']\<rparr>) \<and>
   rw_status (writer (snd (serve_update ex_ext ex_resource (ex_request [] ''no-id'') ''1'' ex_world))) =
     Some 403 \<and>
   rw_status (writer (snd (serve_update ex_ext ex_resource (ex_request [] ''no-data'') ''1'' ex_world))) =
     Some 403"
proof -
  have fo: "FindOne (source ex_resource) ''1'' (buildRequest (ex_request [] body)) (backend ex_world) =
      (Inr ''stored post 1'', 0)" for body
    by (simp add: ex_resource_fields ex_source_fields ex_world_fresh)
  note full = handleUpdate_cases [OF fo ex_unmarshal_full ex_world_fresh(1)]
  note no_id = handleUpdate_cases [OF fo ex_unmarshal_no_id ex_world_fresh(1)]
  note no_data = handleUpdate_cases [OF fo ex_unmarshal_no_data ex_world_fresh(1)]
  have up: "Update (source ex_resource) ''decoded post'' (buildRequest (ex_request [] ''full'')) 0 =
      (None, 1)"
    by (simp add: ex_resource_fields ex_source_fields)
  have a: "fst (serve_update ex_ext ex_resource (ex_request [] ''full'') ''1'' ex_world) = Done \<and>
    calls (snd (serve_update ex_ext ex_resource (ex_request [] ''full'') ''1'' ex_world)) =
      [Called_FindOne ''1'', Called_Update ''decoded post''] \<and>
    writer (snd (serve_update ex_ext ex_resource (ex_request [] ''full'') ''1'' ex_world)) =
      \<lparr>rw_header = Map.empty, rw_status = Some 204, rw_body = ''''\<rparr>"
    using full [THEN conjunct2, THEN conjunct2] up
    by (simp add: ex_UnmarshalInto) (simp add: ex_world_def)
  have b: "handleUpdate ex_ext ex_resource (ex_request [] ''no-id'') ''1'' ex_world =
      (Failed (HTTPError (Some (ErrorString ''Forbidden'')) ''missing mandatory id key.'' 403),
       ex_world\<lparr>backend := 0, calls := [Called_FindOne ''1'']\<rparr>) \<and>
    rw_status (writer (snd (serve_update ex_ext ex_resource (ex_request [] ''no-id'') ''1'' ex_world))) =
      Some 403"
    using no_id [THEN conjunct2, THEN conjunct2]
    by (simp add: ex_world_fresh)
  have c: "rw_status (writer (snd (serve_update ex_ext ex_resource (ex_request [] ''no-data'') ''1''
      ex_world))) = Some 403"
    using no_data [THEN conjunct1]
    by simp
  show ?thesis
    using a b c fo [of "''full''"] ex_unmarshal_full [of "[]"] ex_world_fresh(1) by simp
qed

section \<open>The routes of a relationship\<close>

lemma addResource_Return:
  assumes "addResource Pluralize Jsonify api proto src ms = Return (api', res)"
  shows "name res =
      Jsonify (Pluralize (if Kind (TypeOf proto) = Struct then type_Name (TypeOf proto)
                          else elem_Name (TypeOf proto)))"
    and "router api' =
      router api @ resource_routes Pluralize (prefix_of_API api) (name res) proto"
    and "resources api' = resources api @ [res]"
proof -
  have k: "\<not> (Kind (TypeOf proto) \<noteq> Struct \<and> Kind (TypeOf proto) \<noteq> Ptr)"
    using assms by (auto simp: addResource_def Let_def split: if_splits)
  define nm where "nm = Jsonify (Pluralize (if Kind (TypeOf proto) = Struct
      then type_Name (TypeOf proto) else elem_Name (TypeOf proto)))"
  have e: "addResource Pluralize Jsonify api proto src ms =
      Return (api\<lparr>router := router api @ resource_routes Pluralize (prefix_of_API api) nm proto,
                 resources := resources api @
                   [\<lparr>resourceType = TypeOf proto, source = src, name = nm, marshalers = ms\<rparr>]\<rparr>,
              \<lparr>resourceType = TypeOf proto, source = src, name = nm, marshalers = ms\<rparr>)"
    using k unfolding addResource_def Let_def nm_def by (simp only: if_False)
  from assms [unfolded e] have both: "api' = api\<lparr>router := router api @ resource_routes Pluralize (prefix_of_API api) nm proto,
                 resources := resources api @
                   [\<lparr>resourceType = TypeOf proto, source = src, name = nm, marshalers = ms\<rparr>]\<rparr> \<and>
      res = \<lparr>resourceType = TypeOf proto, source = src, name = nm, marshalers = ms\<rparr>"
    by auto
  then have res: "res = \<lparr>resourceType = TypeOf proto, source = src, name = nm, marshalers = ms\<rparr>"
    and api': "api' = api\<lparr>router := router api @ resource_routes Pluralize (prefix_of_API api) nm proto,
                 resources := resources api @
                   [\<lparr>resourceType = TypeOf proto, source = src, name = nm, marshalers = ms\<rparr>]\<rparr>"
    by (rule conjunct2, rule conjunct1)
  show "name res =
      Jsonify (Pluralize (if Kind (TypeOf proto) = Struct then type_Name (TypeOf proto)
                          else elem_Name (TypeOf proto)))"
    by (simp add: res nm_def)
  show "router api' = router api @ resource_routes Pluralize (prefix_of_API api) (name res) proto"
    by (simp add: res api')
  show "resources api' = resources api @ [res]"
    by (simp add: res api')
qed

lemma resource_routes_relations:
  assumes "MarshalReferences proto = Some relations"
  shows "set (resource_routes Pluralize pfx nm proto) =
     {\<lparr>verb = ''OPTIONS'', path = pfx @ nm, handle = options_collection\<rparr>,
      \<lparr>verb = ''OPTIONS'', path = pfx @ nm @ ''/:id'', handle = options_item\<rparr>,
      \<lparr>verb = ''GET'', path = pfx @ nm, handle = to_handleIndex\<rparr>,
      \<lparr>verb = ''GET'', path = pfx @ nm @ ''/:id'', handle = to_handleRead\<rparr>,
      \<lparr>verb = ''POST'', path = pfx @ nm, handle = to_handleCreate\<rparr>,
      \<lparr>verb = ''DELETE'', path = pfx @ nm @ ''/:id'', handle = to_handleDelete\<rparr>,
      \<lparr>verb = ''PATCH'', path = pfx @ nm @ ''/:id'', handle = to_handleUpdate\<rparr>} \<union>
     (\<Union>relation \<in> set relations.
        set (relation_routes Pluralize pfx nm (ptr_EditToManyRelations proto) relation))"
  using assms by (auto simp: resource_routes_def)

lemma relation_routes_to_many:
  "(rt \<in> set (relation_routes Pluralize pfx nm editToMany relation) \<and>
    (handle rt = to_handleAddToManyRelation rel \<or> handle rt = to_handleDeleteToManyRelation rel)) =
   (rel = relation \<and> editToMany \<and> Name relation = Pluralize (Name relation) \<and>
    (rt = \<lparr>verb = ''POST'', path = pfx @ nm @ ''/:id/relationships/'' @ Name relation,
           handle = to_handleAddToManyRelation relation\<rparr> \<or>
     rt = \<lparr>verb = ''DELETE'', path = pfx @ nm @ ''/:id/relationships/'' @ Name relation,
           handle = to_handleDeleteToManyRelation relation\<rparr>))"
  by (auto simp: relation_routes_def)

lemma ex_Pluralize_words:
  "ex_Pluralize ''post'' = ''posts''" "ex_Pluralize ''author'' = ''authors''"
  "ex_Pluralize ''comments'' = ''comments''"
  by (simp_all add: ex_Pluralize_def)

lemma ex_addResource:
  "addResource ex_Pluralize (\<lambda>w. w) ex_API ex_prototype ex_source [] =
     Return (ex_API\<lparr>router := resource_routes ex_Pluralize ''/v1/'' ''posts'' ex_prototype,
               resources := [\<lparr>resourceType = TypeOf ex_prototype, source = ex_source,
                              name = ''posts'', marshalers = []\<rparr>]\<rparr>,
             \<lparr>resourceType = TypeOf ex_prototype, source = ex_source,
              name = ''posts'', marshalers = []\<rparr>)"
proof -
  have t: "Kind (TypeOf ex_prototype) = Struct" "type_Name (TypeOf ex_prototype) = ''post''"
    by (simp_all add: ex_prototype_def)
  have a: "router ex_API = []" "resources ex_API = []" "prefix_of_API ex_API = ''/v1/''"
    by (simp_all add: ex_API_def)
  show ?thesis
    unfolding addResource_def Let_def
    by (simp only: t a ex_Pluralize_words append_Nil kind.simps simp_thms if_True if_False)
qed

lemma ex_relation_routes_author:
  "relation_routes ex_Pluralize ''/v1/'' ''posts'' True \<lparr>Type = ''users'', Name = ''author''\<rparr> =
     [\<lparr>verb = ''GET'', path = ''/v1/posts/:id/relationships/author'',
       handle = to_handleReadRelation \<lparr>Type = ''users'', Name = ''author''\<rparr>\<rparr>,
      \<lparr>verb = ''GET'', path = ''/v1/posts/:id/author'',
       handle = to_handleLinked \<lparr>Type = ''users'', Name = ''author''\<rparr>\<rparr>,
      \<lparr>verb = ''PATCH'', path = ''/v1/posts/:id/relationships/author'',
       handle = to_handleReplaceRelation \<lparr>Type = ''users'', Name = ''author''\<rparr>\<rparr>]"
  by (simp add: relation_routes_def ex_Pluralize_words)

lemma ex_relation_routes_comments:
  "relation_routes ex_Pluralize ''/v1/'' ''posts'' True \<lparr>Type = ''comments'', Name = ''comments''\<rparr> =
     [\<lparr>verb = ''GET'', path = ''/v1/posts/:id/relationships/comments'',
       handle = to_handleReadRelation \<lparr>Type = ''comments'', Name = ''comments''\<rparr>\<rparr>,
      \<lparr>verb = ''GET'', path = ''/v1/posts/:id/comments'',
       handle = to_handleLinked \<lparr>Type = ''comments'', Name = ''comments''\<rparr>\<rparr>,
      \<lparr>verb = ''PATCH'', path = ''/v1/posts/:id/relationships/comments'',
       handle = to_handleReplaceRelation \<lparr>Type = ''comments'', Name = ''comments''\<rparr>\<rparr>,
      \<lparr>verb = ''POST'', path = ''/v1/posts/:id/relationships/comments'',
       handle = to_handleAddToManyRelation \<lparr>Type = ''comments'', Name = ''comments''\<rparr>\<rparr>,
      \<lparr>verb = ''DELETE'', path = ''/v1/posts/:id/relationships/comments'',
       handle = to_handleDeleteToManyRelation \<lparr>Type = ''comments'', Name = ''comments''\<rparr>\<rparr>]"
  by (simp add: relation_routes_def ex_Pluralize_words)

lemma ex_resource_routes:
  "resource_routes ex_Pluralize ''/v1/'' ''posts'' ex_prototype =
     [\<lparr>verb = ''OPTIONS'', path = ''/v1/posts'', handle = options_collection\<rparr>,
      \<lparr>verb = ''OPTIONS'', path = ''/v1/posts/:id'', handle = options_item\<rparr>,
      \<lparr>verb = ''GET'', path = ''/v1/posts'', handle = to_handleIndex\<rparr>,
      \<lparr>verb = ''GET'', path = ''/v1/posts/:id'', handle = to_handleRead\<rparr>] @
     relation_routes ex_Pluralize ''/v1/'' ''posts'' True \<lparr>Type = ''users'', Name = ''author''\<rparr> @
     relation_routes ex_Pluralize ''/v1/'' ''posts'' True \<lparr>Type = ''comments'', Name = ''comments''\<rparr> @
     [\<lparr>verb = ''POST'', path = ''/v1/posts'', handle = to_handleCreate\<rparr>,
      \<lparr>verb = ''DELETE'', path = ''/v1/posts/:id'', handle = to_handleDelete\<rparr>,
      \<lparr>verb = ''PATCH'', path = ''/v1/posts/:id'', handle = to_handleUpdate\<rparr>]"
  by (simp add: resource_routes_def ex_prototype_def)


text \<open>
  Claim C8, as amended. When a resource is registered with a prototype that declares
  relationships and whose pointer supports the to-many mutation capability, then for
  each declared relationship whose name is its own plural (\<^verbatim>\<open>relation.Name ==
  jsonapi.Pluralize(relation.Name)\<close>) the \<^verbatim>\<open>POST\<close> and \<^verbatim>\<open>DELETE\<close> routes on prefix, name,
  \<^verbatim>\<open>/:id/relationships/\<close> and the relationship's name are registered; for a
  relationship whose name is not its own plural, or when the capability is missing, the
  registration adds no route that adds or removes linked ids of that relationship.
\<close>

theorem addResource_to_many_routes:
  assumes "addResource Pluralize Jsonify api proto src ms = Return (api', res)"
    and "MarshalReferences proto = Some relations"
    and "relation \<in> set relations"
  shows
   "(ptr_EditToManyRelations proto \<and> Name relation = Pluralize (Name relation) \<longrightarrow>
       \<lparr>verb = ''POST'',
        path = prefix_of_API api @ name res @ ''/:id/relationships/'' @ Name relation,
        handle = to_handleAddToManyRelation relation\<rparr> \<in> set (router api') \<and>
       \<lparr>verb = ''DELETE'',
        path = prefix_of_API api @ name res @ ''/:id/relationships/'' @ Name relation,
        handle = to_handleDeleteToManyRelation relation\<rparr> \<in> set (router api')) \<and>
    (\<not> (ptr_EditToManyRelations proto \<and> Name relation = Pluralize (Name relation)) \<longrightarrow>
       (\<forall>rt \<in> set (router api') - set (router api).
          handle rt \<noteq> to_handleAddToManyRelation relation \<and>
          handle rt \<noteq> to_handleDeleteToManyRelation relation))"
proof -
  define plain where "plain =
     {\<lparr>verb = ''OPTIONS'', path = prefix_of_API api @ name res, handle = options_collection\<rparr>,
      \<lparr>verb = ''OPTIONS'', path = prefix_of_API api @ name res @ ''/:id'', handle = options_item\<rparr>,
      \<lparr>verb = ''GET'', path = prefix_of_API api @ name res, handle = to_handleIndex\<rparr>,
      \<lparr>verb = ''GET'', path = prefix_of_API api @ name res @ ''/:id'', handle = to_handleRead\<rparr>,
      \<lparr>verb = ''POST'', path = prefix_of_API api @ name res, handle = to_handleCreate\<rparr>,
      \<lparr>verb = ''DELETE'', path = prefix_of_API api @ name res @ ''/:id'', handle = to_handleDelete\<rparr>,
      \<lparr>verb = ''PATCH'', path = prefix_of_API api @ name res @ ''/:id'', handle = to_handleUpdate\<rparr>}"
  define rel where "rel = (\<lambda>relation. set (relation_routes Pluralize (prefix_of_API api) (name res)
      (ptr_EditToManyRelations proto) relation))"
  define add where "add = \<lparr>verb = ''POST'',
        path = prefix_of_API api @ name res @ ''/:id/relationships/'' @ Name relation,
        handle = to_handleAddToManyRelation relation\<rparr>"
  define del where "del = \<lparr>verb = ''DELETE'',
        path = prefix_of_API api @ name res @ ''/:id/relationships/'' @ Name relation,
        handle = to_handleDeleteToManyRelation relation\<rparr>"
  have s: "set (router api') = set (router api) \<union> (plain \<union> (\<Union>relation \<in> set relations. rel relation))"
    unfolding plain_def rel_def
    by (simp only: addResource_Return(2) [OF assms(1)] set_append
        resource_routes_relations [OF assms(2)])
  have plain: "\<forall>x \<in> plain. handle x \<noteq> to_handleAddToManyRelation relation \<and>
      handle x \<noteq> to_handleDeleteToManyRelation relation"
    unfolding plain_def by simp
  have pos: "ptr_EditToManyRelations proto \<and> Name relation = Pluralize (Name relation) \<longrightarrow>
      add \<in> set (router api') \<and> del \<in> set (router api')"
  proof
    assume a: "ptr_EditToManyRelations proto \<and> Name relation = Pluralize (Name relation)"
    have "add \<in> rel relation" and "del \<in> rel relation"
      unfolding add_def del_def rel_def using a by (simp_all add: relation_routes_def)
    with assms(3) have "add \<in> (\<Union>relation \<in> set relations. rel relation)"
      and "del \<in> (\<Union>relation \<in> set relations. rel relation)"
      by blast+
    then show "add \<in> set (router api') \<and> del \<in> set (router api')"
      unfolding s by blast
  qed
  have neg: "\<not> (ptr_EditToManyRelations proto \<and> Name relation = Pluralize (Name relation)) \<longrightarrow>
       (\<forall>rt \<in> set (router api') - set (router api).
          handle rt \<noteq> to_handleAddToManyRelation relation \<and>
          handle rt \<noteq> to_handleDeleteToManyRelation relation)"
  proof (intro impI ballI)
    fix rt
    assume a: "\<not> (ptr_EditToManyRelations proto \<and> Name relation = Pluralize (Name relation))"
      and m: "rt \<in> set (router api') - set (router api)"
    show "handle rt \<noteq> to_handleAddToManyRelation relation \<and>
          handle rt \<noteq> to_handleDeleteToManyRelation relation"
    proof (rule ccontr)
      assume "\<not> (handle rt \<noteq> to_handleAddToManyRelation relation \<and>
          handle rt \<noteq> to_handleDeleteToManyRelation relation)"
      then have h: "handle rt = to_handleAddToManyRelation relation \<or>
          handle rt = to_handleDeleteToManyRelation relation"
        by blast
      from m have "rt \<in> plain \<or> rt \<in> (\<Union>relation \<in> set relations. rel relation)"
        unfolding s by blast
      moreover have "rt \<notin> plain"
        using h plain by blast
      ultimately obtain r where "r \<in> set relations" and "rt \<in> rel r"
        by blast
      with h have "ptr_EditToManyRelations proto \<and> Name relation = Pluralize (Name relation)"
        using relation_routes_to_many [of rt Pluralize "prefix_of_API api" "name res"
            "ptr_EditToManyRelations proto" r relation]
        unfolding rel_def by blast
      with a show False
        by blast
    qed
  qed
  show ?thesis
    using pos neg unfolding add_def del_def by (rule conjI)
qed



text \<open>
  The claim as first stated gives the two routes to each declared relationship. The
  prototype of the small instance supports the capability and declares the
  relationship \<^verbatim>\<open>author\<close>, whose plural is another word: the only routes registered on
  \<^verbatim>\<open>/v1/posts/:id/relationships/author\<close> are the \<^verbatim>\<open>GET\<close> and the \<^verbatim>\<open>PATCH\<close>.
\<close>

theorem addResource_to_many_routes_counterexample:
  "ptr_EditToManyRelations ex_prototype \<and>
   MarshalReferences ex_prototype =
     Some [\<lparr>Type = ''users'', Name = ''author''\<rparr>, \<lparr>Type = ''comments'', Name = ''comments''\<rparr>] \<and>
   (case addResource ex_Pluralize (\<lambda>w. w) ex_API ex_prototype ex_source [] of
      Return (api', res) \<Rightarrow>
        name res = ''posts'' \<and>
        filter (\<lambda>rt. path rt = ''/v1/posts/:id/relationships/author'') (router api') =
          [\<lparr>verb = ''GET'', path = ''/v1/posts/:id/relationships/author'',
            handle = to_handleReadRelation \<lparr>Type = ''users'', Name = ''author''\<rparr>\<rparr>,
           \<lparr>verb = ''PATCH'', path = ''/v1/posts/:id/relationships/author'',
            handle = to_handleReplaceRelation \<lparr>Type = ''users'', Name = ''author''\<rparr>\<rparr>]
    | Panic msg \<Rightarrow> False)"
proof -
  have p: "ptr_EditToManyRelations ex_prototype"
    "MarshalReferences ex_prototype =
     Some [\<lparr>Type = ''users'', Name = ''author''\<rparr>, \<lparr>Type = ''comments'', Name = ''comments''\<rparr>]"
    by (simp_all add: ex_prototype_def)
  have f: "filter (\<lambda>rt. path rt = ''/v1/posts/:id/relationships/author'')
      (resource_routes ex_Pluralize ''/v1/'' ''posts'' ex_prototype) =
          [\<lparr>verb = ''GET'', path = ''/v1/posts/:id/relationships/author'',
            handle = to_handleReadRelation \<lparr>Type = ''users'', Name = ''author''\<rparr>\<rparr>,
           \<lparr>verb = ''PATCH'', path = ''/v1/posts/:id/relationships/author'',
            handle = to_handleReplaceRelation \<lparr>Type = ''users'', Name = ''author''\<rparr>\<rparr>]"
    unfolding ex_resource_routes ex_relation_routes_author ex_relation_routes_comments
    by simp
  show ?thesis
    using p f by (simp add: ex_addResource)
qed


theorem addResource_to_many_routes_witness:
  "addResource ex_Pluralize (\<lambda>w. w) ex_API ex_prototype ex_source [] =
     Return (ex_API\<lparr>router := resource_routes ex_Pluralize ''/v1/'' ''posts'' ex_prototype,
               resources := [\<lparr>resourceType = TypeOf ex_prototype, source = ex_source,
                              name = ''posts'', marshalers = []\<rparr>]\<rparr>,
             \<lparr>resourceType = TypeOf ex_prototype, source = ex_source,
              name = ''posts'', marshalers = []\<rparr>) \<and>
   \<lparr>verb = ''POST'', path = ''/v1/posts/:id/relationships/comments'',
    handle = to_handleAddToManyRelation \<lparr>Type = ''comments'', Name = ''comments''\<rparr>\<rparr>
     \<in> set (resource_routes ex_Pluralize ''/v1/'' ''posts'' ex_prototype) \<and>
   \<lparr>verb = ''DELETE'', path = ''/v1/posts/:id/relationships/comments'',
    handle = to_handleDeleteToManyRelation \<lparr>Type = ''comments'', Name = ''comments''\<rparr>\<rparr>
     \<in> set (resource_routes ex_Pluralize ''/v1/'' ''posts'' ex_prototype) \<and>
   list_all (\<lambda>rt. handle rt \<noteq> to_handleAddToManyRelation \<lparr>Type = ''users'', Name = ''author''\<rparr> \<and>
                  handle rt \<noteq> to_handleDeleteToManyRelation \<lparr>Type = ''users'', Name = ''author''\<rparr>)
     (resource_routes ex_Pluralize ''/v1/'' ''posts'' ex_prototype)"
proof -
  have p: "MarshalReferences ex_prototype =
     Some [\<lparr>Type = ''users'', Name = ''author''\<rparr>, \<lparr>Type = ''comments'', Name = ''comments''\<rparr>]"
    "ptr_EditToManyRelations ex_prototype"
    by (simp_all add: ex_prototype_def)
  have a: "router ex_API = []" "prefix_of_API ex_API = ''/v1/''"
    by (simp_all add: ex_API_def)
  note comments = addResource_to_many_routes [OF ex_addResource p(1),
      of "\<lparr>Type = ''comments'', Name = ''comments''\<rparr>"]
  note author = addResource_to_many_routes [OF ex_addResource p(1),
      of "\<lparr>Type = ''users'', Name = ''author''\<rparr>"]
  have c: "\<lparr>verb = ''POST'', path = ''/v1/posts/:id/relationships/comments'',
      handle = to_handleAddToManyRelation \<lparr>Type = ''comments'', Name = ''comments''\<rparr>\<rparr>
       \<in> set (resource_routes ex_Pluralize ''/v1/'' ''posts'' ex_prototype) \<and>
     \<lparr>verb = ''DELETE'', path = ''/v1/posts/:id/relationships/comments'',
      handle = to_handleDeleteToManyRelation \<lparr>Type = ''comments'', Name = ''comments''\<rparr>\<rparr>
       \<in> set (resource_routes ex_Pluralize ''/v1/'' ''posts'' ex_prototype)"
    using comments [THEN conjunct1] p(2)
    by (simp add: a ex_Pluralize_words)
  have d: "list_all (\<lambda>rt. handle rt \<noteq> to_handleAddToManyRelation \<lparr>Type = ''users'', Name = ''author''\<rparr> \<and>
                  handle rt \<noteq> to_handleDeleteToManyRelation \<lparr>Type = ''users'', Name = ''author''\<rparr>)
     (resource_routes ex_Pluralize ''/v1/'' ''posts'' ex_prototype)"
    using author [THEN conjunct2]
    by (simp add: a ex_Pluralize_words list_all_iff)
  show ?thesis
    using c d ex_addResource by simp
qed

section \<open>The count of a tree of structured errors\<close>

text \<open>
  What the test of \<^verbatim>\<open>error_test.go\<close> says about any operation it is run on. An
  operation that adds the child's count, as the spec has it, doubles the count with
  each append of an error to itself, so it cannot pass the test, whatever count a new
  error starts with.
\<close>

lemma self_append_count:
  assumes "\<And>p c. errorsCount (add p c) = errorsCount p + errorsCount c"
  shows "errorsCount (((\<lambda>e. add e e) ^^ n) e) = 2 ^ n * errorsCount e"
  by (induction n) (simp_all add: assms)

lemma count_law_against_test:
  assumes "\<And>p c. errorsCount (add p c) = errorsCount p + errorsCount c"
  shows "\<not> can_create_array_tree add e"
proof
  assume "can_create_array_tree add e"
  then have "errorsCount (((\<lambda>e. add e e) ^^ 20) e) = 20"
    by (simp add: can_create_array_tree_def Let_def)
  then have "(2::int) ^ 20 * errorsCount e = 20"
    by (simp only: self_append_count [OF assms])
  then have "(2::int) ^ 20 dvd 20"
    by (metis dvd_triv_left)
  then show False
    by simp
qed









end
